theory Spec2Isabelle
  imports Complex_Main "HOL-Library.Word"
begin

unbundle bit_operations_syntax

section \<open>Errors and PCM buffers\<close>

text \<open>
  Exceptions of the JavaScript source are values: every \<open>throw\<close>, every property read
  on \<open>null\<close>, every call of something that is not a function and every unresolvable
  identifier is a branch returning \<open>Inl\<close>.  \<open>Error\<close> carries the message the source
  gives it, \<open>ReferenceError\<close> the identifier; \<open>IndexSizeError\<close> is what
  \<open>getChannelData\<close> raises for a channel index out of range, \<open>RangeError\<close> what a
  \<open>DataView\<close> raises for an access outside its bytes.
\<close>

datatype js_error =
    Error string
  | TypeError
  | ReferenceError string
  | IndexSizeError
  | RangeError

text \<open>
  A Web Audio \<open>AudioBuffer\<close>: a sample rate, a frame count and one sample array per
  channel.  \<open>numberOfChannels\<close> is the number of channel arrays.  Samples are modelled as
  real numbers: the rounding of IEEE-754 arithmetic, infinities and NaN are not represented.
\<close>

record AudioBuffer =
  ab_sampleRate :: nat
  ab_length :: nat
  ab_channels :: "real list list"

definition numberOfChannels :: "AudioBuffer \<Rightarrow> nat" where
  "numberOfChannels b = length (ab_channels b)"

definition getChannelData :: "AudioBuffer \<Rightarrow> nat \<Rightarrow> js_error + real list" where
  "getChannelData b ch =
     (if ch < numberOfChannels b then Inr (ab_channels b ! ch) else Inl IndexSizeError)"

text \<open>Every channel array of an \<open>AudioBuffer\<close> holds exactly \<open>length\<close> samples.\<close>

definition valid_buffer :: "AudioBuffer \<Rightarrow> bool" where
  "valid_buffer b \<longleftrightarrow>
     1 \<le> numberOfChannels b \<and> 1 \<le> ab_length b \<and>
     list_all (\<lambda>ch. length ch = ab_length b) (ab_channels b)"

section \<open>Analysis engine (audioAnalysis.js)\<close>

text \<open>
  \<open>calculateLUFS\<close>: mean square, square root, \<open>-0.691 + 10 * log10 rms\<close>, clamped to
  \<open>[-70, 0]\<close>.  On an empty array the source divides \<open>0 / 0\<close>, gets NaN, and the test
  \<open>rms > 0\<close> is false; here \<open>0 / 0 = 0\<close> and the same branch is taken.
\<close>

definition calculateLUFS :: "real list \<Rightarrow> real" where
  "calculateLUFS samples =
     (let sumSquared = fold (\<lambda>sample acc. acc + sample * sample) samples 0;
          rms = sqrt (sumSquared / real (length samples));
          lufs = (if rms > 0 then - 0.691 + 10 * log 10 rms else - 70)
      in max (- 70) (min 0 lufs))"

text \<open>
  The \<open>integratedLUFS\<close> field of the record returned by \<open>AudioAnalysis.analyze\<close>: the
  loudness of channel 0.  The other fields of the record (spectral fractions read from the
  host's analyser node, short-term windows, correlation) are not part of this development.
\<close>

definition analyze_integratedLUFS :: "AudioBuffer \<Rightarrow> js_error + real" where
  "analyze_integratedLUFS audioBuffer =
     (case getChannelData audioBuffer 0 of
        Inl e \<Rightarrow> Inl e
      | Inr samples \<Rightarrow> Inr (calculateLUFS samples))"

section \<open>DSP primitive library (dspModules.js)\<close>

subsection \<open>Soft clipper\<close>

text \<open>
  Samples are modelled as real numbers: the rounding of IEEE-754 arithmetic is not
  represented.  \<open>SoftClipper\<close> has two construction parameters and no mutable state.
\<close>

record SoftClipper =
  sc_drive :: real
  sc_threshold :: real

definition SoftClipper_process :: "SoftClipper \<Rightarrow> real \<Rightarrow> real" where
  "SoftClipper_process c sample =
     (let driven = sample * sc_drive c in
      if \<bar>driven\<bar> > sc_threshold c then
        (let sign = (if driven > 0 then 1 else - 1);
             excess = \<bar>driven\<bar> - sc_threshold c
         in sign * (sc_threshold c + (1 - sc_threshold c) * tanh (excess / (1 - sc_threshold c))))
      else driven)"

subsection \<open>Measurement record\<close>

text \<open>
  The fields of the record produced by \<open>AudioAnalysis.analyze\<close> that the presets read.
  All of them are numbers there, so \<open>x || d\<close> on such a field yields \<open>d\<close> exactly when
  the field is zero (NaN is not represented); \<open>spectralBalance\<close> is an object and
  \<open>spectralBalance || {high: 0.33}\<close> is that object.
\<close>

record SpectralBalance =
  sb_low :: real
  sb_mid :: real
  sb_high :: real

record AnalysisData =
  ad_integratedLUFS :: real
  ad_dynamicRange :: real
  ad_crestFactor :: real
  ad_spectralBalance :: SpectralBalance
  ad_vocalDominance :: real
  ad_harshness :: real
  ad_mud :: real
  ad_bassStability :: real

definition js_or :: "real \<Rightarrow> real \<Rightarrow> real" where
  "js_or x d = (if x = 0 then d else x)"

subsection \<open>Dynamic EQ\<close>

record DynamicEQ =
  deq_frequency :: real
  deq_q :: real
  deq_threshold :: real
  deq_ratio :: real
  deq_attack :: real
  deq_release :: real
  deq_gain :: real
  deq_envelope :: real
  deq_sampleRate :: real

definition new_DynamicEQ ::
  "real \<Rightarrow> real \<Rightarrow> real \<Rightarrow> real \<Rightarrow> real \<Rightarrow> real \<Rightarrow> real \<Rightarrow> DynamicEQ" where
  "new_DynamicEQ frequency q threshold ratio attack release gain =
     \<lparr>deq_frequency = frequency, deq_q = q, deq_threshold = threshold, deq_ratio = ratio,
      deq_attack = attack, deq_release = release, deq_gain = gain,
      deq_envelope = 0, deq_sampleRate = 44100\<rparr>"

definition DynamicEQ_setSampleRate :: "DynamicEQ \<Rightarrow> real \<Rightarrow> DynamicEQ" where
  "DynamicEQ_setSampleRate d sampleRate = d\<lparr>deq_sampleRate := sampleRate\<rparr>"

definition DynamicEQ_process :: "DynamicEQ \<Rightarrow> real \<Rightarrow> real \<Rightarrow> DynamicEQ \<times> real" where
  "DynamicEQ_process d sample inputLevel =
     (let target = \<bar>inputLevel\<bar>;
          coeff = (if target > deq_envelope d
                   then exp (- 1 / (deq_attack d * deq_sampleRate d))
                   else exp (- 1 / (deq_release d * deq_sampleRate d)));
          envelope = target + (deq_envelope d - target) * coeff;
          dbLevel = 20 * log 10 (envelope + 1 / 10 ^ 10);
          gainReduction =
            (if dbLevel > deq_threshold d
             then (let excess = dbLevel - deq_threshold d
                   in min (excess / deq_ratio d) (deq_gain d))
             else 0);
          gainLinear = 10 powr (- gainReduction / 20)
      in (d\<lparr>deq_envelope := envelope\<rparr>, sample * gainLinear))"

subsection \<open>Adaptive compressor\<close>

record AdaptiveCompressor =
  ac_threshold :: real
  ac_ratio :: real
  ac_attack :: real
  ac_release :: real
  ac_knee :: real
  ac_makeupGain :: real
  ac_envelope :: real
  ac_sampleRate :: real

definition new_AdaptiveCompressor ::
  "real \<Rightarrow> real \<Rightarrow> real \<Rightarrow> real \<Rightarrow> real \<Rightarrow> real \<Rightarrow> AdaptiveCompressor" where
  "new_AdaptiveCompressor threshold ratio attack release knee makeupGain =
     \<lparr>ac_threshold = threshold, ac_ratio = ratio, ac_attack = attack, ac_release = release,
      ac_knee = knee, ac_makeupGain = makeupGain, ac_envelope = 0, ac_sampleRate = 44100\<rparr>"

definition AdaptiveCompressor_setSampleRate ::
  "AdaptiveCompressor \<Rightarrow> real \<Rightarrow> AdaptiveCompressor" where
  "AdaptiveCompressor_setSampleRate c sampleRate = c\<lparr>ac_sampleRate := sampleRate\<rparr>"

definition adaptThreshold :: "AdaptiveCompressor \<Rightarrow> AnalysisData \<Rightarrow> AdaptiveCompressor" where
  "adaptThreshold c analysisData =
     (let dynamicRange = js_or (ad_dynamicRange analysisData) 12;
          targetRange = 8
      in if dynamicRange > targetRange
         then c\<lparr>ac_threshold := - 12 - (dynamicRange - targetRange) * 0.5\<rparr>
         else c)"

definition AdaptiveCompressor_process ::
  "AdaptiveCompressor \<Rightarrow> real \<Rightarrow> AdaptiveCompressor \<times> real" where
  "AdaptiveCompressor_process c sample =
     (let inputLevel = \<bar>sample\<bar>;
          target = inputLevel;
          coeff = (if target > ac_envelope c
                   then exp (- 1 / (ac_attack c * ac_sampleRate c))
                   else exp (- 1 / (ac_release c * ac_sampleRate c)));
          envelope = target + (ac_envelope c - target) * coeff;
          dbLevel = 20 * log 10 (envelope + 1 / 10 ^ 10);
          gainReduction =
            (if dbLevel > ac_threshold c - ac_knee c / 2 then
               (if dbLevel < ac_threshold c + ac_knee c / 2 then
                  (let excess = dbLevel - (ac_threshold c - ac_knee c / 2)
                   in (excess / ac_knee c) * (excess / ac_ratio c))
                else
                  (let excess = dbLevel - ac_threshold c
                   in excess - (excess / ac_ratio c)))
             else 0);
          gainLinear = 10 powr ((- gainReduction + ac_makeupGain c) / 20)
      in (c\<lparr>ac_envelope := envelope\<rparr>, sample * gainLinear))"

subsection \<open>Limiter\<close>

record Limiter =
  lim_ceiling :: real
  lim_release :: real
  lim_gainReduction :: real
  lim_sampleRate :: real

definition new_Limiter :: "real \<Rightarrow> real \<Rightarrow> Limiter" where
  "new_Limiter ceiling_lin release =
     \<lparr>lim_ceiling = ceiling_lin, lim_release = release,
      lim_gainReduction = 1.0, lim_sampleRate = 44100\<rparr>"

definition Limiter_setSampleRate :: "Limiter \<Rightarrow> real \<Rightarrow> Limiter" where
  "Limiter_setSampleRate l sampleRate = l\<lparr>lim_sampleRate := sampleRate\<rparr>"

definition Limiter_process :: "Limiter \<Rightarrow> real \<Rightarrow> Limiter \<times> real" where
  "Limiter_process l sample =
     (let absSample = \<bar>sample\<bar>;
          gainReduction =
            (if absSample > lim_ceiling l then
               (let targetGain = lim_ceiling l / (absSample + 1 / 10 ^ 10)
                in min (lim_gainReduction l) targetGain)
             else
               (let releaseCoeff = exp (- 1 / (lim_release l * lim_sampleRate l));
                    gainReduction = 1.0 + (lim_gainReduction l - 1.0) * releaseCoeff
                in min 1.0 gainReduction))
      in (l\<lparr>lim_gainReduction := gainReduction\<rparr>, sample * gainReduction))"

subsection \<open>Mid/side processor\<close>

record MidSideProcessor =
  ms_width :: real

definition MidSideProcessor_process :: "MidSideProcessor \<Rightarrow> real \<Rightarrow> real \<Rightarrow> real \<times> real" where
  "MidSideProcessor_process m left right =
     (let mid = (left + right) * 0.5;
          side = (left - right) * 0.5;
          processedSide = side * ms_width m
      in (mid + processedSide, mid - processedSide))"

subsection \<open>Mono bass processor\<close>

text \<open>
  A one-pole low-pass per channel; the two low-passed values are the state.  The constructor
  derives the coefficient \<open>alpha\<close> from the cutoff and the sample rate.
\<close>

record MonoBassProcessor =
  mb_cutoff :: real
  mb_sampleRate :: real
  mb_alpha :: real
  mb_leftLP :: real
  mb_rightLP :: real

definition new_MonoBassProcessor :: "real \<Rightarrow> real \<Rightarrow> MonoBassProcessor" where
  "new_MonoBassProcessor cutoff sampleRate =
     (let rc = 1 / (cutoff * 2 * pi);
          dt = 1 / sampleRate
      in \<lparr>mb_cutoff = cutoff, mb_sampleRate = sampleRate, mb_alpha = dt / (rc + dt),
          mb_leftLP = 0, mb_rightLP = 0\<rparr>)"

definition MonoBassProcessor_process ::
  "MonoBassProcessor \<Rightarrow> real \<Rightarrow> real \<Rightarrow> MonoBassProcessor \<times> real \<times> real" where
  "MonoBassProcessor_process p left right =
     (let leftLP = mb_leftLP p + mb_alpha p * (left - mb_leftLP p);
          rightLP = mb_rightLP p + mb_alpha p * (right - mb_rightLP p);
          mono = (leftLP + rightLP) * 0.5
      in (p\<lparr>mb_leftLP := leftLP, mb_rightLP := rightLP\<rparr>,
          left - leftLP + mono, right - rightLP + mono))"


section \<open>Pitch corrector (advancedPitchCorrector.js)\<close>

text \<open>
  \<open>AdvancedPitchCorrector\<close> enters the presets through three operations: its constructor,
  \<open>reset\<close> and \<open>processSample\<close>.  They work on the corrector's own arrays and scalars
  (ring buffer, pitch history, delay line), in loops bounded by the window size, and have no
  \<open>throw\<close>; they never see the audio buffer.  Their arithmetic (autocorrelation, parabolic
  and cubic interpolation) is kept as a parameter: the corrector's state is a type variable
  and the three operations are given as functions, so that what is proved about the preset
  engine holds for every behaviour of the corrector.  \<open>processStereo\<close> is the source's:
  left sample first, then right.
\<close>

record 'p PitchCorrectorOps =
  pc_new :: "real \<Rightarrow> real \<Rightarrow> real \<Rightarrow> 'p"
  pc_reset :: "'p \<Rightarrow> 'p"
  pc_processSample :: "'p \<Rightarrow> real \<Rightarrow> 'p \<times> real"

definition processStereo :: "'p PitchCorrectorOps \<Rightarrow> 'p \<Rightarrow> real \<Rightarrow> real \<Rightarrow> 'p \<times> real \<times> real" where
  "processStereo ops p left right =
     (let (p, correctedLeft) = pc_processSample ops p left;
          (p, correctedRight) = pc_processSample ops p right
      in (p, correctedLeft, correctedRight))"

section \<open>Preset engine (presets.js)\<close>

subsection \<open>The three loop shapes of the presets\<close>

text \<open>
  \<open>for (i < length) for (ch < channels) { data = getChannelData(ch); data[i] = f(data[i]) }\<close>:
  one chain of stages runs over the samples frame by frame, channel 0 before channel 1.
  A write to a typed array outside its bounds is ignored, as \<open>list_update\<close> is.
\<close>

definition for_each_frame_channel ::
  "('s \<Rightarrow> real \<Rightarrow> 's \<times> real) \<Rightarrow> 's \<Rightarrow> AudioBuffer \<Rightarrow> 's \<times> AudioBuffer" where
  "for_each_frame_channel f st audioBuffer =
     (case fold (\<lambda>i acc.
               fold (\<lambda>ch (st, chans).
                       case f st (chans ! ch ! i) of
                         (st', sample) \<Rightarrow> (st', chans[ch := (chans ! ch)[i := sample]]))
                 [0..<numberOfChannels audioBuffer] acc)
             [0..<ab_length audioBuffer] (st, ab_channels audioBuffer) of
        (st', chans) \<Rightarrow> (st', audioBuffer\<lparr>ab_channels := chans\<rparr>))"

text \<open>
  \<open>left = getChannelData(0); right = getChannelData(1); for (i < length) { ... }\<close>: the
  stereo branch, taken when there are at least two channels.
\<close>

definition for_each_stereo_frame ::
  "('s \<Rightarrow> real \<Rightarrow> real \<Rightarrow> 's \<times> real \<times> real) \<Rightarrow> 's \<Rightarrow> AudioBuffer \<Rightarrow> 's \<times> AudioBuffer" where
  "for_each_stereo_frame f st audioBuffer =
     (case fold (\<lambda>i (st, left, right).
               case f st (left ! i) (right ! i) of
                 (st', l, r) \<Rightarrow> (st', left[i := l], right[i := r]))
             [0..<ab_length audioBuffer]
             (st, ab_channels audioBuffer ! 0, ab_channels audioBuffer ! 1) of
        (st', left, right) \<Rightarrow>
          (st', audioBuffer\<lparr>ab_channels := (ab_channels audioBuffer)[0 := left, 1 := right]\<rparr>))"

text \<open>\<open>data = getChannelData(0); for (i < length) data[i] = f(data[i])\<close>: the mono branch.\<close>

definition for_each_mono_frame ::
  "('s \<Rightarrow> real \<Rightarrow> 's \<times> real) \<Rightarrow> 's \<Rightarrow> AudioBuffer \<Rightarrow> 's \<times> AudioBuffer" where
  "for_each_mono_frame f st audioBuffer =
     (case fold (\<lambda>i (st, data).
               case f st (data ! i) of (st', sample) \<Rightarrow> (st', data[i := sample]))
             [0..<ab_length audioBuffer] (st, ab_channels audioBuffer ! 0) of
        (st', data) \<Rightarrow> (st', audioBuffer\<lparr>ab_channels := (ab_channels audioBuffer)[0 := data]\<rparr>))"

subsection \<open>The sixteen preset classes\<close>

datatype 'p Preset =
    DeHarshPreset DynamicEQ AdaptiveCompressor SoftClipper Limiter
  | MudRemoverPreset DynamicEQ AdaptiveCompressor MonoBassProcessor Limiter
  | BassTamerPreset DynamicEQ AdaptiveCompressor MonoBassProcessor Limiter
  | VintageWarmthPreset AdaptiveCompressor SoftClipper Limiter
  | ModernBrightPreset AdaptiveCompressor Limiter
  | LoFiCharacterPreset AdaptiveCompressor SoftClipper Limiter
  | NeoSoulPreset AdaptiveCompressor SoftClipper Limiter
  | FestivalBangerPreset AdaptiveCompressor SoftClipper Limiter MonoBassProcessor
  | FocusCenterPreset AdaptiveCompressor MidSideProcessor Limiter
  | ImmersivePreset AdaptiveCompressor MidSideProcessor Limiter
  | WideSpaciousPreset AdaptiveCompressor MidSideProcessor MonoBassProcessor Limiter
  | VocalForwardPreset DynamicEQ AdaptiveCompressor Limiter
  | SmoothMidsPreset DynamicEQ AdaptiveCompressor Limiter
  | DynamicClearPreset AdaptiveCompressor Limiter
  | MaximumImpactPreset AdaptiveCompressor SoftClipper Limiter MonoBassProcessor
  | BigCappoPreset 'p DynamicEQ AdaptiveCompressor SoftClipper Limiter

text \<open>The constructors of the preset classes, with the stage parameters of the source.\<close>

definition new_DeHarshPreset :: "real \<Rightarrow> 'p Preset" where
  "new_DeHarshPreset sampleRate =
     DeHarshPreset
       (DynamicEQ_setSampleRate (new_DynamicEQ 3500 2.0 (- 12) 3.0 0.003 0.1 (- 6)) sampleRate)
       (AdaptiveCompressor_setSampleRate (new_AdaptiveCompressor (- 10) 3.0 0.003 0.1 2.0 1.0) sampleRate)
       (\<lparr>sc_drive = 1.2, sc_threshold = 0.8\<rparr>)
       (Limiter_setSampleRate (new_Limiter 0.95 0.05) sampleRate)"

definition new_MudRemoverPreset :: "real \<Rightarrow> 'p Preset" where
  "new_MudRemoverPreset sampleRate =
     MudRemoverPreset
       (DynamicEQ_setSampleRate (new_DynamicEQ 250 1.5 (- 15) 4.0 0.005 0.15 (- 8)) sampleRate)
       (AdaptiveCompressor_setSampleRate (new_AdaptiveCompressor (- 12) 2.5 0.003 0.08 1.5 0.5) sampleRate)
       (new_MonoBassProcessor 120 sampleRate)
       (Limiter_setSampleRate (new_Limiter 0.95 0.05) sampleRate)"

definition new_BassTamerPreset :: "real \<Rightarrow> 'p Preset" where
  "new_BassTamerPreset sampleRate =
     BassTamerPreset
       (DynamicEQ_setSampleRate (new_DynamicEQ 60 1.0 (- 10) 5.0 0.01 0.2 (- 10)) sampleRate)
       (AdaptiveCompressor_setSampleRate (new_AdaptiveCompressor (- 8) 4.0 0.01 0.15 2.0 1.5) sampleRate)
       (new_MonoBassProcessor 120 sampleRate)
       (Limiter_setSampleRate (new_Limiter 0.95 0.05) sampleRate)"

definition new_VintageWarmthPreset :: "real \<Rightarrow> 'p Preset" where
  "new_VintageWarmthPreset sampleRate =
     VintageWarmthPreset
       (AdaptiveCompressor_setSampleRate (new_AdaptiveCompressor (- 14) 2.0 0.01 0.2 3.0 2.0) sampleRate)
       (\<lparr>sc_drive = 1.5, sc_threshold = 0.7\<rparr>)
       (Limiter_setSampleRate (new_Limiter 0.95 0.08) sampleRate)"

definition new_ModernBrightPreset :: "real \<Rightarrow> 'p Preset" where
  "new_ModernBrightPreset sampleRate =
     ModernBrightPreset
       (AdaptiveCompressor_setSampleRate (new_AdaptiveCompressor (- 12) 3.0 0.002 0.05 1.5 1.0) sampleRate)
       (Limiter_setSampleRate (new_Limiter 0.95 0.05) sampleRate)"

definition new_LoFiCharacterPreset :: "real \<Rightarrow> 'p Preset" where
  "new_LoFiCharacterPreset sampleRate =
     LoFiCharacterPreset
       (AdaptiveCompressor_setSampleRate (new_AdaptiveCompressor (- 16) 1.8 0.02 0.3 4.0 1.5) sampleRate)
       (\<lparr>sc_drive = 2.0, sc_threshold = 0.6\<rparr>)
       (Limiter_setSampleRate (new_Limiter 0.92 0.1) sampleRate)"

definition new_NeoSoulPreset :: "real \<Rightarrow> 'p Preset" where
  "new_NeoSoulPreset sampleRate =
     NeoSoulPreset
       (AdaptiveCompressor_setSampleRate (new_AdaptiveCompressor (- 13) 2.2 0.005 0.12 2.5 1.2) sampleRate)
       (\<lparr>sc_drive = 1.3, sc_threshold = 0.75\<rparr>)
       (Limiter_setSampleRate (new_Limiter 0.95 0.06) sampleRate)"

definition new_FestivalBangerPreset :: "real \<Rightarrow> 'p Preset" where
  "new_FestivalBangerPreset sampleRate =
     FestivalBangerPreset
       (AdaptiveCompressor_setSampleRate (new_AdaptiveCompressor (- 6) 4.0 0.001 0.03 1.0 3.0) sampleRate)
       (\<lparr>sc_drive = 1.8, sc_threshold = 0.85\<rparr>)
       (Limiter_setSampleRate (new_Limiter 0.98 0.01) sampleRate)
       (new_MonoBassProcessor 120 sampleRate)"

definition new_FocusCenterPreset :: "real \<Rightarrow> 'p Preset" where
  "new_FocusCenterPreset sampleRate =
     FocusCenterPreset
       (AdaptiveCompressor_setSampleRate (new_AdaptiveCompressor (- 11) 2.8 0.003 0.08 2.0 1.0) sampleRate)
       (\<lparr>ms_width = 0.7\<rparr>)
       (Limiter_setSampleRate (new_Limiter 0.95 0.05) sampleRate)"

definition new_ImmersivePreset :: "real \<Rightarrow> 'p Preset" where
  "new_ImmersivePreset sampleRate =
     ImmersivePreset
       (AdaptiveCompressor_setSampleRate (new_AdaptiveCompressor (- 12) 2.5 0.004 0.1 2.0 1.2) sampleRate)
       (\<lparr>ms_width = 1.3\<rparr>)
       (Limiter_setSampleRate (new_Limiter 0.95 0.05) sampleRate)"

definition new_WideSpaciousPreset :: "real \<Rightarrow> 'p Preset" where
  "new_WideSpaciousPreset sampleRate =
     WideSpaciousPreset
       (AdaptiveCompressor_setSampleRate (new_AdaptiveCompressor (- 11) 2.6 0.003 0.09 2.0 1.0) sampleRate)
       (\<lparr>ms_width = 1.5\<rparr>)
       (new_MonoBassProcessor 120 sampleRate)
       (Limiter_setSampleRate (new_Limiter 0.95 0.05) sampleRate)"

definition new_VocalForwardPreset :: "real \<Rightarrow> 'p Preset" where
  "new_VocalForwardPreset sampleRate =
     VocalForwardPreset
       (DynamicEQ_setSampleRate (new_DynamicEQ 2500 1.8 (- 14) 2.5 0.002 0.06 4) sampleRate)
       (AdaptiveCompressor_setSampleRate (new_AdaptiveCompressor (- 10) 3.0 0.002 0.05 1.5 1.5) sampleRate)
       (Limiter_setSampleRate (new_Limiter 0.95 0.05) sampleRate)"

definition new_SmoothMidsPreset :: "real \<Rightarrow> 'p Preset" where
  "new_SmoothMidsPreset sampleRate =
     SmoothMidsPreset
       (DynamicEQ_setSampleRate (new_DynamicEQ 2000 2.0 (- 12) 3.5 0.004 0.12 (- 5)) sampleRate)
       (AdaptiveCompressor_setSampleRate (new_AdaptiveCompressor (- 13) 2.3 0.005 0.1 2.5 1.0) sampleRate)
       (Limiter_setSampleRate (new_Limiter 0.95 0.06) sampleRate)"

definition new_DynamicClearPreset :: "real \<Rightarrow> 'p Preset" where
  "new_DynamicClearPreset sampleRate =
     DynamicClearPreset
       (AdaptiveCompressor_setSampleRate (new_AdaptiveCompressor (- 16) 1.5 0.01 0.15 4.0 0.5) sampleRate)
       (Limiter_setSampleRate (new_Limiter 0.95 0.08) sampleRate)"

definition new_MaximumImpactPreset :: "real \<Rightarrow> 'p Preset" where
  "new_MaximumImpactPreset sampleRate =
     MaximumImpactPreset
       (AdaptiveCompressor_setSampleRate (new_AdaptiveCompressor (- 5) 4.5 0.001 0.02 0.8 4.0) sampleRate)
       (\<lparr>sc_drive = 2.0, sc_threshold = 0.88\<rparr>)
       (Limiter_setSampleRate (new_Limiter 0.99 0.005) sampleRate)
       (new_MonoBassProcessor 120 sampleRate)"

definition new_BigCappoPreset :: "'p PitchCorrectorOps \<Rightarrow> real \<Rightarrow> 'p Preset" where
  "new_BigCappoPreset ops sampleRate =
     BigCappoPreset
       (pc_new ops 25 0.2 sampleRate)
       (DynamicEQ_setSampleRate (new_DynamicEQ 3000 2.2 (- 13) 2.8 0.004 0.1 2) sampleRate)
       (AdaptiveCompressor_setSampleRate (new_AdaptiveCompressor (- 12) 2.4 0.005 0.12 2.5 1.8) sampleRate)
       (\<lparr>sc_drive = 1.4, sc_threshold = 0.75\<rparr>)
       (Limiter_setSampleRate (new_Limiter 0.95 0.06) sampleRate)"

fun getIntent :: "'p Preset \<Rightarrow> string" where
  "getIntent (DeHarshPreset dynamicEQ compressor softClipper limiter) = ''Removes harsh frequencies while preserving clarity''"
| "getIntent (MudRemoverPreset dynamicEQ compressor monoBass limiter) = ''Cleans mud and boxiness from low-mids''"
| "getIntent (BassTamerPreset dynamicEQ compressor monoBass limiter) = ''Controls and stabilizes bass frequencies''"
| "getIntent (VintageWarmthPreset compressor softClipper limiter) = ''Adds analog warmth and vintage character''"
| "getIntent (ModernBrightPreset compressor limiter) = ''Enhances high frequencies for modern clarity''"
| "getIntent (LoFiCharacterPreset compressor softClipper limiter) = ''Adds lo-fi character and vintage vibe''"
| "getIntent (NeoSoulPreset compressor softClipper limiter) = ''Smooth, soulful character for neo-soul tracks''"
| "getIntent (FestivalBangerPreset compressor softClipper limiter monoBass) = ''Maximum loudness and impact for festivals''"
| "getIntent (FocusCenterPreset compressor midSide limiter) = ''Focuses energy in center, reduces width''"
| "getIntent (ImmersivePreset compressor midSide limiter) = ''Creates immersive, wide soundstage''"
| "getIntent (WideSpaciousPreset compressor midSide monoBass limiter) = ''Maximum stereo width and spaciousness''"
| "getIntent (VocalForwardPreset dynamicEQ compressor limiter) = ''Brings vocals forward in the mix''"
| "getIntent (SmoothMidsPreset dynamicEQ compressor limiter) = ''Smooths out midrange frequencies''"
| "getIntent (DynamicClearPreset compressor limiter) = ''Preserves dynamics while adding clarity''"
| "getIntent (MaximumImpactPreset compressor softClipper limiter monoBass) = ''Maximum loudness and punch''"
| "getIntent (BigCappoPreset pitchCorrector dynamicEQ compressor softClipper limiter) = ''Emotional trap-soul vocals, human and imperfect''"

fun getLoudnessTarget :: "'p Preset \<Rightarrow> real" where
  "getLoudnessTarget (DeHarshPreset dynamicEQ compressor softClipper limiter) = - 9"
| "getLoudnessTarget (MudRemoverPreset dynamicEQ compressor monoBass limiter) = - 9"
| "getLoudnessTarget (BassTamerPreset dynamicEQ compressor monoBass limiter) = - 9"
| "getLoudnessTarget (VintageWarmthPreset compressor softClipper limiter) = - 9"
| "getLoudnessTarget (ModernBrightPreset compressor limiter) = - 9"
| "getLoudnessTarget (LoFiCharacterPreset compressor softClipper limiter) = - 9"
| "getLoudnessTarget (NeoSoulPreset compressor softClipper limiter) = - 9"
| "getLoudnessTarget (FestivalBangerPreset compressor softClipper limiter monoBass) = - 8.5"
| "getLoudnessTarget (FocusCenterPreset compressor midSide limiter) = - 9"
| "getLoudnessTarget (ImmersivePreset compressor midSide limiter) = - 9"
| "getLoudnessTarget (WideSpaciousPreset compressor midSide monoBass limiter) = - 9"
| "getLoudnessTarget (VocalForwardPreset dynamicEQ compressor limiter) = - 9"
| "getLoudnessTarget (SmoothMidsPreset dynamicEQ compressor limiter) = - 9"
| "getLoudnessTarget (DynamicClearPreset compressor limiter) = - 9"
| "getLoudnessTarget (MaximumImpactPreset compressor softClipper limiter monoBass) = - 8.5"
| "getLoudnessTarget (BigCappoPreset pitchCorrector dynamicEQ compressor softClipper limiter) = - 9"

text \<open>
  The body of each preset's sample loop, as a function of the stage objects and one sample
  (or one stereo pair): the stages are called in the order of the source, and a stage that
  processes both channels takes the left sample first.
\<close>

definition DeHarshPreset_sample ::
  "DynamicEQ \<times> AdaptiveCompressor \<times> SoftClipper \<times> Limiter \<Rightarrow> real \<Rightarrow> (DynamicEQ \<times> AdaptiveCompressor \<times> SoftClipper \<times> Limiter) \<times> real" where
  "DeHarshPreset_sample = (\<lambda>(dynamicEQ, compressor, softClipper, limiter) sample.
     (let (dynamicEQ, sample) = DynamicEQ_process dynamicEQ sample sample;
          (compressor, sample) = AdaptiveCompressor_process compressor sample;
          sample = SoftClipper_process softClipper sample;
          (limiter, sample) = Limiter_process limiter sample
      in ((dynamicEQ, compressor, softClipper, limiter), sample)))"

definition MudRemoverPreset_stereo ::
  "DynamicEQ \<times> AdaptiveCompressor \<times> MonoBassProcessor \<times> Limiter \<Rightarrow> real \<Rightarrow> real \<Rightarrow> (DynamicEQ \<times> AdaptiveCompressor \<times> MonoBassProcessor \<times> Limiter) \<times> real \<times> real" where
  "MudRemoverPreset_stereo = (\<lambda>(dynamicEQ, compressor, monoBass, limiter) l r.
     (let (monoBass, l, r) = MonoBassProcessor_process monoBass l r;
          (dynamicEQ, l) = DynamicEQ_process dynamicEQ l l;
          (dynamicEQ, r) = DynamicEQ_process dynamicEQ r r;
          (compressor, l) = AdaptiveCompressor_process compressor l;
          (compressor, r) = AdaptiveCompressor_process compressor r;
          (limiter, l) = Limiter_process limiter l;
          (limiter, r) = Limiter_process limiter r
      in ((dynamicEQ, compressor, monoBass, limiter), l, r)))"

definition MudRemoverPreset_sample ::
  "DynamicEQ \<times> AdaptiveCompressor \<times> MonoBassProcessor \<times> Limiter \<Rightarrow> real \<Rightarrow> (DynamicEQ \<times> AdaptiveCompressor \<times> MonoBassProcessor \<times> Limiter) \<times> real" where
  "MudRemoverPreset_sample = (\<lambda>(dynamicEQ, compressor, monoBass, limiter) sample.
     (let (dynamicEQ, sample) = DynamicEQ_process dynamicEQ sample sample;
          (compressor, sample) = AdaptiveCompressor_process compressor sample;
          (limiter, sample) = Limiter_process limiter sample
      in ((dynamicEQ, compressor, monoBass, limiter), sample)))"

definition BassTamerPreset_stereo ::
  "DynamicEQ \<times> AdaptiveCompressor \<times> MonoBassProcessor \<times> Limiter \<Rightarrow> real \<Rightarrow> real \<Rightarrow> (DynamicEQ \<times> AdaptiveCompressor \<times> MonoBassProcessor \<times> Limiter) \<times> real \<times> real" where
  "BassTamerPreset_stereo = (\<lambda>(dynamicEQ, compressor, monoBass, limiter) l r.
     (let (monoBass, l, r) = MonoBassProcessor_process monoBass l r;
          (dynamicEQ, l) = DynamicEQ_process dynamicEQ l l;
          (dynamicEQ, r) = DynamicEQ_process dynamicEQ r r;
          (compressor, l) = AdaptiveCompressor_process compressor l;
          (compressor, r) = AdaptiveCompressor_process compressor r;
          (limiter, l) = Limiter_process limiter l;
          (limiter, r) = Limiter_process limiter r
      in ((dynamicEQ, compressor, monoBass, limiter), l, r)))"

definition BassTamerPreset_sample ::
  "DynamicEQ \<times> AdaptiveCompressor \<times> MonoBassProcessor \<times> Limiter \<Rightarrow> real \<Rightarrow> (DynamicEQ \<times> AdaptiveCompressor \<times> MonoBassProcessor \<times> Limiter) \<times> real" where
  "BassTamerPreset_sample = (\<lambda>(dynamicEQ, compressor, monoBass, limiter) sample.
     (let (dynamicEQ, sample) = DynamicEQ_process dynamicEQ sample sample;
          (compressor, sample) = AdaptiveCompressor_process compressor sample;
          (limiter, sample) = Limiter_process limiter sample
      in ((dynamicEQ, compressor, monoBass, limiter), sample)))"

definition VintageWarmthPreset_sample ::
  "AdaptiveCompressor \<times> SoftClipper \<times> Limiter \<Rightarrow> real \<Rightarrow> (AdaptiveCompressor \<times> SoftClipper \<times> Limiter) \<times> real" where
  "VintageWarmthPreset_sample = (\<lambda>(compressor, softClipper, limiter) sample.
     (let (compressor, sample) = AdaptiveCompressor_process compressor sample;
          sample = SoftClipper_process softClipper sample;
          (limiter, sample) = Limiter_process limiter sample
      in ((compressor, softClipper, limiter), sample)))"

definition ModernBrightPreset_sample ::
  "AnalysisData \<Rightarrow> AdaptiveCompressor \<times> Limiter \<Rightarrow> real \<Rightarrow> (AdaptiveCompressor \<times> Limiter) \<times> real" where
  "ModernBrightPreset_sample analysisData = (\<lambda>(compressor, limiter) sample.
     (let spectralBalance = ad_spectralBalance analysisData;
          sample = (if sb_high spectralBalance < 0.3 then sample * 1.15 else sample);
          (compressor, sample) = AdaptiveCompressor_process compressor sample;
          (limiter, sample) = Limiter_process limiter sample
      in ((compressor, limiter), sample)))"

definition LoFiCharacterPreset_sample ::
  "AnalysisData \<Rightarrow> AdaptiveCompressor \<times> SoftClipper \<times> Limiter \<Rightarrow> real \<Rightarrow> (AdaptiveCompressor \<times> SoftClipper \<times> Limiter) \<times> real" where
  "LoFiCharacterPreset_sample analysisData = (\<lambda>(compressor, softClipper, limiter) sample.
     (let spectralBalance = ad_spectralBalance analysisData;
          sample = (if sb_high spectralBalance > 0.35 then sample * 0.92 else sample);
          (compressor, sample) = AdaptiveCompressor_process compressor sample;
          sample = SoftClipper_process softClipper sample;
          (limiter, sample) = Limiter_process limiter sample
      in ((compressor, softClipper, limiter), sample)))"

definition NeoSoulPreset_sample ::
  "AdaptiveCompressor \<times> SoftClipper \<times> Limiter \<Rightarrow> real \<Rightarrow> (AdaptiveCompressor \<times> SoftClipper \<times> Limiter) \<times> real" where
  "NeoSoulPreset_sample = (\<lambda>(compressor, softClipper, limiter) sample.
     (let (compressor, sample) = AdaptiveCompressor_process compressor sample;
          sample = SoftClipper_process softClipper sample;
          (limiter, sample) = Limiter_process limiter sample
      in ((compressor, softClipper, limiter), sample)))"

definition FestivalBangerPreset_stereo ::
  "AdaptiveCompressor \<times> SoftClipper \<times> Limiter \<times> MonoBassProcessor \<Rightarrow> real \<Rightarrow> real \<Rightarrow> (AdaptiveCompressor \<times> SoftClipper \<times> Limiter \<times> MonoBassProcessor) \<times> real \<times> real" where
  "FestivalBangerPreset_stereo = (\<lambda>(compressor, softClipper, limiter, monoBass) l r.
     (let (monoBass, l, r) = MonoBassProcessor_process monoBass l r;
          (compressor, l) = AdaptiveCompressor_process compressor l;
          (compressor, r) = AdaptiveCompressor_process compressor r;
          l = SoftClipper_process softClipper l;
          r = SoftClipper_process softClipper r;
          (limiter, l) = Limiter_process limiter l;
          (limiter, r) = Limiter_process limiter r
      in ((compressor, softClipper, limiter, monoBass), l, r)))"

definition FestivalBangerPreset_sample ::
  "AdaptiveCompressor \<times> SoftClipper \<times> Limiter \<times> MonoBassProcessor \<Rightarrow> real \<Rightarrow> (AdaptiveCompressor \<times> SoftClipper \<times> Limiter \<times> MonoBassProcessor) \<times> real" where
  "FestivalBangerPreset_sample = (\<lambda>(compressor, softClipper, limiter, monoBass) sample.
     (let (compressor, sample) = AdaptiveCompressor_process compressor sample;
          sample = SoftClipper_process softClipper sample;
          (limiter, sample) = Limiter_process limiter sample
      in ((compressor, softClipper, limiter, monoBass), sample)))"

definition FocusCenterPreset_stereo ::
  "AdaptiveCompressor \<times> MidSideProcessor \<times> Limiter \<Rightarrow> real \<Rightarrow> real \<Rightarrow> (AdaptiveCompressor \<times> MidSideProcessor \<times> Limiter) \<times> real \<times> real" where
  "FocusCenterPreset_stereo = (\<lambda>(compressor, midSide, limiter) l r.
     (let (l, r) = MidSideProcessor_process midSide l r;
          (compressor, l) = AdaptiveCompressor_process compressor l;
          (compressor, r) = AdaptiveCompressor_process compressor r;
          (limiter, l) = Limiter_process limiter l;
          (limiter, r) = Limiter_process limiter r
      in ((compressor, midSide, limiter), l, r)))"

definition FocusCenterPreset_sample ::
  "AdaptiveCompressor \<times> MidSideProcessor \<times> Limiter \<Rightarrow> real \<Rightarrow> (AdaptiveCompressor \<times> MidSideProcessor \<times> Limiter) \<times> real" where
  "FocusCenterPreset_sample = (\<lambda>(compressor, midSide, limiter) sample.
     (let (compressor, sample) = AdaptiveCompressor_process compressor sample;
          (limiter, sample) = Limiter_process limiter sample
      in ((compressor, midSide, limiter), sample)))"

definition ImmersivePreset_stereo ::
  "AdaptiveCompressor \<times> MidSideProcessor \<times> Limiter \<Rightarrow> real \<Rightarrow> real \<Rightarrow> (AdaptiveCompressor \<times> MidSideProcessor \<times> Limiter) \<times> real \<times> real" where
  "ImmersivePreset_stereo = (\<lambda>(compressor, midSide, limiter) l r.
     (let (l, r) = MidSideProcessor_process midSide l r;
          (compressor, l) = AdaptiveCompressor_process compressor l;
          (compressor, r) = AdaptiveCompressor_process compressor r;
          (limiter, l) = Limiter_process limiter l;
          (limiter, r) = Limiter_process limiter r
      in ((compressor, midSide, limiter), l, r)))"

definition ImmersivePreset_sample ::
  "AdaptiveCompressor \<times> MidSideProcessor \<times> Limiter \<Rightarrow> real \<Rightarrow> (AdaptiveCompressor \<times> MidSideProcessor \<times> Limiter) \<times> real" where
  "ImmersivePreset_sample = (\<lambda>(compressor, midSide, limiter) sample.
     (let (compressor, sample) = AdaptiveCompressor_process compressor sample;
          (limiter, sample) = Limiter_process limiter sample
      in ((compressor, midSide, limiter), sample)))"

definition WideSpaciousPreset_stereo ::
  "AdaptiveCompressor \<times> MidSideProcessor \<times> MonoBassProcessor \<times> Limiter \<Rightarrow> real \<Rightarrow> real \<Rightarrow> (AdaptiveCompressor \<times> MidSideProcessor \<times> MonoBassProcessor \<times> Limiter) \<times> real \<times> real" where
  "WideSpaciousPreset_stereo = (\<lambda>(compressor, midSide, monoBass, limiter) l r.
     (let (monoBass, l, r) = MonoBassProcessor_process monoBass l r;
          (l, r) = MidSideProcessor_process midSide l r;
          (compressor, l) = AdaptiveCompressor_process compressor l;
          (compressor, r) = AdaptiveCompressor_process compressor r;
          (limiter, l) = Limiter_process limiter l;
          (limiter, r) = Limiter_process limiter r
      in ((compressor, midSide, monoBass, limiter), l, r)))"

definition WideSpaciousPreset_sample ::
  "AdaptiveCompressor \<times> MidSideProcessor \<times> MonoBassProcessor \<times> Limiter \<Rightarrow> real \<Rightarrow> (AdaptiveCompressor \<times> MidSideProcessor \<times> MonoBassProcessor \<times> Limiter) \<times> real" where
  "WideSpaciousPreset_sample = (\<lambda>(compressor, midSide, monoBass, limiter) sample.
     (let (compressor, sample) = AdaptiveCompressor_process compressor sample;
          (limiter, sample) = Limiter_process limiter sample
      in ((compressor, midSide, monoBass, limiter), sample)))"

definition VocalForwardPreset_sample ::
  "DynamicEQ \<times> AdaptiveCompressor \<times> Limiter \<Rightarrow> real \<Rightarrow> (DynamicEQ \<times> AdaptiveCompressor \<times> Limiter) \<times> real" where
  "VocalForwardPreset_sample = (\<lambda>(dynamicEQ, compressor, limiter) sample.
     (let (dynamicEQ, sample) = DynamicEQ_process dynamicEQ sample sample;
          (compressor, sample) = AdaptiveCompressor_process compressor sample;
          (limiter, sample) = Limiter_process limiter sample
      in ((dynamicEQ, compressor, limiter), sample)))"

definition SmoothMidsPreset_sample ::
  "DynamicEQ \<times> AdaptiveCompressor \<times> Limiter \<Rightarrow> real \<Rightarrow> (DynamicEQ \<times> AdaptiveCompressor \<times> Limiter) \<times> real" where
  "SmoothMidsPreset_sample = (\<lambda>(dynamicEQ, compressor, limiter) sample.
     (let (dynamicEQ, sample) = DynamicEQ_process dynamicEQ sample sample;
          (compressor, sample) = AdaptiveCompressor_process compressor sample;
          (limiter, sample) = Limiter_process limiter sample
      in ((dynamicEQ, compressor, limiter), sample)))"

definition DynamicClearPreset_sample ::
  "AdaptiveCompressor \<times> Limiter \<Rightarrow> real \<Rightarrow> (AdaptiveCompressor \<times> Limiter) \<times> real" where
  "DynamicClearPreset_sample = (\<lambda>(compressor, limiter) sample.
     (let (compressor, sample) = AdaptiveCompressor_process compressor sample;
          (limiter, sample) = Limiter_process limiter sample
      in ((compressor, limiter), sample)))"

definition MaximumImpactPreset_stereo ::
  "AdaptiveCompressor \<times> SoftClipper \<times> Limiter \<times> MonoBassProcessor \<Rightarrow> real \<Rightarrow> real \<Rightarrow> (AdaptiveCompressor \<times> SoftClipper \<times> Limiter \<times> MonoBassProcessor) \<times> real \<times> real" where
  "MaximumImpactPreset_stereo = (\<lambda>(compressor, softClipper, limiter, monoBass) l r.
     (let (monoBass, l, r) = MonoBassProcessor_process monoBass l r;
          (compressor, l) = AdaptiveCompressor_process compressor l;
          (compressor, r) = AdaptiveCompressor_process compressor r;
          l = SoftClipper_process softClipper l;
          r = SoftClipper_process softClipper r;
          (limiter, l) = Limiter_process limiter l;
          (limiter, r) = Limiter_process limiter r
      in ((compressor, softClipper, limiter, monoBass), l, r)))"

definition MaximumImpactPreset_sample ::
  "AdaptiveCompressor \<times> SoftClipper \<times> Limiter \<times> MonoBassProcessor \<Rightarrow> real \<Rightarrow> (AdaptiveCompressor \<times> SoftClipper \<times> Limiter \<times> MonoBassProcessor) \<times> real" where
  "MaximumImpactPreset_sample = (\<lambda>(compressor, softClipper, limiter, monoBass) sample.
     (let (compressor, sample) = AdaptiveCompressor_process compressor sample;
          sample = SoftClipper_process softClipper sample;
          (limiter, sample) = Limiter_process limiter sample
      in ((compressor, softClipper, limiter, monoBass), sample)))"

definition BigCappoPreset_stereo ::
  "'p PitchCorrectorOps \<Rightarrow> AnalysisData \<Rightarrow> 'p \<times> DynamicEQ \<times> AdaptiveCompressor \<times> SoftClipper \<times> Limiter \<Rightarrow> real \<Rightarrow> real \<Rightarrow> ('p \<times> DynamicEQ \<times> AdaptiveCompressor \<times> SoftClipper \<times> Limiter) \<times> real \<times> real" where
  "BigCappoPreset_stereo ops analysisData = (\<lambda>(pitchCorrector, dynamicEQ, compressor, softClipper, limiter) l r.
     (let (pitchCorrector, l, r) = processStereo ops pitchCorrector l r;
          (dynamicEQ, l) = DynamicEQ_process dynamicEQ l l;
          (dynamicEQ, r) = DynamicEQ_process dynamicEQ r r;
          l = l * 1.08;
          r = r * 1.08;
          harshness = js_or (ad_harshness analysisData) 0;
          (l, r) = (if harshness > 0.25 then (l * 0.97, r * 0.97) else (l, r));
          (compressor, l) = AdaptiveCompressor_process compressor l;
          (compressor, r) = AdaptiveCompressor_process compressor r;
          l = SoftClipper_process softClipper l;
          r = SoftClipper_process softClipper r;
          (limiter, l) = Limiter_process limiter l;
          (limiter, r) = Limiter_process limiter r
      in ((pitchCorrector, dynamicEQ, compressor, softClipper, limiter), l, r)))"

definition BigCappoPreset_sample ::
  "'p PitchCorrectorOps \<Rightarrow> AnalysisData \<Rightarrow> 'p \<times> DynamicEQ \<times> AdaptiveCompressor \<times> SoftClipper \<times> Limiter \<Rightarrow> real \<Rightarrow> ('p \<times> DynamicEQ \<times> AdaptiveCompressor \<times> SoftClipper \<times> Limiter) \<times> real" where
  "BigCappoPreset_sample ops analysisData = (\<lambda>(pitchCorrector, dynamicEQ, compressor, softClipper, limiter) sample.
     (let (pitchCorrector, sample) = pc_processSample ops pitchCorrector sample;
          (dynamicEQ, sample) = DynamicEQ_process dynamicEQ sample sample;
          sample = sample * 1.08;
          harshness = js_or (ad_harshness analysisData) 0;
          sample = (if harshness > 0.25 then sample * 0.97 else sample);
          (compressor, sample) = AdaptiveCompressor_process compressor sample;
          sample = SoftClipper_process softClipper sample;
          (limiter, sample) = Limiter_process limiter sample
      in ((pitchCorrector, dynamicEQ, compressor, softClipper, limiter), sample)))"

text \<open>
  \<open>process\<close> of each preset class: the adaptation of the stage parameters to the
  measurement record, then the sample loop.  The classes that treat stereo and mono apart
  read channel 0 in the mono branch, which raises when the buffer has no channel.
\<close>

definition DeHarshPreset_process ::
  "DynamicEQ \<Rightarrow> AdaptiveCompressor \<Rightarrow> SoftClipper \<Rightarrow> Limiter \<Rightarrow> AnalysisData \<Rightarrow> AudioBuffer \<Rightarrow> js_error + AudioBuffer" where
  "DeHarshPreset_process dynamicEQ compressor softClipper limiter analysisData audioBuffer =
     (let harshness = js_or (ad_harshness analysisData) 0;
          adaptiveGain = min (- 3) (- harshness * 8);
          dynamicEQ = dynamicEQ\<lparr>deq_gain := adaptiveGain\<rparr>;
          compressor = adaptThreshold compressor analysisData
      in Inr (snd (for_each_frame_channel (DeHarshPreset_sample) (dynamicEQ, compressor, softClipper, limiter) audioBuffer)))"

definition MudRemoverPreset_process ::
  "DynamicEQ \<Rightarrow> AdaptiveCompressor \<Rightarrow> MonoBassProcessor \<Rightarrow> Limiter \<Rightarrow> AnalysisData \<Rightarrow> AudioBuffer \<Rightarrow> js_error + AudioBuffer" where
  "MudRemoverPreset_process dynamicEQ compressor monoBass limiter analysisData audioBuffer =
     (let mud = js_or (ad_mud analysisData) 0;
          adaptiveGain = min (- 4) (- mud * 10);
          dynamicEQ = dynamicEQ\<lparr>deq_gain := adaptiveGain\<rparr>;
          compressor = adaptThreshold compressor analysisData
      in if numberOfChannels audioBuffer \<ge> 2
         then Inr (snd (for_each_stereo_frame (MudRemoverPreset_stereo) (dynamicEQ, compressor, monoBass, limiter) audioBuffer))
         else (case getChannelData audioBuffer 0 of
                 Inl e \<Rightarrow> Inl e
               | Inr data \<Rightarrow> Inr (snd (for_each_mono_frame (MudRemoverPreset_sample) (dynamicEQ, compressor, monoBass, limiter) audioBuffer))))"

definition BassTamerPreset_process ::
  "DynamicEQ \<Rightarrow> AdaptiveCompressor \<Rightarrow> MonoBassProcessor \<Rightarrow> Limiter \<Rightarrow> AnalysisData \<Rightarrow> AudioBuffer \<Rightarrow> js_error + AudioBuffer" where
  "BassTamerPreset_process dynamicEQ compressor monoBass limiter analysisData audioBuffer =
     (let bassStability = js_or (ad_bassStability analysisData) 0;
          adaptiveGain = (if bassStability > 0.3 then - 6 else - 3);
          dynamicEQ = dynamicEQ\<lparr>deq_gain := adaptiveGain\<rparr>;
          compressor = adaptThreshold compressor analysisData
      in if numberOfChannels audioBuffer \<ge> 2
         then Inr (snd (for_each_stereo_frame (BassTamerPreset_stereo) (dynamicEQ, compressor, monoBass, limiter) audioBuffer))
         else (case getChannelData audioBuffer 0 of
                 Inl e \<Rightarrow> Inl e
               | Inr data \<Rightarrow> Inr (snd (for_each_mono_frame (BassTamerPreset_sample) (dynamicEQ, compressor, monoBass, limiter) audioBuffer))))"

definition VintageWarmthPreset_process ::
  "AdaptiveCompressor \<Rightarrow> SoftClipper \<Rightarrow> Limiter \<Rightarrow> AnalysisData \<Rightarrow> AudioBuffer \<Rightarrow> js_error + AudioBuffer" where
  "VintageWarmthPreset_process compressor softClipper limiter analysisData audioBuffer =
     (let compressor = adaptThreshold compressor analysisData
      in Inr (snd (for_each_frame_channel (VintageWarmthPreset_sample) (compressor, softClipper, limiter) audioBuffer)))"

definition ModernBrightPreset_process ::
  "AdaptiveCompressor \<Rightarrow> Limiter \<Rightarrow> AnalysisData \<Rightarrow> AudioBuffer \<Rightarrow> js_error + AudioBuffer" where
  "ModernBrightPreset_process compressor limiter analysisData audioBuffer =
     (let compressor = adaptThreshold compressor analysisData
      in Inr (snd (for_each_frame_channel (ModernBrightPreset_sample analysisData) (compressor, limiter) audioBuffer)))"

definition LoFiCharacterPreset_process ::
  "AdaptiveCompressor \<Rightarrow> SoftClipper \<Rightarrow> Limiter \<Rightarrow> AnalysisData \<Rightarrow> AudioBuffer \<Rightarrow> js_error + AudioBuffer" where
  "LoFiCharacterPreset_process compressor softClipper limiter analysisData audioBuffer =
     (let compressor = adaptThreshold compressor analysisData
      in Inr (snd (for_each_frame_channel (LoFiCharacterPreset_sample analysisData) (compressor, softClipper, limiter) audioBuffer)))"

definition NeoSoulPreset_process ::
  "AdaptiveCompressor \<Rightarrow> SoftClipper \<Rightarrow> Limiter \<Rightarrow> AnalysisData \<Rightarrow> AudioBuffer \<Rightarrow> js_error + AudioBuffer" where
  "NeoSoulPreset_process compressor softClipper limiter analysisData audioBuffer =
     (let compressor = adaptThreshold compressor analysisData
      in Inr (snd (for_each_frame_channel (NeoSoulPreset_sample) (compressor, softClipper, limiter) audioBuffer)))"

definition FestivalBangerPreset_process ::
  "AdaptiveCompressor \<Rightarrow> SoftClipper \<Rightarrow> Limiter \<Rightarrow> MonoBassProcessor \<Rightarrow> AnalysisData \<Rightarrow> AudioBuffer \<Rightarrow> js_error + AudioBuffer" where
  "FestivalBangerPreset_process compressor softClipper limiter monoBass analysisData audioBuffer =
     (let compressor = adaptThreshold compressor analysisData
      in if numberOfChannels audioBuffer \<ge> 2
         then Inr (snd (for_each_stereo_frame (FestivalBangerPreset_stereo) (compressor, softClipper, limiter, monoBass) audioBuffer))
         else (case getChannelData audioBuffer 0 of
                 Inl e \<Rightarrow> Inl e
               | Inr data \<Rightarrow> Inr (snd (for_each_mono_frame (FestivalBangerPreset_sample) (compressor, softClipper, limiter, monoBass) audioBuffer))))"

definition FocusCenterPreset_process ::
  "AdaptiveCompressor \<Rightarrow> MidSideProcessor \<Rightarrow> Limiter \<Rightarrow> AnalysisData \<Rightarrow> AudioBuffer \<Rightarrow> js_error + AudioBuffer" where
  "FocusCenterPreset_process compressor midSide limiter analysisData audioBuffer =
     (let compressor = adaptThreshold compressor analysisData
      in if numberOfChannels audioBuffer \<ge> 2
         then Inr (snd (for_each_stereo_frame (FocusCenterPreset_stereo) (compressor, midSide, limiter) audioBuffer))
         else (case getChannelData audioBuffer 0 of
                 Inl e \<Rightarrow> Inl e
               | Inr data \<Rightarrow> Inr (snd (for_each_mono_frame (FocusCenterPreset_sample) (compressor, midSide, limiter) audioBuffer))))"

definition ImmersivePreset_process ::
  "AdaptiveCompressor \<Rightarrow> MidSideProcessor \<Rightarrow> Limiter \<Rightarrow> AnalysisData \<Rightarrow> AudioBuffer \<Rightarrow> js_error + AudioBuffer" where
  "ImmersivePreset_process compressor midSide limiter analysisData audioBuffer =
     (let compressor = adaptThreshold compressor analysisData
      in if numberOfChannels audioBuffer \<ge> 2
         then Inr (snd (for_each_stereo_frame (ImmersivePreset_stereo) (compressor, midSide, limiter) audioBuffer))
         else (case getChannelData audioBuffer 0 of
                 Inl e \<Rightarrow> Inl e
               | Inr data \<Rightarrow> Inr (snd (for_each_mono_frame (ImmersivePreset_sample) (compressor, midSide, limiter) audioBuffer))))"

definition WideSpaciousPreset_process ::
  "AdaptiveCompressor \<Rightarrow> MidSideProcessor \<Rightarrow> MonoBassProcessor \<Rightarrow> Limiter \<Rightarrow> AnalysisData \<Rightarrow> AudioBuffer \<Rightarrow> js_error + AudioBuffer" where
  "WideSpaciousPreset_process compressor midSide monoBass limiter analysisData audioBuffer =
     (let compressor = adaptThreshold compressor analysisData
      in if numberOfChannels audioBuffer \<ge> 2
         then Inr (snd (for_each_stereo_frame (WideSpaciousPreset_stereo) (compressor, midSide, monoBass, limiter) audioBuffer))
         else (case getChannelData audioBuffer 0 of
                 Inl e \<Rightarrow> Inl e
               | Inr data \<Rightarrow> Inr (snd (for_each_mono_frame (WideSpaciousPreset_sample) (compressor, midSide, monoBass, limiter) audioBuffer))))"

definition VocalForwardPreset_process ::
  "DynamicEQ \<Rightarrow> AdaptiveCompressor \<Rightarrow> Limiter \<Rightarrow> AnalysisData \<Rightarrow> AudioBuffer \<Rightarrow> js_error + AudioBuffer" where
  "VocalForwardPreset_process dynamicEQ compressor limiter analysisData audioBuffer =
     (let vocalDominance = js_or (ad_vocalDominance analysisData) 0;
          adaptiveGain = (if vocalDominance < 0.25 then 4 else 2);
          dynamicEQ = dynamicEQ\<lparr>deq_gain := adaptiveGain\<rparr>;
          compressor = adaptThreshold compressor analysisData
      in Inr (snd (for_each_frame_channel (VocalForwardPreset_sample) (dynamicEQ, compressor, limiter) audioBuffer)))"

definition SmoothMidsPreset_process ::
  "DynamicEQ \<Rightarrow> AdaptiveCompressor \<Rightarrow> Limiter \<Rightarrow> AnalysisData \<Rightarrow> AudioBuffer \<Rightarrow> js_error + AudioBuffer" where
  "SmoothMidsPreset_process dynamicEQ compressor limiter analysisData audioBuffer =
     (let dynamicEQ = dynamicEQ\<lparr>deq_gain := - 5\<rparr>;
          compressor = adaptThreshold compressor analysisData
      in Inr (snd (for_each_frame_channel (SmoothMidsPreset_sample) (dynamicEQ, compressor, limiter) audioBuffer)))"

definition DynamicClearPreset_process ::
  "AdaptiveCompressor \<Rightarrow> Limiter \<Rightarrow> AnalysisData \<Rightarrow> AudioBuffer \<Rightarrow> js_error + AudioBuffer" where
  "DynamicClearPreset_process compressor limiter analysisData audioBuffer =
     (let compressor = adaptThreshold compressor analysisData
      in Inr (snd (for_each_frame_channel (DynamicClearPreset_sample) (compressor, limiter) audioBuffer)))"

definition MaximumImpactPreset_process ::
  "AdaptiveCompressor \<Rightarrow> SoftClipper \<Rightarrow> Limiter \<Rightarrow> MonoBassProcessor \<Rightarrow> AnalysisData \<Rightarrow> AudioBuffer \<Rightarrow> js_error + AudioBuffer" where
  "MaximumImpactPreset_process compressor softClipper limiter monoBass analysisData audioBuffer =
     (let compressor = adaptThreshold compressor analysisData
      in if numberOfChannels audioBuffer \<ge> 2
         then Inr (snd (for_each_stereo_frame (MaximumImpactPreset_stereo) (compressor, softClipper, limiter, monoBass) audioBuffer))
         else (case getChannelData audioBuffer 0 of
                 Inl e \<Rightarrow> Inl e
               | Inr data \<Rightarrow> Inr (snd (for_each_mono_frame (MaximumImpactPreset_sample) (compressor, softClipper, limiter, monoBass) audioBuffer))))"

definition BigCappoPreset_process ::
  "'p PitchCorrectorOps \<Rightarrow> 'p \<Rightarrow> DynamicEQ \<Rightarrow> AdaptiveCompressor \<Rightarrow> SoftClipper \<Rightarrow> Limiter \<Rightarrow> AnalysisData \<Rightarrow> AudioBuffer \<Rightarrow> js_error + AudioBuffer" where
  "BigCappoPreset_process ops pitchCorrector dynamicEQ compressor softClipper limiter analysisData audioBuffer =
     (let compressor = adaptThreshold compressor analysisData;
          pitchCorrector = pc_reset ops pitchCorrector
      in if numberOfChannels audioBuffer \<ge> 2
         then Inr (snd (for_each_stereo_frame (BigCappoPreset_stereo ops analysisData) (pitchCorrector, dynamicEQ, compressor, softClipper, limiter) audioBuffer))
         else (case getChannelData audioBuffer 0 of
                 Inl e \<Rightarrow> Inl e
               | Inr data \<Rightarrow> Inr (snd (for_each_mono_frame (BigCappoPreset_sample ops analysisData) (pitchCorrector, dynamicEQ, compressor, softClipper, limiter) audioBuffer))))"

text \<open>
  Dispatch on the class.  Every \<open>process\<close> starts by reading a property of
  \<open>analysisData\<close>, which raises a TypeError when the engine holds \<open>null\<close> there.
\<close>

fun Preset_process ::
  "'p PitchCorrectorOps \<Rightarrow> 'p Preset \<Rightarrow> AnalysisData option \<Rightarrow> AudioBuffer \<Rightarrow> js_error + AudioBuffer" where
  "Preset_process ops p None audioBuffer = Inl TypeError"
| "Preset_process ops (DeHarshPreset dynamicEQ compressor softClipper limiter) (Some analysisData) audioBuffer =
     DeHarshPreset_process dynamicEQ compressor softClipper limiter analysisData audioBuffer"
| "Preset_process ops (MudRemoverPreset dynamicEQ compressor monoBass limiter) (Some analysisData) audioBuffer =
     MudRemoverPreset_process dynamicEQ compressor monoBass limiter analysisData audioBuffer"
| "Preset_process ops (BassTamerPreset dynamicEQ compressor monoBass limiter) (Some analysisData) audioBuffer =
     BassTamerPreset_process dynamicEQ compressor monoBass limiter analysisData audioBuffer"
| "Preset_process ops (VintageWarmthPreset compressor softClipper limiter) (Some analysisData) audioBuffer =
     VintageWarmthPreset_process compressor softClipper limiter analysisData audioBuffer"
| "Preset_process ops (ModernBrightPreset compressor limiter) (Some analysisData) audioBuffer =
     ModernBrightPreset_process compressor limiter analysisData audioBuffer"
| "Preset_process ops (LoFiCharacterPreset compressor softClipper limiter) (Some analysisData) audioBuffer =
     LoFiCharacterPreset_process compressor softClipper limiter analysisData audioBuffer"
| "Preset_process ops (NeoSoulPreset compressor softClipper limiter) (Some analysisData) audioBuffer =
     NeoSoulPreset_process compressor softClipper limiter analysisData audioBuffer"
| "Preset_process ops (FestivalBangerPreset compressor softClipper limiter monoBass) (Some analysisData) audioBuffer =
     FestivalBangerPreset_process compressor softClipper limiter monoBass analysisData audioBuffer"
| "Preset_process ops (FocusCenterPreset compressor midSide limiter) (Some analysisData) audioBuffer =
     FocusCenterPreset_process compressor midSide limiter analysisData audioBuffer"
| "Preset_process ops (ImmersivePreset compressor midSide limiter) (Some analysisData) audioBuffer =
     ImmersivePreset_process compressor midSide limiter analysisData audioBuffer"
| "Preset_process ops (WideSpaciousPreset compressor midSide monoBass limiter) (Some analysisData) audioBuffer =
     WideSpaciousPreset_process compressor midSide monoBass limiter analysisData audioBuffer"
| "Preset_process ops (VocalForwardPreset dynamicEQ compressor limiter) (Some analysisData) audioBuffer =
     VocalForwardPreset_process dynamicEQ compressor limiter analysisData audioBuffer"
| "Preset_process ops (SmoothMidsPreset dynamicEQ compressor limiter) (Some analysisData) audioBuffer =
     SmoothMidsPreset_process dynamicEQ compressor limiter analysisData audioBuffer"
| "Preset_process ops (DynamicClearPreset compressor limiter) (Some analysisData) audioBuffer =
     DynamicClearPreset_process compressor limiter analysisData audioBuffer"
| "Preset_process ops (MaximumImpactPreset compressor softClipper limiter monoBass) (Some analysisData) audioBuffer =
     MaximumImpactPreset_process compressor softClipper limiter monoBass analysisData audioBuffer"
| "Preset_process ops (BigCappoPreset pitchCorrector dynamicEQ compressor softClipper limiter) (Some analysisData) audioBuffer =
     BigCappoPreset_process ops pitchCorrector dynamicEQ compressor softClipper limiter analysisData audioBuffer"

subsection \<open>Preset engine\<close>

record PresetEngine =
  pe_sampleRate :: real
  pe_analysisData :: "AnalysisData option"

definition setAnalysis :: "PresetEngine \<Rightarrow> AnalysisData \<Rightarrow> PresetEngine" where
  "setAnalysis engine analysisData = engine\<lparr>pe_analysisData := Some analysisData\<rparr>"

text \<open>The object literal of \<open>getPreset\<close>: sixteen own properties, in source order.\<close>

definition presets_table :: "'p PitchCorrectorOps \<Rightarrow> real \<Rightarrow> (string \<times> 'p Preset) list" where
  "presets_table ops sampleRate =
     [(''De-Harsh'', new_DeHarshPreset sampleRate),
      (''Mud Remover'', new_MudRemoverPreset sampleRate),
      (''Bass Tamer'', new_BassTamerPreset sampleRate),
      (''Vintage Warmth'', new_VintageWarmthPreset sampleRate),
      (''Modern Bright'', new_ModernBrightPreset sampleRate),
      (''Lo-Fi Character'', new_LoFiCharacterPreset sampleRate),
      (''Neo Soul'', new_NeoSoulPreset sampleRate),
      (''Festival Banger'', new_FestivalBangerPreset sampleRate),
      (''Focus Center'', new_FocusCenterPreset sampleRate),
      (''Immersive'', new_ImmersivePreset sampleRate),
      (''Wide & Spacious'', new_WideSpaciousPreset sampleRate),
      (''Vocal Forward'', new_VocalForwardPreset sampleRate),
      (''Smooth Mids'', new_SmoothMidsPreset sampleRate),
      (''Dynamic & Clear'', new_DynamicClearPreset sampleRate),
      (''Maximum Impact'', new_MaximumImpactPreset sampleRate),
      (''BigCappo'', new_BigCappoPreset ops sampleRate)]"

definition getPresetNames :: "string list" where
  "getPresetNames =
     [''De-Harsh'',
      ''Mud Remover'',
      ''Bass Tamer'',
      ''Vintage Warmth'',
      ''Modern Bright'',
      ''Lo-Fi Character'',
      ''Neo Soul'',
      ''Festival Banger'',
      ''Focus Center'',
      ''Immersive'',
      ''Wide & Spacious'',
      ''Vocal Forward'',
      ''Smooth Mids'',
      ''Dynamic & Clear'',
      ''Maximum Impact'',
      ''BigCappo'']"

text \<open>
  What \<open>presets[presetName]\<close> evaluates to.  The sixteen names are own properties of the
  object literal; for any other key the lookup continues in \<open>Object.prototype\<close>, whose
  properties (ECMAScript, clause "Properties of the Object Prototype Object") are functions,
  except the accessor \<open>__proto__\<close>, which yields the prototype object itself; a key found
  nowhere yields \<open>undefined\<close>.
\<close>

datatype 'p js_value =
    Undefined
  | PresetObject "'p Preset"
  | BuiltinFunction string
  | ObjectPrototype

definition Object_prototype_functions :: "string list" where
  "Object_prototype_functions =
     [''constructor'', ''hasOwnProperty'', ''isPrototypeOf'', ''propertyIsEnumerable'',
      ''toLocaleString'', ''toString'', ''valueOf'',
      ''__defineGetter__'', ''__defineSetter__'', ''__lookupGetter__'', ''__lookupSetter__'']"

definition getPreset :: "'p PitchCorrectorOps \<Rightarrow> PresetEngine \<Rightarrow> string \<Rightarrow> 'p js_value" where
  "getPreset ops engine presetName =
     (case map_of (presets_table ops (pe_sampleRate engine)) presetName of
        Some preset \<Rightarrow> PresetObject preset
      | None \<Rightarrow>
          if presetName \<in> set Object_prototype_functions then BuiltinFunction presetName
          else if presetName = ''__proto__'' then ObjectPrototype
          else Undefined)"

text \<open>\<open>!preset\<close>: of the values above only \<open>undefined\<close> is falsy.\<close>

fun falsy :: "'p js_value \<Rightarrow> bool" where
  "falsy Undefined = True"
| "falsy _ = False"

text \<open>
  \<open>preset.process(buffer, analysisData)\<close>: a preset object runs its \<open>process\<close>; a builtin
  function and the prototype object have no property \<open>process\<close>, and calling
  \<open>undefined\<close> raises a TypeError.
\<close>

fun call_process ::
  "'p PitchCorrectorOps \<Rightarrow> 'p js_value \<Rightarrow> AnalysisData option \<Rightarrow> AudioBuffer \<Rightarrow> js_error + AudioBuffer" where
  "call_process ops (PresetObject preset) analysisData audioBuffer =
     Preset_process ops preset analysisData audioBuffer"
| "call_process ops _ analysisData audioBuffer = Inl TypeError"

text \<open>
  Buffers are objects: the caller's buffer and the working buffer are two cells of a store,
  named by their index.  \<open>audioContext.createBuffer\<close> (Web Audio) allocates a fresh cell
  holding silence.
\<close>

type_synonym heap = "AudioBuffer list"

definition createBuffer :: "heap \<Rightarrow> nat \<Rightarrow> nat \<Rightarrow> nat \<Rightarrow> heap \<times> nat" where
  "createBuffer h channels len sampleRate =
     (h @ [\<lparr>ab_sampleRate = sampleRate, ab_length = len,
            ab_channels = replicate channels (replicate len 0)\<rparr>], length h)"

text \<open>
  The copy loop of \<open>PresetEngine.process\<close>:
  \<open>originalData.forEach((sample, i) => processedData[i] = sample)\<close> for each channel.
\<close>

definition copy_channels :: "AudioBuffer \<Rightarrow> AudioBuffer \<Rightarrow> AudioBuffer" where
  "copy_channels audioBuffer processedBuffer =
     processedBuffer\<lparr>ab_channels :=
       fold (\<lambda>channel chans.
               chans[channel :=
                 fold (\<lambda>i processedData. processedData[i := ab_channels audioBuffer ! channel ! i])
                   [0..<length (ab_channels audioBuffer ! channel)] (chans ! channel)])
         [0..<numberOfChannels audioBuffer] (ab_channels processedBuffer)\<rparr>"

text \<open>
  \<open>PresetEngine.process(audioBuffer, presetName)\<close>.  The result pairs the store after the
  call with the outcome: the error thrown, or the reference to the processed buffer.
\<close>

definition not_found_message :: "string \<Rightarrow> string" where
  "not_found_message presetName = ''Preset '' @ [CHR 0x22] @ presetName @ [CHR 0x22] @ '' not found''"

definition PresetEngine_process ::
  "'p PitchCorrectorOps \<Rightarrow> PresetEngine \<Rightarrow> heap \<Rightarrow> nat \<Rightarrow> string \<Rightarrow> heap \<times> (js_error + nat)" where
  "PresetEngine_process ops engine h audioBuffer presetName =
     (let preset = getPreset ops engine presetName in
      if falsy preset then (h, Inl (Error (not_found_message presetName)))
      else
        (case createBuffer h (numberOfChannels (h ! audioBuffer)) (ab_length (h ! audioBuffer))
                (ab_sampleRate (h ! audioBuffer)) of
           (h, processedBuffer) \<Rightarrow>
             (let h = h[processedBuffer := copy_channels (h ! audioBuffer) (h ! processedBuffer)]
              in case call_process ops preset (pe_analysisData engine) (h ! processedBuffer) of
                   Inl e \<Rightarrow> (h, Inl e)
                 | Inr b \<Rightarrow> (h[processedBuffer := b], Inr processedBuffer))))"

section \<open>Lossless export stages (losslessProcessor.js)\<close>

subsection \<open>In-place loops over a sample array\<close>

text \<open>
  \<open>for (i = 0; i < data.length; i++) data[i] = stage.process(data[i])\<close>: the stage's
  state is threaded through the loop and each element is overwritten where it stands.
\<close>

definition process_in_place ::
  "('s \<Rightarrow> real \<Rightarrow> 's \<times> real) \<Rightarrow> 's \<Rightarrow> real list \<Rightarrow> 's \<times> real list" where
  "process_in_place f st data =
     fold (\<lambda>i (st, data). case f st (data ! i) of (st', y) \<Rightarrow> (st', data[i := y]))
       [0..<length data] (st, data)"

subsection \<open>True-peak limiter\<close>

record LosslessTruePeakLimiter =
  tpl_ceiling :: real
  tpl_sampleRate :: nat
  tpl_gainReduction :: real
  tpl_lastSample :: real

definition new_LosslessTruePeakLimiter :: "real \<Rightarrow> nat \<Rightarrow> LosslessTruePeakLimiter" where
  "new_LosslessTruePeakLimiter ceiling_dB sampleRate =
     \<lparr>tpl_ceiling = ceiling_dB, tpl_sampleRate = sampleRate,
      tpl_gainReduction = 1, tpl_lastSample = 0\<rparr>"

definition detectTruePeak :: "real \<Rightarrow> real \<Rightarrow> real" where
  "detectTruePeak currentSample previousSample =
     (let absCurrent = \<bar>currentSample\<bar>;
          absPrevious = \<bar>previousSample\<bar>;
          interpPeak = max absCurrent absPrevious
      in interpPeak * 1.01)"

definition LosslessTruePeakLimiter_process ::
  "LosslessTruePeakLimiter \<Rightarrow> real \<Rightarrow> LosslessTruePeakLimiter \<times> real" where
  "LosslessTruePeakLimiter_process l sample =
     (let truePeak = detectTruePeak sample (tpl_lastSample l);
          peakDB = 20 * log 10 (truePeak + 1 / 10 ^ 10);
          gainReduction =
            (if peakDB > tpl_ceiling l
             then min (tpl_gainReduction l) (10 powr ((tpl_ceiling l - peakDB) / 20))
             else tpl_gainReduction l)
      in (l\<lparr>tpl_gainReduction := gainReduction, tpl_lastSample := sample\<rparr>,
          sample * gainReduction))"

text \<open>
  The limiting loop of the export functions: one limiter instance runs over channel 0, then
  channel 1, and so on, each array rewritten in place.
\<close>

definition truePeakLimit ::
  "LosslessTruePeakLimiter \<Rightarrow> AudioBuffer \<Rightarrow> LosslessTruePeakLimiter \<times> AudioBuffer" where
  "truePeakLimit limiter workingBuffer =
     (case fold (\<lambda>ch (l, chans).
               case process_in_place LosslessTruePeakLimiter_process l (chans ! ch) of
                 (l', data) \<Rightarrow> (l', chans[ch := data]))
             [0..<numberOfChannels workingBuffer] (limiter, ab_channels workingBuffer) of
        (l', chans) \<Rightarrow> (l', workingBuffer\<lparr>ab_channels := chans\<rparr>))"

subsection \<open>Loudness normaliser\<close>

record LosslessNormalizer =
  ln_targetLUFS :: real
  ln_sampleRate :: nat

text \<open>
  The accumulation \<open>for ch, for i < length: sumSquared += data[i] * data[i]\<close>, which
  \<open>LosslessNormalizer.calculateGain\<close> and \<open>ExportValidator.measureLUFS\<close> both run.
\<close>

definition sumSquared_of :: "AudioBuffer \<Rightarrow> real" where
  "sumSquared_of audioBuffer =
     fold (\<lambda>ch acc.
             fold (\<lambda>i acc. acc + (ab_channels audioBuffer ! ch ! i) * (ab_channels audioBuffer ! ch ! i))
               [0..<ab_length audioBuffer] acc)
       [0..<numberOfChannels audioBuffer] 0"

definition calculateGain :: "LosslessNormalizer \<Rightarrow> AudioBuffer \<Rightarrow> real" where
  "calculateGain n audioBuffer =
     (let sumSquared = sumSquared_of audioBuffer;
          rms = sqrt (sumSquared / (real (ab_length audioBuffer) * real (numberOfChannels audioBuffer)));
          currentLUFS = (if rms > 0 then - 0.691 + 10 * log 10 rms else - 70);
          lufsDifference = ln_targetLUFS n - currentLUFS;
          gain = 10 powr (lufsDifference / 20)
      in min gain 2.0)"

definition normalize :: "LosslessNormalizer \<Rightarrow> AudioBuffer \<Rightarrow> AudioBuffer" where
  "normalize n audioBuffer =
     (let gain = calculateGain n audioBuffer
      in audioBuffer\<lparr>ab_channels :=
           fold (\<lambda>ch chans.
                   chans[ch := fold (\<lambda>i data. data[i := data ! i * gain])
                                 [0..<ab_length audioBuffer] (chans ! ch)])
             [0..<numberOfChannels audioBuffer] (ab_channels audioBuffer)\<rparr>)"

section \<open>Export validator (exportValidator.js)\<close>

text \<open>
  \<open>measurePeaks\<close> starts both running maxima at \<open>-Infinity\<close> and reports
  \<open>-Infinity\<close> for a peak that is not positive, so its numbers are reals extended by that
  one value.
\<close>

datatype xreal = NegInfinity | Fin real

fun xmax :: "xreal \<Rightarrow> real \<Rightarrow> xreal" where
  "xmax NegInfinity x = Fin x"
| "xmax (Fin a) x = Fin (max a x)"

fun xle :: "xreal \<Rightarrow> real \<Rightarrow> bool" where
  "xle NegInfinity b = True"
| "xle (Fin a) b = (a \<le> b)"

fun toDecibels :: "xreal \<Rightarrow> xreal" where
  "toDecibels NegInfinity = NegInfinity"
| "toDecibels (Fin p) = (if p > 0 then Fin (20 * log 10 p) else NegInfinity)"

record PeakMeasurements =
  pm_peak :: xreal
  pm_truePeak :: xreal

definition measurePeaks_sample :: "real list \<Rightarrow> nat \<Rightarrow> xreal \<times> xreal \<Rightarrow> xreal \<times> xreal" where
  "measurePeaks_sample data i = (\<lambda>(peak, truePeak).
     (let absSample = \<bar>data ! i\<bar>;
          peak = xmax peak absSample
      in if i > 0 \<and> i + 1 < length data then
           (let prev = \<bar>data ! (i - 1)\<bar>;
                curr = absSample;
                next = \<bar>data ! (i + 1)\<bar>;
                interpPeak = max (max prev curr) next
            in (peak, xmax truePeak interpPeak))
         else (peak, xmax truePeak absSample)))"

definition measurePeaks :: "AudioBuffer \<Rightarrow> PeakMeasurements" where
  "measurePeaks audioBuffer =
     (case fold (\<lambda>ch acc.
               fold (measurePeaks_sample (ab_channels audioBuffer ! ch))
                 [0..<length (ab_channels audioBuffer ! ch)] acc)
             [0..<numberOfChannels audioBuffer] (NegInfinity, NegInfinity) of
        (peak, truePeak) \<Rightarrow> \<lparr>pm_peak = toDecibels peak, pm_truePeak = toDecibels truePeak\<rparr>)"

definition measureLUFS :: "AudioBuffer \<Rightarrow> real" where
  "measureLUFS audioBuffer =
     (let sumSquared = sumSquared_of audioBuffer;
          rms = sqrt (sumSquared / (real (ab_length audioBuffer) * real (numberOfChannels audioBuffer)));
          lufs = (if rms > 0 then - 0.691 + 10 * log 10 rms else - 70)
      in max (- 70) (min 0 lufs))"

subsection \<open>Header check of the exported file\<close>

text \<open>
  The file is a list of bytes.  A \<open>DataView\<close> read outside the bytes raises a RangeError;
  \<open>validateExportedFile\<close> catches whatever is raised and reports a failed validation.  The
  messages of the source, which print the numbers compared, are kept as structured values.
\<close>

type_synonym byte = "8 word"

definition char_codes :: "string \<Rightarrow> byte list" where
  "char_codes s = map (\<lambda>c. of_nat (of_char c)) s"

definition getUint :: "nat \<Rightarrow> byte list \<Rightarrow> nat \<Rightarrow> js_error + nat" where
  "getUint n buf offset =
     (if offset + n \<le> length buf
      then Inr (fold (\<lambda>k acc. acc + unat (buf ! (offset + k)) * 256 ^ k) [0..<n] 0)
      else Inl RangeError)"

definition getUint32 :: "byte list \<Rightarrow> nat \<Rightarrow> js_error + nat" where
  "getUint32 = getUint 4"

definition getUint16 :: "byte list \<Rightarrow> nat \<Rightarrow> js_error + nat" where
  "getUint16 = getUint 2"

record FileHeader =
  fh_audioFormat :: nat
  fh_channels :: nat
  fh_sampleRate :: nat
  fh_byteRate :: nat
  fh_blockAlign :: nat
  fh_bitsPerSample :: nat
  fh_fmtChunkSize :: nat

datatype validation_message =
    MissingRIFFHeader
  | MissingWAVEHeader
  | MissingFmtChunk
  | SampleRateMismatch nat nat
  | BitDepthMismatch nat nat
  | ChannelCountDiffers nat nat
  | AudioFormatMismatch nat nat
  | ValidationError js_error
  | TruePeakExceedsCeiling xreal real
  | LUFSDiffersFromTarget real real

record FileValidation =
  fv_valid :: bool
  fv_errors :: "validation_message list"
  fv_warnings :: "validation_message list"
  fv_fileHeader :: "FileHeader option"

record ExpectedSpecs =
  es_sampleRate :: nat
  es_bitDepth :: nat
  es_channels :: nat

definition read_header :: "byte list \<Rightarrow> js_error + FileHeader" where
  "read_header arrayBuffer =
     (let fmtOffset = 12 in
      case getUint32 arrayBuffer (fmtOffset + 4) of Inl e \<Rightarrow> Inl e | Inr fmtChunkSize \<Rightarrow>
      case getUint16 arrayBuffer (fmtOffset + 8) of Inl e \<Rightarrow> Inl e | Inr audioFormat \<Rightarrow>
      case getUint16 arrayBuffer (fmtOffset + 10) of Inl e \<Rightarrow> Inl e | Inr channels \<Rightarrow>
      case getUint32 arrayBuffer (fmtOffset + 12) of Inl e \<Rightarrow> Inl e | Inr sampleRate \<Rightarrow>
      case getUint32 arrayBuffer (fmtOffset + 16) of Inl e \<Rightarrow> Inl e | Inr byteRate \<Rightarrow>
      case getUint16 arrayBuffer (fmtOffset + 20) of Inl e \<Rightarrow> Inl e | Inr blockAlign \<Rightarrow>
      case getUint16 arrayBuffer (fmtOffset + 22) of Inl e \<Rightarrow> Inl e | Inr bitsPerSample \<Rightarrow>
        Inr \<lparr>fh_audioFormat = audioFormat, fh_channels = channels, fh_sampleRate = sampleRate,
             fh_byteRate = byteRate, fh_blockAlign = blockAlign,
             fh_bitsPerSample = bitsPerSample, fh_fmtChunkSize = fmtChunkSize\<rparr>)"

definition validateExportedFile :: "byte list \<Rightarrow> ExpectedSpecs \<Rightarrow> FileValidation" where
  "validateExportedFile blob expectedSpecs =
     (let arrayBuffer = take 100 blob in
      if take 4 arrayBuffer \<noteq> char_codes ''RIFF'' then
        \<lparr>fv_valid = False, fv_errors = [MissingRIFFHeader], fv_warnings = [], fv_fileHeader = None\<rparr>
      else if take 4 (drop 8 arrayBuffer) \<noteq> char_codes ''WAVE'' then
        \<lparr>fv_valid = False, fv_errors = [MissingWAVEHeader], fv_warnings = [], fv_fileHeader = None\<rparr>
      else if take 4 (drop 12 arrayBuffer) \<noteq> char_codes ''fmt '' then
        \<lparr>fv_valid = False, fv_errors = [MissingFmtChunk], fv_warnings = [], fv_fileHeader = None\<rparr>
      else
        (case read_header arrayBuffer of
           Inl e \<Rightarrow>
             \<lparr>fv_valid = False, fv_errors = [ValidationError e], fv_warnings = [],
              fv_fileHeader = None\<rparr>
         | Inr header \<Rightarrow>
             (let results = \<lparr>fv_valid = True, fv_errors = [], fv_warnings = [],
                             fv_fileHeader = Some header\<rparr>;
                  results =
                    (if es_sampleRate expectedSpecs \<noteq> 0
                        \<and> fh_sampleRate header \<noteq> es_sampleRate expectedSpecs
                     then results\<lparr>fv_errors := fv_errors results @
                              [SampleRateMismatch (fh_sampleRate header) (es_sampleRate expectedSpecs)],
                            fv_valid := False\<rparr>
                     else results);
                  results =
                    (if es_bitDepth expectedSpecs \<noteq> 0 then
                       (let expectedBits =
                              (if es_bitDepth expectedSpecs = 32 then 32 else es_bitDepth expectedSpecs)
                        in if fh_bitsPerSample header \<noteq> expectedBits
                           then results\<lparr>fv_errors := fv_errors results @
                                    [BitDepthMismatch (fh_bitsPerSample header) expectedBits],
                                  fv_valid := False\<rparr>
                           else results)
                     else results);
                  results =
                    (if es_channels expectedSpecs \<noteq> 0
                        \<and> fh_channels header \<noteq> es_channels expectedSpecs
                     then results\<lparr>fv_warnings := fv_warnings results @
                              [ChannelCountDiffers (fh_channels header) (es_channels expectedSpecs)]\<rparr>
                     else results);
                  results =
                    (if es_bitDepth expectedSpecs = 32 \<and> fh_audioFormat header \<noteq> 3
                     then results\<lparr>fv_errors := fv_errors results @
                              [AudioFormatMismatch 3 (fh_audioFormat header)],
                            fv_valid := False\<rparr>
                     else if es_bitDepth expectedSpecs \<noteq> 32 \<and> fh_audioFormat header \<noteq> 1
                     then results\<lparr>fv_errors := fv_errors results @
                              [AudioFormatMismatch 1 (fh_audioFormat header)],
                            fv_valid := False\<rparr>
                     else results)
              in results)))"

subsection \<open>Validation of the buffer before export\<close>

record TargetSpecs =
  ts_sampleRate :: nat
  ts_bitDepth :: nat
  ts_targetLUFS :: "real option"
  ts_truePeakCeiling :: "real option"

record ValidationResults =
  vr_sampleRate :: nat
  vr_channels :: nat
  vr_length :: nat
  vr_valid :: bool
  vr_warnings :: "validation_message list"
  vr_errors :: "validation_message list"
  vr_peak :: xreal
  vr_truePeak :: xreal
  vr_lufs :: real

text \<open>\<open>a > b\<close> where \<open>a\<close> may be \<open>-Infinity\<close>.\<close>

fun xgreater :: "xreal \<Rightarrow> real \<Rightarrow> bool" where
  "xgreater NegInfinity b = False"
| "xgreater (Fin a) b = (a > b)"

definition validate :: "AudioBuffer \<Rightarrow> TargetSpecs \<Rightarrow> ValidationResults" where
  "validate audioBuffer targetSpecs =
     (let warnings =
            (if ts_sampleRate targetSpecs \<noteq> 0
                \<and> ab_sampleRate audioBuffer \<noteq> ts_sampleRate targetSpecs
             then [SampleRateMismatch (ab_sampleRate audioBuffer) (ts_sampleRate targetSpecs)]
             else []);
          peakMeasurements = measurePeaks audioBuffer;
          errors =
            (case ts_truePeakCeiling targetSpecs of
               None \<Rightarrow> []
             | Some ceiling_dB \<Rightarrow>
                 if xgreater (pm_truePeak peakMeasurements) ceiling_dB
                 then [TruePeakExceedsCeiling (pm_truePeak peakMeasurements) ceiling_dB]
                 else []);
          lufs = measureLUFS audioBuffer;
          warnings =
            (case ts_targetLUFS targetSpecs of
               None \<Rightarrow> warnings
             | Some target \<Rightarrow>
                 if \<bar>lufs - target\<bar> > 1.0
                 then warnings @ [LUFSDiffersFromTarget lufs target]
                 else warnings)
      in \<lparr>vr_sampleRate = ab_sampleRate audioBuffer, vr_channels = numberOfChannels audioBuffer,
          vr_length = ab_length audioBuffer, vr_valid = (errors = []), vr_warnings = warnings,
          vr_errors = errors, vr_peak = pm_peak peakMeasurements,
          vr_truePeak = pm_truePeak peakMeasurements, vr_lufs = lufs\<rparr>)"

section \<open>Sample-rate converter and dither (losslessProcessor.js)\<close>

record LosslessSampleRateConverter =
  src_inputRate :: nat
  src_outputRate :: nat
  src_ratio :: real
  src_sincFilterLength :: nat
  src_sincFilter :: "real list"

definition createSincFilter :: "nat \<Rightarrow> nat \<Rightarrow> nat \<Rightarrow> real list" where
  "createSincFilter inputRate outputRate sincFilterLength =
     (let cutoff = real (min inputRate outputRate) / 2;
          nyquist = real (min inputRate outputRate) / 2
      in map (\<lambda>i.
            (let x = (real i - real sincFilterLength / 2) / (real sincFilterLength / 2)
             in if x = 0 then 1
                else (let sinc = sin (pi * cutoff * x / nyquist) / (pi * cutoff * x / nyquist);
                          window = 0.42 - 0.5 * cos (2 * pi * real i / (real sincFilterLength - 1))
                                   + 0.08 * cos (4 * pi * real i / (real sincFilterLength - 1))
                      in sinc * window)))
           [0..<sincFilterLength])"

text \<open>
  The converter takes \<open>Math.floor\<close> of two computed doubles, the output length
  \<open>inputLength * ratio\<close> and the input position \<open>i / ratio\<close>, and there the rounding of
  the double operations decides an array size and an index (at 44100 to 48000 the code
  computes \<open>480 / ratio\<close> just below 441).  The rounding of a double operation is kept as
  the parameter \<open>dbl\<close>, which takes the exact result to the double the host computes; it is
  applied to the ratio and to these two operands of \<open>Math.floor\<close>.  The sample values
  themselves stay real numbers.
\<close>

definition new_LosslessSampleRateConverter ::
  "(real \<Rightarrow> real) \<Rightarrow> nat \<Rightarrow> nat \<Rightarrow> LosslessSampleRateConverter" where
  "new_LosslessSampleRateConverter dbl inputRate outputRate =
     \<lparr>src_inputRate = inputRate, src_outputRate = outputRate,
      src_ratio = dbl (real outputRate / real inputRate), src_sincFilterLength = 64,
      src_sincFilter = createSincFilter inputRate outputRate 64\<rparr>"

text \<open>
  \<open>convert\<close> takes a reference to the input buffer.  With equal rates it returns that
  reference.  Otherwise it has the host create a new buffer (\<open>createBuffer\<close>, taken to
  succeed), fills every channel of it with one filtered sum per output sample, input indices
  outside the input being skipped, and returns the reference to the new buffer; the input
  buffer is only read.
\<close>

definition convert ::
  "(real \<Rightarrow> real) \<Rightarrow> LosslessSampleRateConverter \<Rightarrow> heap \<Rightarrow> nat \<Rightarrow> heap \<times> nat" where
  "convert dbl c h audioBuffer =
     (if src_inputRate c = src_outputRate c then (h, audioBuffer)
      else
        (let inputLength = ab_length (h ! audioBuffer);
             outputLength = nat \<lfloor>dbl (real inputLength * src_ratio c)\<rfloor>
         in case createBuffer h (numberOfChannels (h ! audioBuffer)) outputLength (src_outputRate c) of
              (h', outputBuffer) \<Rightarrow>
                (h'[outputBuffer := (h' ! outputBuffer)\<lparr>ab_channels :=
                   map (\<lambda>inputData.
                          map (\<lambda>i.
                                 (let inputPos = dbl (real i / src_ratio c);
                                      inputIndex = \<lfloor>inputPos\<rfloor>
                                  in fold (\<lambda>j sum.
                                             (let sampleIndex =
                                                    inputIndex + int j - int (src_sincFilterLength c div 2)
                                              in if sampleIndex \<ge> 0 \<and> sampleIndex < int inputLength
                                                 then sum + inputData ! nat sampleIndex * src_sincFilter c ! j
                                                 else sum))
                                       [0..<src_sincFilterLength c] 0))
                            [0..<outputLength])
                     (ab_channels (h ! audioBuffer))\<rparr>],
                 outputBuffer)))"

text \<open>
  \<open>Math.random()\<close> is a source of numbers in \<open>[0, 1)\<close>: a sequence and the position of
  the next number to hand out.  The position counts the calls made.
\<close>

record RandomSource =
  rs_values :: "nat \<Rightarrow> real"
  rs_position :: nat

definition Math_random :: "RandomSource \<Rightarrow> RandomSource \<times> real" where
  "Math_random rs = (rs\<lparr>rs_position := Suc (rs_position rs)\<rparr>, rs_values rs (rs_position rs))"

definition Math_round :: "real \<Rightarrow> int" where
  "Math_round x = \<lfloor>x + 1 / 2\<rfloor>"

record ProfessionalDither =
  pd_bitDepth :: nat
  pd_quantizationStep :: real
  pd_noiseShaping :: bool
  pd_lastError :: "real option"

definition new_ProfessionalDither :: "nat \<Rightarrow> ProfessionalDither" where
  "new_ProfessionalDither bitDepth =
     \<lparr>pd_bitDepth = bitDepth, pd_quantizationStep = 2 powr (- (real bitDepth - 1)),
      pd_noiseShaping = True, pd_lastError = None\<rparr>"

definition generateDither :: "ProfessionalDither \<Rightarrow> RandomSource \<Rightarrow> RandomSource \<times> real" where
  "generateDither d rs =
     (let (rs, u1) = Math_random rs;
          (rs, u2) = Math_random rs
      in (rs, (u1 - u2) * pd_quantizationStep d))"

definition applyDither ::
  "ProfessionalDither \<Rightarrow> RandomSource \<Rightarrow> real \<Rightarrow> ProfessionalDither \<times> RandomSource \<times> real" where
  "applyDither d rs sample =
     (let lastError = (case pd_lastError d of None \<Rightarrow> 0 | Some e \<Rightarrow> e);
          (rs, dither) = generateDither d rs;
          ditheredSample = sample + dither;
          ditheredSample =
            (if pd_noiseShaping d then ditheredSample - lastError * 0.5 else ditheredSample);
          quantized = real_of_int (Math_round (ditheredSample / pd_quantizationStep d))
                        * pd_quantizationStep d
      in (d\<lparr>pd_lastError := Some (quantized - ditheredSample)\<rparr>, rs, quantized))"

section \<open>Export (audioEngine.js)\<close>

subsection \<open>Writing through a DataView\<close>

text \<open>
  The view is the byte array under construction, or the RangeError that a write outside it
  raised; once raised, the error stands and later writes do nothing.  Multi-byte values are
  written little-endian.  The IEEE-754 single-precision encoding of a sample is a parameter
  \<open>float32\<close> of the export functions, a function from the sample to its four bytes.
\<close>

type_synonym DataView = "js_error + byte list"

definition setBytes :: "nat \<Rightarrow> byte list \<Rightarrow> DataView \<Rightarrow> DataView" where
  "setBytes offset bs view =
     (case view of
        Inl e \<Rightarrow> Inl e
      | Inr buf \<Rightarrow>
          if offset + length bs \<le> length buf
          then Inr (take offset buf @ bs @ drop (offset + length bs) buf)
          else Inl RangeError)"

definition setUint8 :: "nat \<Rightarrow> byte \<Rightarrow> DataView \<Rightarrow> DataView" where
  "setUint8 offset v = setBytes offset [v]"

definition setUint16 :: "nat \<Rightarrow> 16 word \<Rightarrow> DataView \<Rightarrow> DataView" where
  "setUint16 offset v = setBytes offset [ucast v, ucast (drop_bit 8 v)]"

definition setUint32 :: "nat \<Rightarrow> 32 word \<Rightarrow> DataView \<Rightarrow> DataView" where
  "setUint32 offset v =
     setBytes offset [ucast v, ucast (drop_bit 8 v), ucast (drop_bit 16 v), ucast (drop_bit 24 v)]"

text \<open>\<open>setInt16\<close> of a number: truncated towards zero, then reduced modulo \<open>2^16\<close>.\<close>

definition js_trunc :: "real \<Rightarrow> int" where
  "js_trunc x = (if x < 0 then \<lceil>x\<rceil> else \<lfloor>x\<rfloor>)"

definition setInt16 :: "nat \<Rightarrow> real \<Rightarrow> DataView \<Rightarrow> DataView" where
  "setInt16 offset v = setUint16 offset (word_of_int (js_trunc v))"

definition writeString :: "nat \<Rightarrow> string \<Rightarrow> DataView \<Rightarrow> DataView" where
  "writeString offset s view =
     fold (\<lambda>i view. setUint8 (offset + i) (of_nat (of_char (s ! i))) view) [0..<length s] view"

subsection \<open>The three sample paths\<close>

definition clamp_sample :: "real \<Rightarrow> real" where
  "clamp_sample x = max (- 1) (min 1 x)"

text \<open>
  The state of a sample loop: the view, the write offset, the dither processor of the path
  (\<open>None\<close> for \<open>null\<close>) and the random source.  A write outside the view throws and
  ends the export there: once the view holds the error, the remaining iterations of a loop
  that also draws random numbers leave the state as it is.
\<close>

type_synonym write_state = "DataView \<times> nat \<times> ProfessionalDither option \<times> RandomSource"

definition write_float32_samples ::
  "(real \<Rightarrow> byte list) \<Rightarrow> AudioBuffer \<Rightarrow> DataView \<times> nat \<Rightarrow> DataView \<times> nat" where
  "write_float32_samples float32 workingBuffer =
     fold (\<lambda>i. fold (\<lambda>ch (view, offset).
                    (let sample = clamp_sample (ab_channels workingBuffer ! ch ! i)
                     in (setBytes offset (float32 sample) view, offset + 4)))
                 [0..<numberOfChannels workingBuffer])
       [0..<ab_length workingBuffer]"

definition dither_sample ::
  "ProfessionalDither option \<Rightarrow> RandomSource \<Rightarrow> real
     \<Rightarrow> ProfessionalDither option \<times> RandomSource \<times> real" where
  "dither_sample ditherProcessor rs sample =
     (case ditherProcessor of
        None \<Rightarrow> (None, rs, sample)
      | Some d \<Rightarrow> (case applyDither d rs sample of (d', rs', q) \<Rightarrow> (Some d', rs', q)))"

definition write_pcm24_samples :: "AudioBuffer \<Rightarrow> write_state \<Rightarrow> write_state" where
  "write_pcm24_samples workingBuffer =
     fold (\<lambda>i. fold (\<lambda>ch (view, offset, ditherProcessor, rs).
                    case view of
                      Inl e \<Rightarrow> (view, offset, ditherProcessor, rs)
                    | Inr buf \<Rightarrow>
                    (let maxValue = 2 ^ 23 - 1;
                         sample = clamp_sample (ab_channels workingBuffer ! ch ! i);
                         (ditherProcessor, rs, sample) = dither_sample ditherProcessor rs sample;
                         intSample = (word_of_int (Math_round (sample * maxValue)) :: 32 word);
                         view = setUint8 offset (ucast (intSample AND 0xFF)) view;
                         view = setUint8 (offset + 1) (ucast (signed_drop_bit 8 intSample AND 0xFF)) view;
                         view = setUint8 (offset + 2) (ucast (signed_drop_bit 16 intSample AND 0xFF)) view
                     in (view, offset + 3, ditherProcessor, rs)))
                 [0..<numberOfChannels workingBuffer])
       [0..<ab_length workingBuffer]"

definition write_pcm16_samples :: "AudioBuffer \<Rightarrow> write_state \<Rightarrow> write_state" where
  "write_pcm16_samples workingBuffer =
     fold (\<lambda>i. fold (\<lambda>ch (view, offset, ditherProcessor, rs).
                    case view of
                      Inl e \<Rightarrow> (view, offset, ditherProcessor, rs)
                    | Inr buf \<Rightarrow>
                    (let sample = clamp_sample (ab_channels workingBuffer ! ch ! i);
                         (ditherProcessor, rs, sample) = dither_sample ditherProcessor rs sample;
                         view = setInt16 offset
                                  (if sample < 0 then sample * 0x8000 else sample * 0x7FFF) view
                     in (view, offset + 2, ditherProcessor, rs)))
                 [0..<numberOfChannels workingBuffer])
       [0..<ab_length workingBuffer]"

subsection \<open>Encoding\<close>

text \<open>
  The part of \<open>exportToWAV\<close> from \<open>const numChannels\<close> to the end of the three paths:
  sizes, header and samples.  It returns the view and the random source after the writes;
  \<open>ditherProcessor_of\<close> is the value of the variable \<open>ditherProcessor\<close> of the path taken
  (the 32-bit path declares none).
\<close>

definition ditherProcessor_of :: "nat \<Rightarrow> bool \<Rightarrow> ProfessionalDither option" where
  "ditherProcessor_of bitDepth dither =
     (if bitDepth = 32 then None
      else if bitDepth = 24 then (if dither then Some (new_ProfessionalDither bitDepth) else None)
      else (if dither \<and> bitDepth < 32 then Some (new_ProfessionalDither bitDepth) else None))"

definition encodeWAV ::
  "(real \<Rightarrow> byte list) \<Rightarrow> RandomSource \<Rightarrow> AudioBuffer \<Rightarrow> nat \<Rightarrow> bool \<Rightarrow> DataView \<times> RandomSource" where
  "encodeWAV float32 rs workingBuffer bitDepth dither =
     (let numChannels = numberOfChannels workingBuffer;
          len = ab_length workingBuffer;
          finalSampleRate = ab_sampleRate workingBuffer;
          bytesPerSample = (if bitDepth = 32 then 4 else if bitDepth = 24 then 3 else 2);
          blockAlign = numChannels * bytesPerSample;
          byteRate = finalSampleRate * blockAlign;
          dataSize = len * blockAlign;
          headerSize = (if bitDepth = 32 then 58 else if bitDepth = 24 then 50 else 44);
          view = Inr (replicate (headerSize + dataSize) 0);
          view = writeString 0 ''RIFF'' view;
          view = setUint32 4 (of_nat (headerSize - 8 + dataSize)) view;
          view = writeString 8 ''WAVE'' view;
          view = writeString 12 ''fmt '' view
      in if bitDepth = 32 then
           (let view = setUint32 16 18 view;
                view = setUint16 20 3 view;
                view = setUint16 22 (of_nat numChannels) view;
                view = setUint32 24 (of_nat finalSampleRate) view;
                view = setUint32 28 (of_nat byteRate) view;
                view = setUint16 32 (of_nat blockAlign) view;
                view = setUint16 34 (of_nat bitDepth) view;
                view = setUint16 36 0 view;
                view = writeString 38 ''data'' view;
                view = setUint32 42 (of_nat dataSize) view
            in (fst (write_float32_samples float32 workingBuffer (view, 46)), rs))
         else if bitDepth = 24 then
           (let view = setUint32 16 18 view;
                view = setUint16 20 1 view;
                view = setUint16 22 (of_nat numChannels) view;
                view = setUint32 24 (of_nat finalSampleRate) view;
                view = setUint32 28 (of_nat byteRate) view;
                view = setUint16 32 (of_nat blockAlign) view;
                view = setUint16 34 (of_nat bitDepth) view;
                view = setUint16 36 0 view;
                view = writeString 38 ''data'' view;
                view = setUint32 42 (of_nat dataSize) view
            in case write_pcm24_samples workingBuffer
                      (view, 46, ditherProcessor_of bitDepth dither, rs) of
                 (view, offset, ditherProcessor, rs) \<Rightarrow> (view, rs))
         else
           (let view = setUint32 16 16 view;
                view = setUint16 20 1 view;
                view = setUint16 22 (of_nat numChannels) view;
                view = setUint32 24 (of_nat finalSampleRate) view;
                view = setUint32 28 (of_nat byteRate) view;
                view = setUint16 32 (of_nat blockAlign) view;
                view = setUint16 34 (of_nat bitDepth) view;
                view = writeString 36 ''data'' view;
                view = setUint32 40 (of_nat dataSize) view
            in case write_pcm16_samples workingBuffer
                      (view, 44, ditherProcessor_of bitDepth dither, rs) of
                 (view, offset, ditherProcessor, rs) \<Rightarrow> (view, rs)))"

subsection \<open>exportToWAV and exportToAppleLossless\<close>

text \<open>
  The options object: a property that is absent is \<open>None\<close>, and the destructuring of
  \<open>exportToWAV\<close> gives \<open>bitDepth\<close>, \<open>sampleRate\<close>, \<open>targetLUFS\<close>, \<open>dither\<close> and
  \<open>normalize\<close> their defaults.  \<open>truePeakCeiling\<close> is not among the destructured names.
\<close>

record ExportOptions =
  eo_bitDepth :: "nat option"
  eo_sampleRate :: "nat option"
  eo_targetLUFS :: "real option"
  eo_truePeakCeiling :: "real option"
  eo_dither :: "bool option"
  eo_normalize :: "bool option"

text \<open>
  The identifier \<open>truePeakCeiling\<close> in the body of \<open>exportToWAV\<close> is declared neither in
  the function nor in the module, so it is resolved against the host's global object:
  \<open>globals\<close> maps a name to the value of that global property, a number or \<open>null\<close>, and
  an unresolvable name raises a ReferenceError.
\<close>

datatype js_number = Null | Number real

definition resolve_global :: "(string \<Rightarrow> js_number option) \<Rightarrow> string \<Rightarrow> js_error + js_number" where
  "resolve_global globals name =
     (case globals name of None \<Rightarrow> Inl (ReferenceError name) | Some v \<Rightarrow> Inr v)"

record ExportResult =
  er_success :: bool
  er_filename :: string
  er_bitDepth :: nat
  er_sampleRate :: nat
  er_fileValidation :: FileValidation
  er_file :: "byte list"

text \<open>
  \<open>exportToWAV\<close>.  The buffer argument is a reference into the store.
  \<open>let workingBuffer = audioBuffer\<close> copies the reference, not the buffer: unless the rate
  conversion returns a new buffer, normalisation and limiting rewrite the caller's buffer
  where it stands, and what they have written is there when a later step throws.  The result
  is the store and the random source after the call, and the outcome: the error thrown, or
  the object returned.  The file handed to the browser (blob, object URL, click on a link)
  is kept as the bytes in the result.  A RangeError of the view propagates.
\<close>

definition exportToWAV ::
  "(real \<Rightarrow> real) \<Rightarrow> (real \<Rightarrow> byte list) \<Rightarrow> (string \<Rightarrow> js_number option) \<Rightarrow> heap \<Rightarrow> RandomSource
     \<Rightarrow> nat \<Rightarrow> string \<Rightarrow> ExportOptions \<Rightarrow> heap \<times> RandomSource \<times> (js_error + ExportResult)" where
  "exportToWAV dbl float32 globals h rs audioBuffer filename options =
     (let bitDepth = (case eo_bitDepth options of None \<Rightarrow> 24 | Some b \<Rightarrow> b);
          sampleRate = eo_sampleRate options;
          targetLUFS = eo_targetLUFS options;
          dither = (case eo_dither options of None \<Rightarrow> True | Some d \<Rightarrow> d);
          normalize_flag = (case eo_normalize options of None \<Rightarrow> False | Some n \<Rightarrow> n);
          workingBuffer = audioBuffer;
          (h, workingBuffer) =
            (case sampleRate of
               None \<Rightarrow> (h, workingBuffer)
             | Some sr \<Rightarrow>
                 if sr \<noteq> 0 \<and> sr \<noteq> ab_sampleRate (h ! audioBuffer)
                 then convert dbl
                        (new_LosslessSampleRateConverter dbl (ab_sampleRate (h ! audioBuffer)) sr)
                        h workingBuffer
                 else (h, workingBuffer));
          h =
            (case targetLUFS of
               None \<Rightarrow> h
             | Some t \<Rightarrow>
                 if normalize_flag
                 then h[workingBuffer :=
                        normalize \<lparr>ln_targetLUFS = t, ln_sampleRate = ab_sampleRate (h ! workingBuffer)\<rparr>
                          (h ! workingBuffer)]
                 else h)
      in case resolve_global globals ''truePeakCeiling'' of
           Inl e \<Rightarrow> (h, rs, Inl e)
         | Inr truePeakCeiling \<Rightarrow>
             (let h =
                    (case truePeakCeiling of
                       Null \<Rightarrow> h
                     | Number c \<Rightarrow>
                         h[workingBuffer :=
                           snd (truePeakLimit
                                  (new_LosslessTruePeakLimiter c (ab_sampleRate (h ! workingBuffer)))
                                  (h ! workingBuffer))])
              in case encodeWAV float32 rs (h ! workingBuffer) bitDepth dither of
                   (view, rs) \<Rightarrow>
                     (case view of
                        Inl e \<Rightarrow> (h, rs, Inl e)
                      | Inr file \<Rightarrow>
                          (h, rs,
                           Inr \<lparr>er_success = True, er_filename = filename, er_bitDepth = bitDepth,
                                er_sampleRate = ab_sampleRate (h ! workingBuffer),
                                er_fileValidation =
                                  validateExportedFile file
                                    \<lparr>es_sampleRate = ab_sampleRate (h ! workingBuffer),
                                     es_bitDepth = bitDepth,
                                     es_channels = numberOfChannels (h ! workingBuffer)\<rparr>,
                                er_file = file\<rparr>))))"

text \<open>\<open>s.replace(pat, rep)\<close> with a string pattern: the first occurrence is replaced.\<close>

fun replace_first :: "string \<Rightarrow> string \<Rightarrow> string \<Rightarrow> string" where
  "replace_first pat rep [] = (if pat = [] then rep else [])"
| "replace_first pat rep (c # cs) =
     (if take (length pat) (c # cs) = pat then rep @ drop (length pat) (c # cs)
      else c # replace_first pat rep cs)"

text \<open>
  \<open>exportToAppleLossless\<close>: validates the buffer as it is, then exports with fixed
  \<open>bitDepth: 24\<close> and \<open>sampleRate: 48000\<close>, passing \<open>targetLUFS\<close> and
  \<open>truePeakCeiling\<close> (defaults \<open>-9\<close> and \<open>-0.5\<close>) in the options.  The outcome pairs
  what \<open>exportToWAV\<close> returned with the validation made before the export.
\<close>

definition exportToAppleLossless ::
  "(real \<Rightarrow> real) \<Rightarrow> (real \<Rightarrow> byte list) \<Rightarrow> (string \<Rightarrow> js_number option) \<Rightarrow> heap \<Rightarrow> RandomSource
     \<Rightarrow> nat \<Rightarrow> string \<Rightarrow> ExportOptions
     \<Rightarrow> heap \<times> RandomSource \<times> (js_error + ExportResult \<times> ValidationResults)" where
  "exportToAppleLossless dbl float32 globals h rs audioBuffer filename options =
     (let targetLUFS = (case eo_targetLUFS options of None \<Rightarrow> - 9 | Some t \<Rightarrow> t);
          truePeakCeiling = (case eo_truePeakCeiling options of None \<Rightarrow> - 0.5 | Some c \<Rightarrow> c);
          validation = validate (h ! audioBuffer)
            \<lparr>ts_sampleRate = 48000, ts_bitDepth = 24, ts_targetLUFS = Some targetLUFS,
             ts_truePeakCeiling = Some truePeakCeiling\<rparr>;
          wavFilename = replace_first ''.m4a'' ''_AppleLossless.wav'' filename
      in case exportToWAV dbl float32 globals h rs audioBuffer wavFilename
                \<lparr>eo_bitDepth = Some 24, eo_sampleRate = Some 48000,
                 eo_targetLUFS = Some targetLUFS, eo_truePeakCeiling = Some truePeakCeiling,
                 eo_dither = Some True, eo_normalize = Some True\<rparr> of
           (h, rs, outcome) \<Rightarrow>
             (case outcome of
                Inl e \<Rightarrow> (h, rs, Inl e)
              | Inr result \<Rightarrow> (h, rs, Inr (result, validation))))"

section \<open>Invariants and specification notions used in the proofs\<close>

text \<open>
  The limiter's gain starts at 1 and is only ever replaced by a minimum with a positive
  target gain, so it stays in \<open>[0, 1]\<close>; its ceiling never changes.
\<close>

definition tpl_inv :: "real \<Rightarrow> LosslessTruePeakLimiter \<Rightarrow> bool" where
  "tpl_inv c l \<longleftrightarrow> tpl_ceiling l = c \<and> 0 \<le> tpl_gainReduction l \<and> tpl_gainReduction l \<le> 1"

text \<open>What the sample loops leave alone: the rate, the frame count and the size of each channel array.\<close>

definition buffer_shape :: "AudioBuffer \<Rightarrow> nat \<times> nat \<times> nat list" where
  "buffer_shape b = (ab_sampleRate b, ab_length b, map length (ab_channels b))"






text \<open>
  The 46 bytes that the 24-bit path of \<open>exportToWAV\<close> writes before the samples, as one
  list: the little-endian bytes of each field in the order of the writes.
\<close>

definition le16 :: "16 word \<Rightarrow> byte list" where
  "le16 v = [ucast v, ucast (drop_bit 8 v)]"

definition le32 :: "32 word \<Rightarrow> byte list" where
  "le32 v = [ucast v, ucast (drop_bit 8 v), ucast (drop_bit 16 v), ucast (drop_bit 24 v)]"

definition wav24_header :: "nat \<Rightarrow> nat \<Rightarrow> nat \<Rightarrow> byte list" where
  "wav24_header numChannels sampleRate len =
     (let blockAlign = numChannels * 3;
          byteRate = sampleRate * blockAlign;
          dataSize = len * blockAlign
      in char_codes ''RIFF'' @ le32 (of_nat (50 - 8 + dataSize)) @ char_codes ''WAVE''
         @ char_codes ''fmt '' @ le32 18 @ le16 1 @ le16 (of_nat numChannels)
         @ le32 (of_nat sampleRate) @ le32 (of_nat byteRate) @ le16 (of_nat blockAlign)
         @ le16 (of_nat 24) @ le16 0 @ char_codes ''data'' @ le32 (of_nat dataSize))"

text \<open>The headers of the 16-bit path (44 bytes) and of the 32-bit path (46 bytes), likewise.\<close>

definition wav16_header :: "nat \<Rightarrow> nat \<Rightarrow> nat \<Rightarrow> byte list" where
  "wav16_header numChannels sampleRate len =
     (let blockAlign = numChannels * 2;
          byteRate = sampleRate * blockAlign;
          dataSize = len * blockAlign
      in char_codes ''RIFF'' @ le32 (of_nat (44 - 8 + dataSize)) @ char_codes ''WAVE''
         @ char_codes ''fmt '' @ le32 16 @ le16 1 @ le16 (of_nat numChannels)
         @ le32 (of_nat sampleRate) @ le32 (of_nat byteRate) @ le16 (of_nat blockAlign)
         @ le16 (of_nat 16) @ char_codes ''data'' @ le32 (of_nat dataSize))"

definition wav32_header :: "nat \<Rightarrow> nat \<Rightarrow> nat \<Rightarrow> byte list" where
  "wav32_header numChannels sampleRate len =
     (let blockAlign = numChannels * 4;
          byteRate = sampleRate * blockAlign;
          dataSize = len * blockAlign
      in char_codes ''RIFF'' @ le32 (of_nat (58 - 8 + dataSize)) @ char_codes ''WAVE''
         @ char_codes ''fmt '' @ le32 18 @ le16 3 @ le16 (of_nat numChannels)
         @ le32 (of_nat sampleRate) @ le32 (of_nat byteRate) @ le16 (of_nat blockAlign)
         @ le16 (of_nat 32) @ le16 0 @ char_codes ''data'' @ le32 (of_nat dataSize))"

text \<open>
  In a sample loop that writes \<open>w\<close> bytes per sample behind a header \<open>H\<close>: after \<open>k\<close>
  samples the offset is \<open>length H + w * k\<close>, no write has failed, the header is still
  there and the rest of the view still has \<open>n\<close> bytes.
\<close>

definition header_kept :: "byte list \<Rightarrow> nat \<Rightarrow> nat \<Rightarrow> nat \<Rightarrow> write_state \<Rightarrow> bool" where
  "header_kept H n w k = (\<lambda>(view, offset, dp, rs).
     offset = length H + w * k \<and> (\<exists>T. view = Inr (H @ T) \<and> length T = n))"

section \<open>Properties\<close>

subsection \<open>Soft clipper\<close>

text \<open>
  C7.  Whenever the driven signal \<open>sample * drive\<close> does not exceed the threshold in
  magnitude, the soft clipper returns the driven signal as it is: the \<open>tanh\<close> branch is
  not taken.
\<close>

theorem SoftClipper_below_threshold_unchanged:
  "\<bar>sample * sc_drive c\<bar> \<le> sc_threshold c \<Longrightarrow>
     SoftClipper_process c sample = sample * sc_drive c"
  by (simp add: SoftClipper_process_def Let_def)

theorem SoftClipper_below_threshold_unchanged_witness:
  "\<bar>(1/2) * sc_drive \<lparr>sc_drive = 12/10, sc_threshold = 8/10\<rparr>\<bar> \<le> sc_threshold \<lparr>sc_drive = 12/10, sc_threshold = 8/10\<rparr>
   \<and> SoftClipper_process \<lparr>sc_drive = 12/10, sc_threshold = 8/10\<rparr> (1/2) = (1/2) * sc_drive \<lparr>sc_drive = 12/10, sc_threshold = 8/10\<rparr>"
proof -
  have h: "\<bar>(1/2) * sc_drive \<lparr>sc_drive = 12/10, sc_threshold = 8/10\<rparr>\<bar> \<le> sc_threshold \<lparr>sc_drive = 12/10, sc_threshold = 8/10\<rparr>"
    by simp
  show ?thesis
    using h SoftClipper_below_threshold_unchanged [OF h] by simp
qed

subsection \<open>Integrated loudness\<close>

lemma fold_sq_zero: "(\<forall>s\<in>set xs. s = 0) \<Longrightarrow> fold (\<lambda>sample acc. acc + sample * sample) xs (a::real) = a"
  by (induction xs arbitrary: a) auto

lemma calculateLUFS_zero: "(\<forall>s\<in>set xs. s = 0) \<Longrightarrow> calculateLUFS xs = - 70"
  by (simp add: calculateLUFS_def fold_sq_zero)

lemma calculateLUFS_range: "- 70 \<le> calculateLUFS xs \<and> calculateLUFS xs \<le> 0"
  by (simp add: calculateLUFS_def Let_def)

text \<open>
  C9.  For a buffer with at least one channel, \<open>analyze\<close> reports an integrated loudness
  in \<open>[-70, 0]\<close>, and exactly the floor \<open>-70\<close> when every sample is zero.
\<close>

theorem analyze_integratedLUFS_floor_and_range:
  assumes "1 \<le> numberOfChannels b"
  shows "((\<forall>ch\<in>set (ab_channels b). \<forall>s\<in>set ch. s = 0) \<longrightarrow> analyze_integratedLUFS b = Inr (- 70))
       \<and> (\<exists>v. analyze_integratedLUFS b = Inr v \<and> - 70 \<le> v \<and> v \<le> 0)"
proof -
  from assms have ne: "0 < length (ab_channels b)" by (auto simp: numberOfChannels_def)
  then have g: "getChannelData b 0 = Inr (ab_channels b ! 0)"
    by (simp add: getChannelData_def numberOfChannels_def)
  have mem: "ab_channels b ! 0 \<in> set (ab_channels b)" using ne by simp
  show ?thesis
    using g mem calculateLUFS_range [of "ab_channels b ! 0"]
    by (auto simp: analyze_integratedLUFS_def calculateLUFS_zero)
qed

theorem analyze_integratedLUFS_floor_and_range_witness:
  "1 \<le> numberOfChannels \<lparr>ab_sampleRate = 44100, ab_length = 3, ab_channels = [[0,0,0],[0,0,0]]\<rparr>
   \<and> analyze_integratedLUFS \<lparr>ab_sampleRate = 44100, ab_length = 3, ab_channels = [[0,0,0],[0,0,0]]\<rparr> = Inr (- 70)"
  using analyze_integratedLUFS_floor_and_range [of "\<lparr>ab_sampleRate = 44100, ab_length = 3, ab_channels = [[0,0,0],[0,0,0]]\<rparr>"]
  by (simp add: numberOfChannels_def)

subsection \<open>True-peak limiter\<close>

lemma tpl_step:
  assumes "tpl_inv c l" and "LosslessTruePeakLimiter_process l x = (l', y)"
  shows "tpl_inv c l' \<and> \<bar>y\<bar> * 1.01 \<le> 10 powr (c / 20)"
proof -
  define tp where "tp = detectTruePeak x (tpl_lastSample l) + 1 / 10 ^ 10"
  define g where "g = tpl_gainReduction l"
  have tp_pos: "0 < tp" by (simp add: tp_def detectTruePeak_def Let_def add_pos_nonneg)
  have x_le: "\<bar>x\<bar> * 1.01 \<le> tp" by (simp add: tp_def detectTruePeak_def Let_def)
  from assms(1) have c: "tpl_ceiling l = c" and g0: "0 \<le> g" and g1: "g \<le> 1"
    by (simp_all add: tpl_inv_def g_def)
  show ?thesis
  proof (cases "20 * log 10 tp > c")
    case True
    define t where "t = 10 powr ((c - 20 * log 10 tp) / 20)"
    have t_eq: "t = 10 powr (c / 20) / tp"
      using tp_pos by (simp add: t_def diff_divide_distrib powr_diff)
    have t_pos: "0 < t" by (simp add: t_def)
    from assms(2) True have l': "tpl_gainReduction l' = min g t" and y: "y = x * min g t"
      and cl': "tpl_ceiling l' = c"
      by (auto simp: LosslessTruePeakLimiter_process_def Let_def tp_def c g_def t_def)
    have m0: "0 \<le> min g t" and m1: "min g t \<le> 1" and mt: "min g t \<le> t"
      using g0 g1 t_pos by auto
    have "\<bar>y\<bar> * 1.01 = (\<bar>x\<bar> * 1.01) * min g t" using m0 by (simp add: y abs_mult)
    also have "\<dots> \<le> tp * t"
      using x_le mt m0 tp_pos by (intro mult_mono) auto
    also have "\<dots> = 10 powr (c / 20)" using tp_pos by (simp add: t_eq)
    finally show ?thesis using l' cl' m0 m1 by (simp add: tpl_inv_def)
  next
    case False
    from assms(2) False have l': "tpl_gainReduction l' = g" and y: "y = x * g"
      and cl': "tpl_ceiling l' = c"
      by (auto simp: LosslessTruePeakLimiter_process_def Let_def tp_def c g_def)
    from False have "log 10 tp \<le> c / 20" by simp
    then have tp_le: "tp \<le> 10 powr (c / 20)"
      using tp_pos le_powr_iff [of 10 tp "c / 20"] by simp
    have "\<bar>y\<bar> * 1.01 = (\<bar>x\<bar> * 1.01) * g" using g0 by (simp add: y abs_mult)
    also have "\<dots> \<le> tp * 1" using x_le g0 g1 tp_pos by (intro mult_mono) auto
    finally show ?thesis using tp_le l' cl' g0 g1 by (simp add: tpl_inv_def)
  qed
qed

lemma process_in_place_prefix:
  assumes step: "\<And>s x s' y. I s \<Longrightarrow> f s x = (s', y) \<Longrightarrow> I s' \<and> P y"
    and "I s0" and "k \<le> length d"
  shows "case fold (\<lambda>i (st, data). case f st (data ! i) of (st', y) \<Rightarrow> (st', data[i := y])) [0..<k] (s0, d) of
           (s', d') \<Rightarrow> I s' \<and> length d' = length d \<and> (\<forall>i<k. P (d' ! i))"
  using assms(3)
proof (induction k)
  case 0
  then show ?case using assms(2) by simp
next
  case (Suc k)
  obtain s1 d1 where r: "fold (\<lambda>i (st, data). case f st (data ! i) of (st', y) \<Rightarrow> (st', data[i := y])) [0..<k] (s0, d) = (s1, d1)"
    by (cases "fold (\<lambda>i (st, data). case f st (data ! i) of (st', y) \<Rightarrow> (st', data[i := y])) [0..<k] (s0, d)")
  from Suc r have ih: "I s1" "length d1 = length d" "\<forall>i<k. P (d1 ! i)" by auto
  obtain s2 y where f: "f s1 (d1 ! k) = (s2, y)" by (cases "f s1 (d1 ! k)")
  from step [OF ih(1) f] have "I s2" "P y" by auto
  moreover have "\<forall>i<Suc k. P (d1[k := y] ! i)"
    using ih Suc.prems \<open>P y\<close> by (auto simp: nth_list_update less_Suc_eq)
  ultimately show ?case using r f ih(2) by simp
qed

lemma process_in_place_inv:
  assumes step: "\<And>s x s' y. I s \<Longrightarrow> f s x = (s', y) \<Longrightarrow> I s' \<and> P y"
    and "I s0" and "process_in_place f s0 d = (s', d')"
  shows "I s' \<and> length d' = length d \<and> (\<forall>y\<in>set d'. P y)"
  using process_in_place_prefix [where f = f and I = I and P = P and k = "length d" and d = d and ?s0.0 = s0, OF step assms(2)]
    assms(3)
  by (auto simp: process_in_place_def in_set_conv_nth)


lemma truePeakLimit_prefix:
  assumes "tpl_inv c l0" and "k \<le> length chans0"
  shows "case fold (\<lambda>ch (l, chans).
               case process_in_place LosslessTruePeakLimiter_process l (chans ! ch) of
                 (l', data) \<Rightarrow> (l', chans[ch := data])) [0..<k] (l0, chans0) of
           (l', chans') \<Rightarrow> tpl_inv c l' \<and> length chans' = length chans0 \<and>
              (\<forall>j<k. length (chans' ! j) = length (chans0 ! j) \<and> (\<forall>y\<in>set (chans' ! j). \<bar>y\<bar> * 1.01 \<le> 10 powr (c / 20))) \<and>
              (\<forall>j. k \<le> j \<longrightarrow> j < length chans0 \<longrightarrow> chans' ! j = chans0 ! j)"
  using assms(2)
proof (induction k)
  case 0
  then show ?case using assms(1) by simp
next
  case (Suc k)
  let ?F = "\<lambda>ch (l, chans).
               case process_in_place LosslessTruePeakLimiter_process l (chans ! ch) of
                 (l', data) \<Rightarrow> (l', chans[ch := data])"
  obtain l1 c1 where r: "fold ?F [0..<k] (l0, chans0) = (l1, c1)"
    by (cases "fold ?F [0..<k] (l0, chans0)")
  from Suc r have ih: "tpl_inv c l1" "length c1 = length chans0"
    "\<forall>j<k. length (c1 ! j) = length (chans0 ! j) \<and> (\<forall>y\<in>set (c1 ! j). \<bar>y\<bar> * 1.01 \<le> 10 powr (c / 20))"
    "\<forall>j. k \<le> j \<longrightarrow> j < length chans0 \<longrightarrow> c1 ! j = chans0 ! j"
    by auto
  obtain l2 d where p: "process_in_place LosslessTruePeakLimiter_process l1 (c1 ! k) = (l2, d)"
    by (cases "process_in_place LosslessTruePeakLimiter_process l1 (c1 ! k)")
  have pi: "tpl_inv c l2 \<and> length d = length (c1 ! k) \<and> (\<forall>y\<in>set d. \<bar>y\<bar> * 1.01 \<le> 10 powr (c / 20))"
    by (rule process_in_place_inv [where I = "tpl_inv c", OF tpl_step ih(1) p])
  have ck: "c1 ! k = chans0 ! k" using ih(4) Suc.prems by simp
  have "fold ?F [0..<Suc k] (l0, chans0) = (l2, c1[k := d])" using r p by simp
  moreover have "\<forall>j<Suc k. length (c1[k := d] ! j) = length (chans0 ! j) \<and> (\<forall>y\<in>set (c1[k := d] ! j). \<bar>y\<bar> * 1.01 \<le> 10 powr (c / 20))"
    using ih Suc.prems pi ck by (auto simp: nth_list_update less_Suc_eq)
  moreover have "\<forall>j. Suc k \<le> j \<longrightarrow> j < length chans0 \<longrightarrow> c1[k := d] ! j = chans0 ! j"
    using ih by (auto simp: nth_list_update)
  ultimately show ?case using pi ih(2) by simp
qed

lemma truePeakLimit_samples:
  assumes "truePeakLimit (new_LosslessTruePeakLimiter c sr) b = (l', out)"
  shows "numberOfChannels out = numberOfChannels b \<and> ab_length out = ab_length b
     \<and> ab_sampleRate out = ab_sampleRate b
     \<and> (\<forall>j<numberOfChannels b. length (ab_channels out ! j) = length (ab_channels b ! j))
     \<and> (\<forall>ch\<in>set (ab_channels out). \<forall>y\<in>set ch. \<bar>y\<bar> * 1.01 \<le> 10 powr (c / 20))"
proof -
  have i0: "tpl_inv c (new_LosslessTruePeakLimiter c sr)"
    by (simp add: tpl_inv_def new_LosslessTruePeakLimiter_def)
  obtain l1 c1 where r: "fold (\<lambda>ch (l, chans).
               case process_in_place LosslessTruePeakLimiter_process l (chans ! ch) of
                 (l', data) \<Rightarrow> (l', chans[ch := data])) [0..<length (ab_channels b)]
                 (new_LosslessTruePeakLimiter c sr, ab_channels b) = (l1, c1)"
    by (cases "fold (\<lambda>ch (l, chans).
               case process_in_place LosslessTruePeakLimiter_process l (chans ! ch) of
                 (l', data) \<Rightarrow> (l', chans[ch := data])) [0..<length (ab_channels b)]
                 (new_LosslessTruePeakLimiter c sr, ab_channels b)")
  from truePeakLimit_prefix [OF i0, of "length (ab_channels b)" "ab_channels b"] r
  have len: "length c1 = length (ab_channels b)"
    and each: "\<forall>j<length (ab_channels b). length (c1 ! j) = length (ab_channels b ! j) \<and>
                 (\<forall>y\<in>set (c1 ! j). \<bar>y\<bar> * 1.01 \<le> 10 powr (c / 20))"
    by auto
  from assms r have out: "out = b\<lparr>ab_channels := c1\<rparr>"
    by (simp add: truePeakLimit_def numberOfChannels_def)
  have "\<forall>ch\<in>set c1. \<forall>y\<in>set ch. \<bar>y\<bar> * 1.01 \<le> 10 powr (c / 20)"
  proof
    fix ch assume "ch \<in> set c1"
    then obtain j where "j < length c1" "ch = c1 ! j" by (auto simp: in_set_conv_nth)
    with each len show "\<forall>y\<in>set ch. \<bar>y\<bar> * 1.01 \<le> 10 powr (c / 20)" by simp
  qed
  with len each show ?thesis by (simp add: out numberOfChannels_def)
qed


lemma xle_xmax: "xle a B \<Longrightarrow> x \<le> B \<Longrightarrow> xle (xmax a x) B"
  by (cases a) auto

lemma measurePeaks_sample_bound:
  assumes "\<forall>y\<in>set data. \<bar>y\<bar> \<le> B" and "i < length data" and "xle p B" and "xle t B"
  shows "case measurePeaks_sample data i (p, t) of (p', t') \<Rightarrow> xle p' B \<and> xle t' B"
proof -
  have a: "\<bar>data ! i\<bar> \<le> B" using assms by simp
  have b: "i + 1 < length data \<Longrightarrow> \<bar>data ! (i + 1)\<bar> \<le> B" using assms by simp
  have c: "\<bar>data ! (i - 1)\<bar> \<le> B" using assms by simp
  show ?thesis
    using a b c assms(3,4) by (auto simp: measurePeaks_sample_def Let_def intro!: xle_xmax)
qed

lemma measurePeaks_channel_bound:
  assumes "\<forall>y\<in>set data. \<bar>y\<bar> \<le> B" and "k \<le> length data" and "xle p B" and "xle t B"
  shows "case fold (measurePeaks_sample data) [0..<k] (p, t) of (p', t') \<Rightarrow> xle p' B \<and> xle t' B"
  using assms(2)
proof (induction k)
  case 0
  then show ?case using assms by simp
next
  case (Suc k)
  obtain p1 t1 where r: "fold (measurePeaks_sample data) [0..<k] (p, t) = (p1, t1)"
    by (cases "fold (measurePeaks_sample data) [0..<k] (p, t)")
  with Suc have "xle p1 B" "xle t1 B" by auto
  then show ?case
    using measurePeaks_sample_bound [OF assms(1), of k p1 t1] Suc.prems r by simp
qed

lemma measurePeaks_buffer_bound:
  assumes "\<forall>ch\<in>set chans. \<forall>y\<in>set ch. \<bar>y\<bar> \<le> B" and "k \<le> length chans"
  shows "case fold (\<lambda>ch acc. fold (measurePeaks_sample (chans ! ch)) [0..<length (chans ! ch)] acc)
               [0..<k] (NegInfinity, NegInfinity) of (p', t') \<Rightarrow> xle p' B \<and> xle t' B"
  using assms(2)
proof (induction k)
  case 0
  then show ?case by simp
next
  case (Suc k)
  obtain p1 t1 where r: "fold (\<lambda>ch acc. fold (measurePeaks_sample (chans ! ch)) [0..<length (chans ! ch)] acc)
               [0..<k] (NegInfinity, NegInfinity) = (p1, t1)"
    by (cases "fold (\<lambda>ch acc. fold (measurePeaks_sample (chans ! ch)) [0..<length (chans ! ch)] acc)
               [0..<k] (NegInfinity, NegInfinity)")
  with Suc have ih: "xle p1 B" "xle t1 B" by auto
  have "chans ! k \<in> set chans" using Suc.prems by simp
  then have "\<forall>y\<in>set (chans ! k). \<bar>y\<bar> \<le> B" using assms(1) by blast
  from measurePeaks_channel_bound [OF this _ ih, of "length (chans ! k)"]
  show ?case using r by simp
qed

lemma xle_toDecibels: "0 < B \<Longrightarrow> xle a B \<Longrightarrow> xle (toDecibels a) (20 * log 10 B)"
  by (cases a) (auto simp: log_le_cancel_iff)

lemma measurePeaks_bound:
  assumes "\<forall>ch\<in>set (ab_channels b). \<forall>y\<in>set ch. \<bar>y\<bar> \<le> B" and "0 < B"
  shows "xle (pm_peak (measurePeaks b)) (20 * log 10 B) \<and> xle (pm_truePeak (measurePeaks b)) (20 * log 10 B)"
  using measurePeaks_buffer_bound [OF assms(1), of "length (ab_channels b)"] assms(2)
  by (auto simp: measurePeaks_def numberOfChannels_def xle_toDecibels split: prod.splits)

lemma xle_trans: "xle a B \<Longrightarrow> B \<le> C \<Longrightarrow> xle a C"
  by (cases a) auto

text \<open>
  C4.  Start from a fresh export limiter with ceiling \<open>c\<close> (in dB) and run the export
  pipeline's limiting loop over any buffer, in particular one whose peak lies above the
  ceiling.  Then the limiter's own true-peak estimate \<open>detectTruePeak\<close> of any two output
  samples of a channel is at most the ceiling in linear scale, \<open>10 powr (c / 20)\<close>, and the
  true peak that the validator measures on the output is at most \<open>c + 0.05\<close> dB (or
  \<open>-Infinity\<close> for silence).
\<close>

theorem truePeakLimit_estimated_true_peak:
  assumes "truePeakLimit (new_LosslessTruePeakLimiter c sr) b = (l', out)"
  shows "(\<forall>ch\<in>set (ab_channels out). \<forall>y\<in>set ch. \<forall>z\<in>set ch.
            detectTruePeak y z \<le> 10 powr (c / 20))
       \<and> xle (pm_truePeak (measurePeaks out)) (c + 0.05)"
proof -
  define k :: real where "k = 1.01"
  have k1: "1 \<le> k" "0 < k" by (simp_all add: k_def)
  define B :: real where "B = 10 powr (c / 20) / k"
  have Bpos: "0 < B" using k1 by (simp add: B_def)
  from truePeakLimit_samples [OF assms]
  have s: "\<forall>ch\<in>set (ab_channels out). \<forall>y\<in>set ch. \<bar>y\<bar> * 1.01 \<le> 10 powr (c / 20)" by simp
  then have sB: "\<forall>ch\<in>set (ab_channels out). \<forall>y\<in>set ch. \<bar>y\<bar> \<le> B"
    using k1 by (auto simp: B_def k_def field_simps)
  have "log 10 B = log 10 (10 powr (c / 20)) - log 10 k"
    unfolding B_def using k1 by (subst log_divide) simp_all
  then have "20 * log 10 B = c - 20 * log 10 k" by simp
  moreover have "0 \<le> log 10 k" using k1 by simp
  ultimately have "20 * log 10 B \<le> c + 0.05" by simp
  with measurePeaks_bound [OF sB Bpos] have "xle (pm_truePeak (measurePeaks out)) (c + 0.05)"
    by (auto intro: xle_trans)
  moreover have "\<forall>ch\<in>set (ab_channels out). \<forall>y\<in>set ch. \<forall>z\<in>set ch.
      detectTruePeak y z \<le> 10 powr (c / 20)"
    using s by (auto simp: detectTruePeak_def Let_def max_def)
  ultimately show ?thesis by simp
qed

theorem truePeakLimit_estimated_true_peak_witness:
  "xle (pm_truePeak (measurePeaks (snd (truePeakLimit (new_LosslessTruePeakLimiter (- 1 / 2) 48000)
          \<lparr>ab_sampleRate = 48000, ab_length = 2, ab_channels = [[1, - 1]]\<rparr>))))
       (- 1 / 2 + 0.05)"
  using truePeakLimit_estimated_true_peak
    [of "- 1 / 2" 48000 "\<lparr>ab_sampleRate = 48000, ab_length = 2, ab_channels = [[1, - 1]]\<rparr>"
        "fst (truePeakLimit (new_LosslessTruePeakLimiter (- 1 / 2) 48000)
          \<lparr>ab_sampleRate = 48000, ab_length = 2, ab_channels = [[1, - 1]]\<rparr>)"
        "snd (truePeakLimit (new_LosslessTruePeakLimiter (- 1 / 2) 48000)
          \<lparr>ab_sampleRate = 48000, ab_length = 2, ab_channels = [[1, - 1]]\<rparr>)"]
  by simp

subsection \<open>Limiter of the DSP library\<close>

text \<open>
  One step of \<open>Limiter.process\<close> (dspModules.js): with a non-negative linear ceiling, a
  gain in \<open>[0, 1]\<close> and a positive release time, the output sample is within the ceiling,
  and the gain stays in \<open>[0, 1]\<close>.
\<close>

lemma Limiter_process_bound:
  assumes "0 \<le> lim_ceiling l" and "0 \<le> lim_gainReduction l" and "lim_gainReduction l \<le> 1"
    and "0 < lim_release l * lim_sampleRate l"
    and "Limiter_process l sample = (l', out)"
  shows "\<bar>out\<bar> \<le> lim_ceiling l \<and> 0 \<le> lim_gainReduction l' \<and> lim_gainReduction l' \<le> 1
       \<and> lim_ceiling l' = lim_ceiling l \<and> lim_release l' = lim_release l
       \<and> lim_sampleRate l' = lim_sampleRate l"
proof (cases "\<bar>sample\<bar> > lim_ceiling l")
  case True
  define t where "t = lim_ceiling l / (\<bar>sample\<bar> + 1 / 10 ^ 10)"
  have t0: "0 \<le> t" using assms(1) by (simp add: t_def)
  have t1: "\<bar>sample\<bar> * t \<le> lim_ceiling l"
  proof -
    have "\<bar>sample\<bar> * t = lim_ceiling l * (\<bar>sample\<bar> / (\<bar>sample\<bar> + 1 / 10 ^ 10))"
      by (simp add: t_def)
    also have "\<dots> \<le> lim_ceiling l * 1"
      by (rule mult_left_mono) (use assms(1) in \<open>simp_all add: field_simps\<close>)
    finally show ?thesis by simp
  qed
  from assms(5) True have g: "lim_gainReduction l' = min (lim_gainReduction l) t"
    and o: "out = sample * min (lim_gainReduction l) t"
    and rest: "lim_ceiling l' = lim_ceiling l" "lim_release l' = lim_release l"
      "lim_sampleRate l' = lim_sampleRate l"
    by (auto simp: Limiter_process_def Let_def t_def)
  have m0: "0 \<le> min (lim_gainReduction l) t" using assms(2) t0 by simp
  have "\<bar>out\<bar> = \<bar>sample\<bar> * min (lim_gainReduction l) t" using m0 by (simp add: o abs_mult)
  also have "\<dots> \<le> \<bar>sample\<bar> * t" by (rule mult_left_mono) simp_all
  finally have "\<bar>out\<bar> \<le> lim_ceiling l" using t1 by simp
  then show ?thesis using g m0 assms(3) rest by simp
next
  case False
  define c where "c = exp (- 1 / (lim_release l * lim_sampleRate l))"
  have c0: "0 < c" by (simp add: c_def)
  have c1: "c \<le> 1" using assms(4) by (simp add: c_def)
  define g where "g = 1.0 + (lim_gainReduction l - 1.0) * c"
  have g1: "g \<le> 1"
    using assms(3) c0 by (simp add: g_def mult_nonpos_nonneg)
  have g0: "0 \<le> g"
  proof -
    have "(1 - lim_gainReduction l) * c \<le> 1 * 1"
      by (rule mult_mono) (use assms(2,3) c1 c0 in simp_all)
    then show ?thesis by (simp add: g_def algebra_simps)
  qed
  from assms(5) False have gl: "lim_gainReduction l' = min 1 g" and o: "out = sample * min 1 g"
    and rest: "lim_ceiling l' = lim_ceiling l" "lim_release l' = lim_release l"
      "lim_sampleRate l' = lim_sampleRate l"
    by (auto simp: Limiter_process_def Let_def g_def c_def)
  have "\<bar>out\<bar> = \<bar>sample\<bar> * min 1 g" using g0 by (simp add: o abs_mult)
  also have "\<dots> \<le> \<bar>sample\<bar> * 1" by (rule mult_left_mono) simp_all
  finally have "\<bar>out\<bar> \<le> lim_ceiling l" using False by simp
  then show ?thesis using gl g0 g1 rest by simp
qed

subsection \<open>Mono bass processor\<close>










subsection \<open>Loudness normalisation\<close>

lemma fold_update_map:
  "k \<le> length xs \<Longrightarrow> fold (\<lambda>i xs. xs[i := h (xs ! i)]) [0..<k] xs = map h (take k xs) @ drop k xs"
proof (induction k)
  case 0
  then show ?case by simp
next
  case (Suc k)
  then have k: "k < length xs" by simp
  have "fold (\<lambda>i xs. xs[i := h (xs ! i)]) [0..<Suc k] xs
        = (map h (take k xs) @ drop k xs)[k := h ((map h (take k xs) @ drop k xs) ! k)]"
    using Suc by simp
  also have "(map h (take k xs) @ drop k xs) ! k = xs ! k"
    using k by (simp add: nth_append)
  also have "(map h (take k xs) @ drop k xs)[k := h (xs ! k)] = map h (take k xs) @ (drop k xs)[0 := h (xs ! k)]"
    using k by (simp add: list_update_append)
  also have "(drop k xs)[0 := h (xs ! k)] = h (xs ! k) # drop (Suc k) xs"
    using k by (simp add: Cons_nth_drop_Suc [symmetric])
  also have "map h (take k xs) @ h (xs ! k) # drop (Suc k) xs = map h (take (Suc k) xs) @ drop (Suc k) xs"
    using k by (simp add: take_Suc_conv_app_nth)
  finally show ?case .
qed

lemma fold_update_map_all:
  "fold (\<lambda>i xs. xs[i := h (xs ! i)]) [0..<length xs] xs = map h xs"
  using fold_update_map [of "length xs" xs h] by simp

lemma normalize_map:
  assumes "list_all (\<lambda>ch. length ch = ab_length b) (ab_channels b)"
  shows "normalize n b = b\<lparr>ab_channels := map (map (\<lambda>x. x * calculateGain n b)) (ab_channels b)\<rparr>"
proof -
  define g where "g = calculateGain n b"
  define h where "h = (\<lambda>d::real list. fold (\<lambda>i data. data[i := data ! i * g]) [0..<ab_length b] d)"
  have "fold (\<lambda>ch chans. chans[ch := h (chans ! ch)]) [0..<length (ab_channels b)] (ab_channels b)
        = map h (ab_channels b)"
    by (rule fold_update_map_all)
  moreover have "map h (ab_channels b) = map (map (\<lambda>x. x * g)) (ab_channels b)"
  proof (rule map_cong [OF refl])
    fix d assume "d \<in> set (ab_channels b)"
    with assms have "length d = ab_length b" by (simp add: list_all_iff)
    then show "h d = map (\<lambda>x. x * g) d"
      using fold_update_map_all [of "\<lambda>x. x * g" d] by (simp add: h_def)
  qed
  ultimately show ?thesis
    by (simp add: normalize_def Let_def g_def h_def numberOfChannels_def)
qed

lemma fold_add_sum: "fold (\<lambda>i acc. acc + f i) [0..<n] (a::real) = a + (\<Sum>i<n. f i)"
  by (induction n) simp_all

lemma sumSquared_of_sum:
  "sumSquared_of b = (\<Sum>ch<numberOfChannels b. \<Sum>i<ab_length b. (ab_channels b ! ch ! i)\<^sup>2)"
proof -
  have "sumSquared_of b = fold (\<lambda>ch acc. acc + (\<Sum>i<ab_length b. (ab_channels b ! ch ! i) * (ab_channels b ! ch ! i)))
       [0..<numberOfChannels b] 0"
    by (simp add: sumSquared_of_def fold_add_sum)
  then show ?thesis by (simp add: fold_add_sum power2_eq_square)
qed

lemma sumSquared_of_nonneg: "0 \<le> sumSquared_of b"
  by (simp add: sumSquared_of_sum sum_nonneg)

lemma sumSquared_of_scaled:
  assumes "list_all (\<lambda>ch. length ch = ab_length b) (ab_channels b)"
  shows "sumSquared_of (b\<lparr>ab_channels := map (map (\<lambda>x. x * g)) (ab_channels b)\<rparr>) = g\<^sup>2 * sumSquared_of b"
proof -
  have "\<And>ch i. ch < length (ab_channels b) \<Longrightarrow> i < ab_length b \<Longrightarrow>
      map (map (\<lambda>x. x * g)) (ab_channels b) ! ch ! i = ab_channels b ! ch ! i * g"
    using assms by (simp add: list_all_length)
  then show ?thesis
    by (simp add: sumSquared_of_sum numberOfChannels_def sum_distrib_left power_mult_distrib mult.commute)
qed


lemma normalize_shape:
  "ab_length (normalize n b) = ab_length b \<and> ab_sampleRate (normalize n b) = ab_sampleRate b"
  by (simp add: normalize_def Let_def)

lemma clamp_between:
  fixes L L' T :: real
  assumes "(L \<le> L' \<and> L' \<le> T) \<or> (T \<le> L' \<and> L' \<le> L)"
  shows "\<bar>max (- 70) (min 0 L') - max (- 70) (min 0 L)\<bar> \<le> \<bar>T - max (- 70) (min 0 L)\<bar>"
  using assms by (auto simp: max_def min_def abs_if)

lemma normalize_moves_toward_target:
  assumes wf: "list_all (\<lambda>ch. length ch = ab_length b) (ab_channels b)"
  shows "\<bar>measureLUFS (normalize n b) - measureLUFS b\<bar> \<le> \<bar>ln_targetLUFS n - measureLUFS b\<bar>"
proof -
  define T where "T = ln_targetLUFS n"
  define N where "N = real (ab_length b) * real (numberOfChannels b)"
  define rms where "rms = sqrt (sumSquared_of b / N)"
  define L :: real where "L = (if rms > 0 then - 0.691 + 10 * log 10 rms else - 70)"
  define g :: real where "g = min (10 powr ((T - L) / 20)) 2"
  define L' :: real where "L' = (if g * rms > 0 then - 0.691 + 10 * log 10 (g * rms) else - 70)"
  have g_eq: "calculateGain n b = g"
    by (simp add: calculateGain_def Let_def g_def L_def rms_def N_def T_def)
  have g_pos: "0 < g" by (simp add: g_def)
  have rms_nonneg: "0 \<le> rms"
    by (simp add: rms_def N_def sumSquared_of_nonneg)
  have M: "measureLUFS b = max (- 70) (min 0 L)"
    by (simp add: measureLUFS_def Let_def L_def rms_def N_def)
  have nb: "normalize n b = b\<lparr>ab_channels := map (map (\<lambda>x. x * g)) (ab_channels b)\<rparr>"
    using normalize_map [OF wf, of n] by (simp add: g_eq)
  have S': "sumSquared_of (normalize n b) = g\<^sup>2 * sumSquared_of b"
    unfolding nb by (rule sumSquared_of_scaled [OF wf])
  have "sqrt (sumSquared_of (normalize n b) / N) = sqrt (g\<^sup>2 * (sumSquared_of b / N))"
    by (simp add: S')
  also have "\<dots> = sqrt (g\<^sup>2) * sqrt (sumSquared_of b / N)"
    by (rule real_sqrt_mult)
  also have "\<dots> = g * rms"
    using g_pos by (simp add: rms_def)
  finally have rms': "sqrt (sumSquared_of (normalize n b) / N) = g * rms" .
  have N': "real (ab_length (normalize n b)) * real (numberOfChannels (normalize n b)) = N"
    by (simp add: nb N_def numberOfChannels_def)
  have M': "measureLUFS (normalize n b) = max (- 70) (min 0 L')"
    unfolding measureLUFS_def Let_def N' rms' L'_def by simp
  have between: "(L \<le> L' \<and> L' \<le> T) \<or> (T \<le> L' \<and> L' \<le> L) \<or> L' = L"
  proof (cases "rms > 0")
    case True
    then have Lr: "L = - 0.691 + 10 * log 10 rms" by (simp add: L_def)
    have "L' = - 0.691 + 10 * log 10 (g * rms)" using True g_pos by (simp add: L'_def)
    also have "log 10 (g * rms) = log 10 g + log 10 rms"
      using True g_pos by (simp add: log_mult)
    finally have L'r: "L' = L + 10 * log 10 g" by (simp add: Lr)
    show ?thesis
    proof (cases "10 powr ((T - L) / 20) \<le> 2")
      case True
      then have "g = 10 powr ((T - L) / 20)" by (simp add: g_def)
      then have "log 10 g = (T - L) / 20" by simp
      with L'r have "2 * L' = L + T" by (simp add: field_simps)
      then show ?thesis by arith
    next
      case False
      then have g2: "g = 2" by (simp add: g_def)
      from False have "2 < 10 powr ((T - L) / 20)" by simp
      then have "log 10 2 < (T - L) / 20"
        using less_powr_iff [of 10 2 "(T - L) / 20"] by simp
      then have a: "20 * log 10 2 < T - L" by (simp add: field_simps)
      have b: "0 < log 10 (2::real)" by simp
      from a b have "L \<le> L + 10 * log 10 2 \<and> L + 10 * log 10 2 \<le> T" by linarith
      then show ?thesis unfolding L'r g2 by simp
    qed
  next
    case False
    with rms_nonneg have "rms = 0" by simp
    then show ?thesis by (simp add: L_def L'_def)
  qed
  then show ?thesis
    unfolding M M' T_def [symmetric] using clamp_between [of L L' T] by auto
qed

lemma normalize_uncapped_halves_gap:
  assumes wf: "list_all (\<lambda>ch. length ch = ab_length b) (ab_channels b)"
    and lo: "- 70 < measureLUFS b" and hi: "measureLUFS b < 0"
    and uncapped: "calculateGain n b < 2"
  shows "measureLUFS (normalize n b)
         = max (- 70) (min 0 ((measureLUFS b + ln_targetLUFS n) / 2))"
proof -
  define T where "T = ln_targetLUFS n"
  define N where "N = real (ab_length b) * real (numberOfChannels b)"
  define rms where "rms = sqrt (sumSquared_of b / N)"
  define L :: real where "L = - 0.691 + 10 * log 10 rms"
  define g :: real where "g = calculateGain n b"
  have M: "measureLUFS b = max (- 70) (min 0 (if rms > 0 then L else - 70))"
    by (simp add: measureLUFS_def Let_def L_def rms_def N_def)
  have rms_pos: "0 < rms" using lo unfolding M by (auto split: if_splits)
  have eqL: "measureLUFS b = L" using lo hi rms_pos unfolding M by (auto simp: max_def min_def split: if_splits)
  have "g = min (10 powr ((T - L) / 20)) 2"
    using rms_pos by (simp add: g_def calculateGain_def Let_def L_def rms_def N_def T_def)
  with uncapped have g_eq: "g = 10 powr ((T - L) / 20)" by (simp add: g_def min_def split: if_splits)
  have g_pos: "0 < g" by (simp add: g_eq)
  have nb: "normalize n b = b\<lparr>ab_channels := map (map (\<lambda>x. x * g)) (ab_channels b)\<rparr>"
    using normalize_map [OF wf, of n] by (simp add: g_def)
  have S': "sumSquared_of (normalize n b) = g\<^sup>2 * sumSquared_of b"
    unfolding nb by (rule sumSquared_of_scaled [OF wf])
  have "sqrt (sumSquared_of (normalize n b) / N) = sqrt (g\<^sup>2 * (sumSquared_of b / N))"
    by (simp add: S')
  also have "\<dots> = sqrt (g\<^sup>2) * sqrt (sumSquared_of b / N)"
    by (rule real_sqrt_mult)
  also have "\<dots> = g * rms"
    using g_pos by (simp add: rms_def)
  finally have rms': "sqrt (sumSquared_of (normalize n b) / N) = g * rms" .
  have N': "real (ab_length (normalize n b)) * real (numberOfChannels (normalize n b)) = N"
    by (simp add: nb N_def numberOfChannels_def)
  have "log 10 (g * rms) = log 10 g + log 10 rms"
    using rms_pos g_pos by (simp add: log_mult)
  also have "log 10 g = (T - L) / 20" by (simp add: g_eq)
  finally have half: "- 0.691 + 10 * log 10 (g * rms) = (L + T) / 2"
    by (simp add: L_def field_simps)
  have pos: "0 < g * rms" using g_pos rms_pos by simp
  have "measureLUFS (normalize n b)
        = max (- 70) (min 0 (if g * rms > 0 then - 0.691 + 10 * log 10 (g * rms) else - 70))"
    unfolding measureLUFS_def Let_def N' rms' by (rule refl)
  also have "\<dots> = max (- 70) (min 0 ((L + T) / 2))"
    unfolding half [symmetric] using pos by (simp only: if_True)
  finally have "measureLUFS (normalize n b) = max (- 70) (min 0 ((L + T) / 2))" .
  then show ?thesis by (simp add: eqL T_def)
qed

lemma log10_2_lower: "3 / 10 \<le> log 10 (2::real)"
proof -
  have "(10 powr (3 / 10)) ^ 10 = (10::real) powr 3"
    by (simp add: powr_power)
  also have "\<dots> = 10 ^ 3" by (simp add: powr_numeral)
  also have "\<dots> \<le> (2::real) ^ 10" by simp
  finally have "(10 powr (3 / 10)) ^ 10 \<le> (2::real) ^ 10" .
  then have "10 powr (3 / 10) \<le> (2::real)"
    by (rule power_le_imp_le_base [of _ 9, simplified]) simp
  then show ?thesis using powr_le_iff [of 10 2 "3 / 10"] by simp
qed

lemma powr10_less_2:
  assumes "y < 3 / 10"
  shows "(10::real) powr y < 2"
  using assms log10_2_lower powr_less_iff [of 10 2 y] by simp

lemma log10_hundredth: "log 10 (1 / 100 :: real) = - 2"
proof -
  have "log 10 (1 / 100 :: real) = - log 10 (10 ^ 2)" by (simp add: log_divide)
  also have "\<dots> = - 2" by (simp only: log_nat_power) simp
  finally show ?thesis .
qed

lemma log10_scaled:
  assumes "0 < x"
  shows "log 10 (x * 10 powr y) = log 10 x + y"
  using assms by (subst log_mult) simp_all

lemma mono_sample_rms:
  assumes "ab_channels b = [[x]]" and "ab_length b = 1" and "0 < x"
  shows "sqrt (sumSquared_of b / (real (ab_length b) * real (numberOfChannels b))) = x"
proof -
  have "sumSquared_of b = x * x"
    using assms by (simp add: sumSquared_of_def numberOfChannels_def)
  then show ?thesis using assms by (simp add: numberOfChannels_def)
qed

lemma mono_sample_measureLUFS:
  assumes "ab_channels b = [[x]]" and "ab_length b = 1" and "0 < x"
    and "- 70 \<le> - 0.691 + 10 * log 10 x" and "- 0.691 + 10 * log 10 x \<le> 0"
  shows "measureLUFS b = - 0.691 + 10 * log 10 x"
  unfolding measureLUFS_def Let_def mono_sample_rms [OF assms(1-3)]
  using assms(3-5) by simp

lemma mono_sample_calculateGain:
  assumes "ab_channels b = [[x]]" and "ab_length b = 1" and "0 < x"
  shows "calculateGain n b = min (10 powr ((ln_targetLUFS n - (- 0.691 + 10 * log 10 x)) / 20)) 2"
  unfolding calculateGain_def Let_def mono_sample_rms [OF assms(1-3)]
  using assms(3) by simp

lemma mono_sample_normalize:
  assumes "ab_channels b = [[x]]" and "ab_length b = 1"
  shows "normalize n b = b\<lparr>ab_channels := [[x * calculateGain n b]]\<rparr>"
  using assms by (simp add: normalize_def Let_def numberOfChannels_def)

text \<open>
  C3.  A second pass of \<open>normalize\<close> moves the measured loudness by more than 0.1 dB, also
  where the gain cap of 2.0 is never reached.  \<open>calculateGain\<close> turns the loudness
  difference into the gain \<open>10 ^ (difference / 20)\<close>, which fits a loudness of
  \<open>20 * log10 rms\<close>; the loudness it computes, and \<open>measureLUFS\<close> with it, is
  \<open>-0.691 + 10 * log10 rms\<close>.  So an uncapped pass closes half of the gap to the target
  (lemma \<open>normalize_uncapped_halves_gap\<close>) and the next pass half of what is left.  On the
  mono buffer holding the one sample 0.01, with target -18.691: neither pass is capped, the
  measured loudness is -20.691 before, -19.691 after the first pass and -19.191 after the
  second, which moved it by 0.5 dB.
\<close>

theorem normalize_second_pass_moves_loudness:
  "calculateGain \<lparr>ln_targetLUFS = - 18.691, ln_sampleRate = 48000\<rparr>
       \<lparr>ab_sampleRate = 48000, ab_length = 1, ab_channels = [[1 / 100]]\<rparr> < 2
   \<and> calculateGain \<lparr>ln_targetLUFS = - 18.691, ln_sampleRate = 48000\<rparr>
       (normalize \<lparr>ln_targetLUFS = - 18.691, ln_sampleRate = 48000\<rparr>
          \<lparr>ab_sampleRate = 48000, ab_length = 1, ab_channels = [[1 / 100]]\<rparr>) < 2
   \<and> measureLUFS \<lparr>ab_sampleRate = 48000, ab_length = 1, ab_channels = [[1 / 100]]\<rparr> = - 20.691
   \<and> measureLUFS (normalize \<lparr>ln_targetLUFS = - 18.691, ln_sampleRate = 48000\<rparr>
          \<lparr>ab_sampleRate = 48000, ab_length = 1, ab_channels = [[1 / 100]]\<rparr>) = - 19.691
   \<and> measureLUFS (normalize \<lparr>ln_targetLUFS = - 18.691, ln_sampleRate = 48000\<rparr>
          (normalize \<lparr>ln_targetLUFS = - 18.691, ln_sampleRate = 48000\<rparr>
             \<lparr>ab_sampleRate = 48000, ab_length = 1, ab_channels = [[1 / 100]]\<rparr>)) = - 19.191"
proof -
  define n where "n = \<lparr>ln_targetLUFS = - 18.691, ln_sampleRate = 48000\<rparr>"
  define x0 :: real where "x0 = 1 / 100"
  define x1 :: real where "x1 = x0 * 10 powr (1 / 10)"
  define x2 :: real where "x2 = x1 * 10 powr (1 / 20)"
  define buf where "buf x = \<lparr>ab_sampleRate = 48000, ab_length = 1, ab_channels = [[x]]\<rparr>" for x :: real
  have T: "ln_targetLUFS n = - 18.691" by (simp add: n_def)
  have p0: "0 < x0" by (simp add: x0_def)
  have p1: "0 < x1" using p0 by (simp add: x1_def)
  have p2: "0 < x2" using p1 by (simp add: x2_def)
  have l0: "log 10 x0 = - 2" unfolding x0_def by (rule log10_hundredth)
  have l1: "log 10 x1 = - 19 / 10" unfolding x1_def log10_scaled [OF p0] l0 by simp
  have l2: "log 10 x2 = - 37 / 20" unfolding x2_def log10_scaled [OF p1] l1 by simp
  have ch: "ab_channels (buf x) = [[x]]" "ab_length (buf x) = 1" for x by (simp_all add: buf_def)
  have g0: "calculateGain n (buf x0) = 10 powr (1 / 10)"
    unfolding mono_sample_calculateGain [OF ch p0] T l0
    using powr10_less_2 [of "1 / 10"] by simp
  have g1: "calculateGain n (buf x1) = 10 powr (1 / 20)"
    unfolding mono_sample_calculateGain [OF ch p1] T l1
    using powr10_less_2 [of "1 / 20"] by simp
  have b1: "normalize n (buf x0) = buf x1"
    unfolding mono_sample_normalize [OF ch] g0 by (simp add: buf_def x1_def)
  have b2: "normalize n (buf x1) = buf x2"
    unfolding mono_sample_normalize [OF ch] g1 by (simp add: buf_def x2_def)
  have m0: "measureLUFS (buf x0) = - 20.691"
    by (subst mono_sample_measureLUFS [OF ch p0]) (simp_all add: l0)
  have m1: "measureLUFS (buf x1) = - 19.691"
    by (subst mono_sample_measureLUFS [OF ch p1]) (simp_all add: l1)
  have m2: "measureLUFS (buf x2) = - 19.191"
    by (subst mono_sample_measureLUFS [OF ch p2]) (simp_all add: l2)
  have "calculateGain n (buf x0) < 2 \<and> calculateGain n (normalize n (buf x0)) < 2
      \<and> measureLUFS (buf x0) = - 20.691
      \<and> measureLUFS (normalize n (buf x0)) = - 19.691
      \<and> measureLUFS (normalize n (normalize n (buf x0))) = - 19.191"
    unfolding b1 b2 g0 g1 m0 m1 m2
    using powr10_less_2 [of "1 / 10"] powr10_less_2 [of "1 / 20"] by simp
  then show ?thesis by (simp add: n_def buf_def x0_def)
qed

subsection \<open>Preset engine: shape of the result\<close>

lemma fold_invariant:
  assumes "\<And>x s. x \<in> set xs \<Longrightarrow> P s \<Longrightarrow> P (f x s)" and "P s0"
  shows "P (fold f xs s0)"
  using assms by (induction xs arbitrary: s0) auto

lemma map_length_update:
  assumes "length x = length (chans ! ch)"
  shows "map length (chans[ch := x]) = map length chans"
proof (cases "ch < length chans")
  case True
  with assms show ?thesis
    by (intro nth_equalityI) (auto simp: nth_list_update)
next
  case False
  then have "length chans \<le> ch" by simp
  then show ?thesis by (simp add: list_update_beyond)
qed

lemma for_each_frame_channel_shape:
  "buffer_shape (snd (for_each_frame_channel f st b)) = buffer_shape b"
proof -
  let ?P = "\<lambda>(s :: 'a, chans). map length chans = map length (ab_channels b)"
  let ?inner = "\<lambda>i. fold (\<lambda>ch (st, chans).
                       case f st (chans ! ch ! i) of
                         (st', sample) \<Rightarrow> (st', chans[ch := (chans ! ch)[i := sample]]))
                 [0..<numberOfChannels b]"
  have inner: "?P acc \<Longrightarrow> ?P (?inner i acc)" for i acc
    by (rule fold_invariant) (auto simp: map_length_update split: prod.splits)
  have "?P (fold ?inner [0..<ab_length b] (st, ab_channels b))"
    by (rule fold_invariant) (use inner in auto)
  then show ?thesis
    by (auto simp: for_each_frame_channel_def buffer_shape_def split: prod.splits)
qed

lemma for_each_stereo_frame_shape:
  "buffer_shape (snd (for_each_stereo_frame f st b)) = buffer_shape b"
proof -
  let ?P = "\<lambda>(s :: 'a, left, right). length left = length (ab_channels b ! 0) \<and> length right = length (ab_channels b ! 1)"
  have "?P (fold (\<lambda>i (st, left, right).
               case f st (left ! i) (right ! i) of
                 (st', l, r) \<Rightarrow> (st', left[i := l], right[i := r]))
             [0..<ab_length b] (st, ab_channels b ! 0, ab_channels b ! 1))"
    by (rule fold_invariant) (auto split: prod.splits)
  then show ?thesis
    by (auto simp: for_each_stereo_frame_def buffer_shape_def map_length_update nth_list_update
        split: prod.splits)
qed

lemma for_each_mono_frame_shape:
  "buffer_shape (snd (for_each_mono_frame f st b)) = buffer_shape b"
proof -
  let ?P = "\<lambda>(s :: 'a, data). length data = length (ab_channels b ! 0)"
  have "?P (fold (\<lambda>i (st, data).
               case f st (data ! i) of (st', sample) \<Rightarrow> (st', data[i := sample]))
             [0..<ab_length b] (st, ab_channels b ! 0))"
    by (rule fold_invariant) (auto split: prod.splits)
  then show ?thesis
    by (auto simp: for_each_mono_frame_def buffer_shape_def map_length_update split: prod.splits)
qed

lemmas loop_shapes = for_each_frame_channel_shape for_each_stereo_frame_shape for_each_mono_frame_shape

lemmas preset_process_defs =
  DeHarshPreset_process_def MudRemoverPreset_process_def BassTamerPreset_process_def
  VintageWarmthPreset_process_def ModernBrightPreset_process_def LoFiCharacterPreset_process_def
  NeoSoulPreset_process_def FestivalBangerPreset_process_def FocusCenterPreset_process_def
  ImmersivePreset_process_def WideSpaciousPreset_process_def VocalForwardPreset_process_def
  SmoothMidsPreset_process_def DynamicClearPreset_process_def MaximumImpactPreset_process_def
  BigCappoPreset_process_def

lemma Preset_process_shape:
  assumes "Preset_process ops p (Some a) b = Inr b'"
  shows "buffer_shape b' = buffer_shape b"
  using assms
  by (cases p) (auto simp: preset_process_defs Let_def loop_shapes split: if_splits sum.splits)

lemma Preset_process_succeeds:
  assumes "1 \<le> numberOfChannels b"
  shows "\<exists>b'. Preset_process ops p (Some a) b = Inr b'"
  using assms
  by (cases p) (auto simp: preset_process_defs Let_def getChannelData_def)


lemma presets_table_names: "map fst (presets_table ops sampleRate) = getPresetNames"
  by (simp add: presets_table_def getPresetNames_def)

lemma getPreset_catalog:
  assumes "presetName \<in> set getPresetNames"
  shows "\<exists>preset. getPreset ops engine presetName = PresetObject preset"
proof -
  from assms have "presetName \<in> fst ` set (presets_table ops (pe_sampleRate engine))"
    using presets_table_names [of ops "pe_sampleRate engine"] by (metis set_map)
  then obtain preset where "map_of (presets_table ops (pe_sampleRate engine)) presetName = Some preset"
    by (cases "map_of (presets_table ops (pe_sampleRate engine)) presetName")
       (auto simp: map_of_eq_None_iff)
  then show ?thesis by (simp add: getPreset_def)
qed

lemma getPreset_not_catalog:
  assumes "presetName \<notin> set getPresetNames"
  shows "map_of (presets_table ops sampleRate) presetName = None"
  using assms presets_table_names [of ops sampleRate]
  by (metis map_of_eq_None_iff set_map)

lemma copy_channels_shape: "buffer_shape (copy_channels a p) = buffer_shape p"
proof -
  let ?P = "\<lambda>chans. map length chans = map length (ab_channels p)"
  have inner: "length (fold (\<lambda>i processedData. processedData[i := f i]) xs d) = length d" for f xs and d :: "real list"
    by (rule fold_invariant [where P = "\<lambda>d'. length d' = length d"]) auto
  have "?P (fold (\<lambda>channel chans.
               chans[channel :=
                 fold (\<lambda>i processedData. processedData[i := ab_channels a ! channel ! i])
                   [0..<length (ab_channels a ! channel)] (chans ! channel)])
         [0..<numberOfChannels a] (ab_channels p))"
    by (rule fold_invariant) (auto simp: map_length_update inner)
  then show ?thesis by (simp add: copy_channels_def buffer_shape_def)
qed

lemma valid_buffer_shape:
  "valid_buffer b \<longleftrightarrow>
     (case buffer_shape b of (sr, len, lens) \<Rightarrow> 1 \<le> length lens \<and> 1 \<le> len \<and> (\<forall>n\<in>set lens. n = len))"
  by (auto simp: valid_buffer_def buffer_shape_def numberOfChannels_def list_all_iff)

lemma shape_projections:
  assumes "buffer_shape b' = buffer_shape b"
  shows "numberOfChannels b' = numberOfChannels b" "ab_length b' = ab_length b"
    "ab_sampleRate b' = ab_sampleRate b" "valid_buffer b' = valid_buffer b"
proof -
  from assms have "map length (ab_channels b') = map length (ab_channels b)"
    by (simp add: buffer_shape_def)
  then have "length (map length (ab_channels b')) = length (map length (ab_channels b))" by simp
  then show "numberOfChannels b' = numberOfChannels b" by (simp add: numberOfChannels_def)
  show "ab_length b' = ab_length b" "ab_sampleRate b' = ab_sampleRate b"
    using assms by (simp_all add: buffer_shape_def)
  show "valid_buffer b' = valid_buffer b" by (simp add: valid_buffer_shape assms)
qed

lemma fresh_buffer_shape:
  assumes "valid_buffer b"
  shows "buffer_shape \<lparr>ab_sampleRate = ab_sampleRate b, ab_length = ab_length b,
            ab_channels = replicate (numberOfChannels b) (replicate (ab_length b) 0)\<rparr> = buffer_shape b"
proof -
  from assms have "\<forall>ch\<in>set (ab_channels b). length ch = ab_length b"
    by (simp add: valid_buffer_def list_all_iff)
  then have "map length (ab_channels b) = replicate (length (ab_channels b)) (ab_length b)"
    by (intro nth_equalityI) auto
  then show ?thesis by (simp add: buffer_shape_def numberOfChannels_def)
qed

text \<open>
  C2.  With a measurement record set on the engine, for every one of the sixteen chain names
  and every valid buffer in the store, \<open>process\<close> returns a reference to a buffer with the
  channel count, the length and the sample rate of the input, each channel array having that
  length.
\<close>

theorem PresetEngine_process_preserves_shape:
  assumes "audioBuffer < length h" and "valid_buffer (h ! audioBuffer)"
    and "pe_analysisData engine = Some analysisData"
    and "presetName \<in> set getPresetNames"
  shows "\<exists>h' processed.
           PresetEngine_process ops engine h audioBuffer presetName = (h', Inr processed)
         \<and> processed < length h'
         \<and> numberOfChannels (h' ! processed) = numberOfChannels (h ! audioBuffer)
         \<and> ab_length (h' ! processed) = ab_length (h ! audioBuffer)
         \<and> ab_sampleRate (h' ! processed) = ab_sampleRate (h ! audioBuffer)
         \<and> valid_buffer (h' ! processed)"
proof -
  define b where "b = h ! audioBuffer"
  define fresh where "fresh = \<lparr>ab_sampleRate = ab_sampleRate b, ab_length = ab_length b,
            ab_channels = replicate (numberOfChannels b) (replicate (ab_length b) 0)\<rparr>"
  define h1 where "h1 = h @ [fresh]"
  define work where "work = copy_channels b fresh"
  define h2 where "h2 = h1[length h := work]"
  from getPreset_catalog [OF assms(4)] obtain preset
    where gp: "getPreset ops engine presetName = PresetObject preset" by blast
  have cb: "createBuffer h (numberOfChannels b) (ab_length b) (ab_sampleRate b) = (h1, length h)"
    by (simp add: createBuffer_def h1_def fresh_def)
  have h1a: "h1 ! audioBuffer = b" using assms(1) by (simp add: h1_def b_def nth_append)
  have h1p: "h1 ! length h = fresh" by (simp add: h1_def)
  have h2p: "h2 ! length h = work" by (simp add: h2_def h1_def)
  have sw: "buffer_shape work = buffer_shape b"
    using assms(2) by (simp add: work_def copy_channels_shape fresh_def fresh_buffer_shape b_def)
  have "1 \<le> numberOfChannels work"
    using shape_projections(1) [OF sw] assms(2) by (simp add: valid_buffer_def b_def)
  from Preset_process_succeeds [OF this, of ops preset analysisData]
  obtain b' where pp: "Preset_process ops preset (Some analysisData) work = Inr b'" by blast
  have sb': "buffer_shape b' = buffer_shape b"
    using Preset_process_shape [OF pp] sw by simp
  have res: "PresetEngine_process ops engine h audioBuffer presetName = (h2[length h := b'], Inr (length h))"
    unfolding PresetEngine_process_def Let_def gp b_def [symmetric] cb
    by (simp add: h1a h1p h2_def [symmetric] work_def [symmetric] h2p assms(3) pp)
  have "h2[length h := b'] ! length h = b'" by (simp add: h2_def h1_def)
  moreover have "length h < length (h2[length h := b'])" by (simp add: h2_def h1_def)
  ultimately show ?thesis
    using res shape_projections [OF sb'] assms(2) by (simp add: b_def)
qed

theorem PresetEngine_process_preserves_shape_witness:
  "(0::nat) < length [\<lparr>ab_sampleRate = 48000, ab_length = 2, ab_channels = [[1 / 2, - 1 / 2]]\<rparr>]
   \<and> valid_buffer ([\<lparr>ab_sampleRate = 48000, ab_length = 2, ab_channels = [[1 / 2, - 1 / 2]]\<rparr>] ! 0)
   \<and> ''De-Harsh'' \<in> set getPresetNames
   \<and> (\<exists>h' processed.
         PresetEngine_process
           \<lparr>pc_new = (\<lambda>threshold retuneSpeed sampleRate. ()), pc_reset = (\<lambda>p. p),
             pc_processSample = (\<lambda>p sample. (p, sample))\<rparr>
           \<lparr>pe_sampleRate = 48000, pe_analysisData = Some
              \<lparr>ad_integratedLUFS = - 12, ad_dynamicRange = 10, ad_crestFactor = 3,
                ad_spectralBalance = \<lparr>sb_low = 0.3, sb_mid = 0.4, sb_high = 0.3\<rparr>,
                ad_vocalDominance = 0.3, ad_harshness = 0.2, ad_mud = 0.1, ad_bassStability = 0.2\<rparr>\<rparr>
           [\<lparr>ab_sampleRate = 48000, ab_length = 2, ab_channels = [[1 / 2, - 1 / 2]]\<rparr>] 0 ''De-Harsh''
           = (h', Inr processed)
         \<and> numberOfChannels (h' ! processed) = 1
         \<and> ab_length (h' ! processed) = 2
         \<and> ab_sampleRate (h' ! processed) = 48000)"
proof -
  let ?b = "\<lparr>ab_sampleRate = 48000, ab_length = 2, ab_channels = [[1 / 2, - 1 / 2 :: real]]\<rparr>"
  have a: "(0::nat) < length [?b]" by simp
  have v: "valid_buffer ([?b] ! 0)" by (simp add: valid_buffer_def numberOfChannels_def)
  have n: "''De-Harsh'' \<in> set getPresetNames" by (simp add: getPresetNames_def)
  let ?ad = "\<lparr>ad_integratedLUFS = - 12, ad_dynamicRange = 10, ad_crestFactor = 3,
                ad_spectralBalance = \<lparr>sb_low = 0.3, sb_mid = 0.4, sb_high = 0.3\<rparr>,
                ad_vocalDominance = 0.3, ad_harshness = 0.2, ad_mud = 0.1, ad_bassStability = 0.2\<rparr>"
  let ?engine = "\<lparr>pe_sampleRate = 48000, pe_analysisData = Some ?ad\<rparr>"
  let ?ops = "\<lparr>pc_new = (\<lambda>threshold retuneSpeed sampleRate :: real. ()), pc_reset = (\<lambda>p. p),
             pc_processSample = (\<lambda>p sample. (p, sample))\<rparr>"
  have e: "pe_analysisData ?engine = Some ?ad" by simp
  from PresetEngine_process_preserves_shape [OF a v e n, of ?ops]
  obtain h' processed where
    "PresetEngine_process ?ops ?engine [?b] 0 ''De-Harsh'' = (h', Inr processed)"
    "numberOfChannels (h' ! processed) = numberOfChannels ([?b] ! 0)"
    "ab_length (h' ! processed) = ab_length ([?b] ! 0)"
    "ab_sampleRate (h' ! processed) = ab_sampleRate ([?b] ! 0)"
    by blast
  then have "\<exists>h' processed.
      PresetEngine_process ?ops ?engine [?b] 0 ''De-Harsh'' = (h', Inr processed)
      \<and> numberOfChannels (h' ! processed) = 1
      \<and> ab_length (h' ! processed) = 2
      \<and> ab_sampleRate (h' ! processed) = 48000"
    by (simp add: numberOfChannels_def)
  with a v n show ?thesis by blast
qed

subsection \<open>Preset engine: the caller's buffer\<close>

text \<open>
  C10.  Whatever the chain name, the engine and the store, the cell of the caller's buffer
  holds after \<open>process\<close> what it held before, and the reference returned is never the
  caller's: the stages run on the cell that \<open>createBuffer\<close> allocated.
\<close>

theorem PresetEngine_process_leaves_input_unchanged:
  assumes "audioBuffer < length h"
  shows "fst (PresetEngine_process ops engine h audioBuffer presetName) ! audioBuffer = h ! audioBuffer
       \<and> snd (PresetEngine_process ops engine h audioBuffer presetName) \<noteq> Inr audioBuffer"
  using assms
  by (auto simp: PresetEngine_process_def Let_def createBuffer_def nth_append
      split: sum.splits prod.splits)

theorem PresetEngine_process_leaves_input_unchanged_witness:
  "fst (PresetEngine_process
           \<lparr>pc_new = (\<lambda>threshold retuneSpeed sampleRate. ()), pc_reset = (\<lambda>p. p),
             pc_processSample = (\<lambda>p sample. (p, sample))\<rparr>
           \<lparr>pe_sampleRate = 48000, pe_analysisData = Some
              \<lparr>ad_integratedLUFS = - 12, ad_dynamicRange = 10, ad_crestFactor = 3,
                ad_spectralBalance = \<lparr>sb_low = 0.3, sb_mid = 0.4, sb_high = 0.3\<rparr>,
                ad_vocalDominance = 0.3, ad_harshness = 0.2, ad_mud = 0.1, ad_bassStability = 0.2\<rparr>\<rparr>
           [\<lparr>ab_sampleRate = 48000, ab_length = 2, ab_channels = [[1 / 2, - 1 / 2]]\<rparr>] 0
           ''Maximum Impact'') ! 0
     = \<lparr>ab_sampleRate = 48000, ab_length = 2, ab_channels = [[1 / 2, - 1 / 2]]\<rparr>"
proof -
  have a: "(0::nat) < length [\<lparr>ab_sampleRate = 48000, ab_length = 2, ab_channels = [[1 / 2, - 1 / 2 :: real]]\<rparr>]"
    by simp
  from PresetEngine_process_leaves_input_unchanged [OF a, THEN conjunct1] show ?thesis
    by (simp only: nth_Cons_0)
qed

subsection \<open>Preset engine: lookup of the chain name\<close>

lemma constructor_not_in_catalog: "''constructor'' \<notin> set getPresetNames"
  by (simp add: getPresetNames_def)

lemma PresetEngine_process_unknown_name:
  assumes "presetName \<notin> set getPresetNames"
    and "presetName \<notin> set Object_prototype_functions" and "presetName \<noteq> ''__proto__''"
  shows "PresetEngine_process ops engine h audioBuffer presetName
         = (h, Inl (Error (not_found_message presetName)))"
  using assms getPreset_not_catalog [OF assms(1), of ops "pe_sampleRate engine"]
  by (simp add: PresetEngine_process_def getPreset_def Let_def)

lemma PresetEngine_process_catalog_name_passes_lookup:
  assumes "presetName \<in> set getPresetNames"
  shows "\<not> falsy (getPreset ops engine presetName)"
  using getPreset_catalog [OF assms, of ops engine] by auto

text \<open>
  C6.  The name \<open>constructor\<close> is not in the catalog, yet \<open>presets[presetName]\<close> finds
  the function inherited from \<open>Object.prototype\<close>, the guard \<open>!preset\<close> lets it pass, a
  working buffer is allocated, and the call fails only at \<open>preset.process\<close> with a
  TypeError instead of the error \<open>Preset "constructor" not found\<close>.
\<close>

theorem PresetEngine_process_inherited_property_name:
  "snd (PresetEngine_process ops engine h audioBuffer ''constructor'') = Inl TypeError
   \<and> snd (PresetEngine_process ops engine h audioBuffer ''constructor'')
       \<noteq> Inl (Error (not_found_message ''constructor''))
   \<and> ''constructor'' \<notin> set getPresetNames
   \<and> length (fst (PresetEngine_process ops engine h audioBuffer ''constructor'')) = Suc (length h)"
proof -
  have "map_of (presets_table ops (pe_sampleRate engine)) ''constructor'' = None"
    by (rule getPreset_not_catalog [OF constructor_not_in_catalog])
  then have gp: "getPreset ops engine ''constructor'' = BuiltinFunction ''constructor''"
    by (simp add: getPreset_def Object_prototype_functions_def)
  show ?thesis
    by (simp add: PresetEngine_process_def Let_def gp createBuffer_def constructor_not_in_catalog
        split: prod.splits)
qed


subsection \<open>Export: the true-peak ceiling\<close>

lemma exportToWAV_unresolved:
  assumes "globals ''truePeakCeiling'' = None"
  shows "snd (exportToWAV dbl float32 globals h rs audioBuffer filename options)
         = (rs, Inl (ReferenceError ''truePeakCeiling''))"
  using assms by (simp add: exportToWAV_def resolve_global_def Let_def split: prod.splits)

text \<open>
  What the export has done to the store by then stays done: with no rate conversion, the
  caller's own buffer has been normalised where it stands when the error is raised.
\<close>

lemma exportToWAV_unresolved_store:
  assumes "globals ''truePeakCeiling'' = None"
    and "eo_sampleRate options = None \<or> eo_sampleRate options = Some (ab_sampleRate (h ! audioBuffer))"
    and "eo_targetLUFS options = Some t" and "eo_normalize options = Some True"
  shows "exportToWAV dbl float32 globals h rs audioBuffer filename options
         = (h[audioBuffer := normalize \<lparr>ln_targetLUFS = t, ln_sampleRate = ab_sampleRate (h ! audioBuffer)\<rparr>
                               (h ! audioBuffer)],
            rs, Inl (ReferenceError ''truePeakCeiling''))"
  using assms by (auto simp: exportToWAV_def resolve_global_def Let_def)

text \<open>
  C1.  In a host whose global object has no property \<open>truePeakCeiling\<close> (a browser has
  none and the repository defines none), the export with
  \<open>{sampleRate: 48000, bitDepth: 24, truePeakCeiling: -0.5}\<close> does not complete, through
  \<open>exportToWAV\<close> or through \<open>exportToAppleLossless\<close>: after rate conversion and
  normalisation the test \<open>truePeakCeiling !== null\<close> raises a ReferenceError, because
  \<open>exportToWAV\<close> never takes \<open>truePeakCeiling\<close> out of its options.  This holds for
  every store and every buffer reference.  No file is written, no validation report is
  produced and no random number is drawn.
\<close>

theorem export_throws_ReferenceError:
  "snd (exportToWAV dbl float32 (\<lambda>name. None) h rs audioBuffer filename
       \<lparr>eo_bitDepth = Some 24, eo_sampleRate = Some 48000, eo_targetLUFS = targetLUFS,
        eo_truePeakCeiling = Some (- 0.5), eo_dither = dither, eo_normalize = normalize_flag\<rparr>)
     = (rs, Inl (ReferenceError ''truePeakCeiling''))
   \<and> snd (exportToAppleLossless dbl float32 (\<lambda>name. None) h rs audioBuffer filename
       \<lparr>eo_bitDepth = Some 24, eo_sampleRate = Some 48000, eo_targetLUFS = targetLUFS,
        eo_truePeakCeiling = Some (- 0.5), eo_dither = dither, eo_normalize = normalize_flag\<rparr>)
     = (rs, Inl (ReferenceError ''truePeakCeiling''))"
proof -
  have w: "snd (exportToWAV dbl float32 (\<lambda>name. None) h rs audioBuffer fn opts)
           = (rs, Inl (ReferenceError ''truePeakCeiling''))" for fn opts
    by (rule exportToWAV_unresolved) simp
  have "snd (exportToAppleLossless dbl float32 (\<lambda>name. None) h rs audioBuffer fn opts)
           = (rs, Inl (ReferenceError ''truePeakCeiling''))" for fn opts
  proof -
    let ?fn = "replace_first ''.m4a'' ''_AppleLossless.wav'' fn"
    let ?o = "\<lparr>eo_bitDepth = Some 24, eo_sampleRate = Some 48000,
                 eo_targetLUFS = Some (case eo_targetLUFS opts of None \<Rightarrow> - 9 | Some t \<Rightarrow> t),
                 eo_truePeakCeiling = Some (case eo_truePeakCeiling opts of None \<Rightarrow> - 0.5 | Some c \<Rightarrow> c),
                 eo_dither = Some True, eo_normalize = Some True\<rparr>"
    obtain h' rs' r where e: "exportToWAV dbl float32 (\<lambda>name. None) h rs audioBuffer ?fn ?o = (h', rs', r)"
      by (cases "exportToWAV dbl float32 (\<lambda>name. None) h rs audioBuffer ?fn ?o") auto
    from w [of ?fn ?o] e have "rs' = rs" "r = Inl (ReferenceError ''truePeakCeiling'')" by simp_all
    then show ?thesis
      by (simp add: exportToAppleLossless_def Let_def e)
  qed
  with w show ?thesis by simp
qed

subsection \<open>Export: the encoder\<close>






















subsection \<open>Export: in a host that defines the identifier\<close>

text \<open>
  The header writes of the 24-bit path all succeed on a view of \<open>50 + dataSize\<close> bytes,
  the sample loop writes \<open>dataSize\<close> bytes behind them without touching the header, and
  the header check of \<open>validateExportedFile\<close> reads back what was written.  So where the
  host does resolve the identifier \<open>truePeakCeiling\<close>, the export at 48 kHz and 24 bits
  returns a result whose file validation has no error.
\<close>

lemma setBytes_Inr:
  "off + length bs \<le> length buf \<Longrightarrow>
   setBytes off bs (Inr buf) = Inr (take off buf @ bs @ drop (off + length bs) buf)"
  by (simp add: setBytes_def)

lemma writeString_prefix:
  assumes "off + length s \<le> length buf" and "k \<le> length s"
  shows "fold (\<lambda>i view. setUint8 (off + i) (of_nat (of_char (s ! i))) view) [0..<k] (Inr buf)
         = Inr (take off buf @ char_codes (take k s) @ drop (off + k) buf)"
  using assms(2)
proof (induction k)
  case 0
  then show ?case by (simp add: char_codes_def)
next
  case (Suc k)
  let ?B = "take off buf @ char_codes (take k s) @ drop (off + k) buf"
  have lB: "length ?B = length buf" using Suc.prems assms(1) by (simp add: char_codes_def)
  have tk: "take (off + k) ?B = take off buf @ char_codes (take k s)"
    using Suc.prems assms(1) by (simp add: char_codes_def)
  have dk: "drop (off + k + 1) ?B = drop (off + k + 1) buf"
    using Suc.prems assms(1) by (simp add: char_codes_def)
  have "fold (\<lambda>i view. setUint8 (off + i) (of_nat (of_char (s ! i))) view) [0..<Suc k] (Inr buf)
        = setUint8 (off + k) (of_nat (of_char (s ! k))) (Inr ?B)"
    using Suc by simp
  also have "\<dots> = Inr (take (off + k) ?B @ [of_nat (of_char (s ! k))] @ drop (off + k + 1) ?B)"
    unfolding setUint8_def using Suc.prems assms(1) lB by (subst setBytes_Inr) simp_all
  also have "\<dots> = Inr (take off buf @ char_codes (take (Suc k) s) @ drop (off + Suc k) buf)"
    unfolding tk dk using Suc.prems by (simp add: char_codes_def take_Suc_conv_app_nth)
  finally show ?case .
qed

lemma writeString_setBytes:
  assumes "off + length s \<le> length buf"
  shows "writeString off s (Inr buf) = setBytes off (char_codes s) (Inr buf)"
  using writeString_prefix [OF assms, of "length s"] assms
  by (simp add: writeString_def setBytes_Inr char_codes_def)

lemma replicate46: "replicate 46 (0::byte) =
  [0,0,0,0,0,0,0,0,0,0, 0,0,0,0,0,0,0,0,0,0, 0,0,0,0,0,0,0,0,0,0, 0,0,0,0,0,0,0,0,0,0, 0,0,0,0,0,0]"
  by (simp add: numeral_eq_Suc)

lemma header24_written:
  "setUint32 42 (of_nat D)
     (writeString 38 ''data''
       (setUint16 36 0
         (setUint16 34 (of_nat 24)
           (setUint16 32 (of_nat BA)
             (setUint32 28 (of_nat BR)
               (setUint32 24 (of_nat SR)
                 (setUint16 22 (of_nat NC)
                   (setUint16 20 1
                     (setUint32 16 18
                       (writeString 12 ''fmt ''
                         (writeString 8 ''WAVE''
                           (setUint32 4 (of_nat SZ)
                             (writeString 0 ''RIFF''
                               (Inr (replicate 46 0 @ R)))))))))))))))
   = Inr ((char_codes ''RIFF'' @ le32 (of_nat SZ) @ char_codes ''WAVE''
         @ char_codes ''fmt '' @ le32 18 @ le16 1 @ le16 (of_nat NC)
         @ le32 (of_nat SR) @ le32 (of_nat BR) @ le16 (of_nat BA)
         @ le16 (of_nat 24) @ le16 0 @ char_codes ''data'' @ le32 (of_nat D)) @ R)"
  unfolding replicate46
  by (simp add: writeString_setBytes setBytes_Inr setUint32_def setUint16_def
      le16_def le32_def char_codes_def)

lemma fold_count_bounded:
  assumes step: "\<And>x k s. k < n \<Longrightarrow> P k s \<Longrightarrow> P (Suc k) (f x s)"
    and "P 0 s0" and "length xs \<le> n"
  shows "P (length xs) (fold f xs s0)"
proof -
  have "P k s \<Longrightarrow> k + length xs \<le> n \<Longrightarrow> P (k + length xs) (fold f xs s)" for k s
  proof (induction xs arbitrary: k s)
    case Nil
    then show ?case by simp
  next
    case (Cons x xs)
    from Cons.prems have "k < n" by simp
    from step [OF this Cons.prems(1)] have "P (Suc k) (f x s)" .
    from Cons.IH [OF this] Cons.prems(2) show ?case by simp
  qed
  from this [OF assms(2)] assms(3) show ?thesis by simp
qed

lemma nested_fold_count_bounded:
  assumes step: "\<And>i ch k s. k < length is * length chs \<Longrightarrow> P k s \<Longrightarrow> P (Suc k) (f i ch s)"
    and "P 0 s0"
  shows "P (length is * length chs) (fold (\<lambda>i. fold (f i) chs) is s0)"
proof -
  have inner: "P (length chs * j + length chs) (fold (f i) chs s)"
    if "P (length chs * j) s" and "j < length is" for j s i
  proof (rule fold_count_bounded [where P = "\<lambda>k s. P (length chs * j + k) s" and n = "length chs"])
    show "P (length chs * j + Suc k) (f i x s')"
      if "k < length chs" and "P (length chs * j + k) s'" for x k s'
    proof -
      have "length chs * j + length chs = length chs * Suc j" by simp
      also have "\<dots> \<le> length chs * length is"
        using \<open>j < length is\<close> by (intro mult_le_mono2) simp
      finally have "length chs * j + k < length is * length chs"
        using \<open>k < length chs\<close> by (simp add: mult.commute)
      from step [OF this \<open>P (length chs * j + k) s'\<close>] show ?thesis by simp
    qed
    show "P (length chs * j + 0) s" using that(1) by simp
    show "length chs \<le> length chs" by simp
  qed
  have "P (length chs * length is) (fold (\<lambda>i. fold (f i) chs) is s0)"
  proof (rule fold_count_bounded [where P = "\<lambda>k s. P (length chs * k) s" and n = "length is"])
    show "P (length chs * Suc k) (fold (f x) chs s')"
      if "k < length is" and "P (length chs * k) s'" for x k s'
      using inner [OF that(2) that(1), of x] by (simp add: add.commute)
    show "P (length chs * 0) s0" using assms(2) by simp
    show "length is \<le> length is" by simp
  qed
  then show ?thesis by (simp add: mult.commute)
qed

lemma setBytes_after_prefix:
  assumes "length H \<le> off" and "off + length bs \<le> length H + length T"
  shows "setBytes off bs (Inr (H @ T))
         = Inr (H @ (take (off - length H) T @ bs @ drop (off - length H + length bs) T))"
  using assms by (simp add: setBytes_def)

lemma pcm24_keeps_header:
  assumes "header_kept H n 3 k s" and "3 * Suc k \<le> n"
  shows "header_kept H n 3 (Suc k)
     ((\<lambda>(view, offset, ditherProcessor, rs).
                    case view of
                      Inl e \<Rightarrow> (view, offset, ditherProcessor, rs)
                    | Inr buf \<Rightarrow>
                    (let maxValue = 2 ^ 23 - 1;
                         sample = clamp_sample (ab_channels b ! ch ! i);
                         (ditherProcessor, rs, sample) = dither_sample ditherProcessor rs sample;
                         intSample = (word_of_int (Math_round (sample * maxValue)) :: 32 word);
                         view = setUint8 offset (ucast (intSample AND 0xFF)) view;
                         view = setUint8 (offset + 1) (ucast (signed_drop_bit 8 intSample AND 0xFF)) view;
                         view = setUint8 (offset + 2) (ucast (signed_drop_bit 16 intSample AND 0xFF)) view
                     in (view, offset + 3, ditherProcessor, rs))) s)"
proof -
  obtain view offset dp rs where s: "s = (view, offset, dp, rs)" by (cases s) auto
  from assms(1) obtain T where off: "offset = length H + 3 * k" and v: "view = Inr (H @ T)"
    and T: "length T = n"
    by (auto simp: header_kept_def s)
  obtain dp' rs' x' where d: "dither_sample dp rs (clamp_sample (ab_channels b ! ch ! i)) = (dp', rs', x')"
    by (cases "dither_sample dp rs (clamp_sample (ab_channels b ! ch ! i))") auto
  define upd :: "nat \<Rightarrow> byte \<Rightarrow> byte list \<Rightarrow> byte list"
    where "upd j x T0 = take j T0 @ [x] @ drop (j + 1) T0" for j x T0
  have w: "setUint8 (length H + j) x (Inr (H @ T0)) = Inr (H @ upd j x T0)"
    if "j < length T0" for j x T0
    unfolding setUint8_def upd_def using that
    by (subst setBytes_after_prefix) auto
  have len: "length (upd j x T0) = length T0" if "j < length T0" for j x T0
    using that by (simp add: upd_def)
  from assms(2) T have j: "3 * k < length T" "3 * k + 1 < length T" "3 * k + 2 < length T"
    by simp_all
  have "\<exists>T'. setUint8 (length H + (3 * k + 2)) e
               (setUint8 (length H + (3 * k + 1)) c
                 (setUint8 (length H + 3 * k) a (Inr (H @ T)))) = Inr (H @ T')
             \<and> length T' = n" for a c e
  proof -
    let ?T1 = "upd (3 * k) a T"
    let ?T2 = "upd (3 * k + 1) c ?T1"
    let ?T3 = "upd (3 * k + 2) e ?T2"
    have l1: "length ?T1 = length T" by (rule len [OF j(1)])
    have l2: "length ?T2 = length T" using len [of "3 * k + 1" ?T1 c] j(2) l1 by simp
    have l3: "length ?T3 = length T" using len [of "3 * k + 2" ?T2 e] j(3) l2 by simp
    have s1: "setUint8 (length H + 3 * k) a (Inr (H @ T)) = Inr (H @ ?T1)"
      by (rule w [OF j(1)])
    have s2: "setUint8 (length H + (3 * k + 1)) c (Inr (H @ ?T1)) = Inr (H @ ?T2)"
      using w [of "3 * k + 1" ?T1 c] j(2) l1 by simp
    have s3: "setUint8 (length H + (3 * k + 2)) e (Inr (H @ ?T2)) = Inr (H @ ?T3)"
      using w [of "3 * k + 2" ?T2 e] j(3) l2 by simp
    show ?thesis unfolding s1 s2 s3 using l3 T by blast
  qed
  then show ?thesis
    by (simp add: header_kept_def s d Let_def off v add.assoc)
qed

lemma write_pcm24_keeps_header:
  assumes "length T = 4 + 3 * (ab_length b * numberOfChannels b)"
  shows "\<exists>T'. fst (write_pcm24_samples b (Inr (H @ T), length H, dp, rs)) = Inr (H @ T')
              \<and> length T' = length T"
proof -
  have "header_kept H (length T) 3 (length [0..<ab_length b] * length [0..<numberOfChannels b])
     (write_pcm24_samples b (Inr (H @ T), length H, dp, rs))"
    unfolding write_pcm24_samples_def
  proof (rule nested_fold_count_bounded [where P = "header_kept H (length T) 3"])
    show "header_kept H (length T) 3 0 (Inr (H @ T), length H, dp, rs)"
      by (simp add: header_kept_def)
  next
    fix i ch k s
    assume k: "k < length [0..<ab_length b] * length [0..<numberOfChannels b]"
      and inv: "header_kept H (length T) 3 k s"
    from k assms have "3 * Suc k \<le> length T" by simp
    from pcm24_keeps_header [OF inv this]
    show "header_kept H (length T) 3 (Suc k)
     ((\<lambda>(view, offset, ditherProcessor, rs).
                    case view of
                      Inl e \<Rightarrow> (view, offset, ditherProcessor, rs)
                    | Inr buf \<Rightarrow>
                    (let maxValue = 2 ^ 23 - 1;
                         sample = clamp_sample (ab_channels b ! ch ! i);
                         (ditherProcessor, rs, sample) = dither_sample ditherProcessor rs sample;
                         intSample = (word_of_int (Math_round (sample * maxValue)) :: 32 word);
                         view = setUint8 offset (ucast (intSample AND 0xFF)) view;
                         view = setUint8 (offset + 1) (ucast (signed_drop_bit 8 intSample AND 0xFF)) view;
                         view = setUint8 (offset + 2) (ucast (signed_drop_bit 16 intSample AND 0xFF)) view
                     in (view, offset + 3, ditherProcessor, rs))) s)" .
  qed
  then show ?thesis
    by (cases "write_pcm24_samples b (Inr (H @ T), length H, dp, rs)") (auto simp: header_kept_def)
qed

lemma encodeWAV_24_unfolded:
  "encodeWAV float32 rs b 24 dither =
     (case write_pcm24_samples b
        (setUint32 42 (of_nat (ab_length b * (numberOfChannels b * 3)))
          (writeString 38 ''data''
            (setUint16 36 0
              (setUint16 34 (of_nat 24)
                (setUint16 32 (of_nat (numberOfChannels b * 3))
                  (setUint32 28 (of_nat (ab_sampleRate b * (numberOfChannels b * 3)))
                    (setUint32 24 (of_nat (ab_sampleRate b))
                      (setUint16 22 (of_nat (numberOfChannels b))
                        (setUint16 20 1
                          (setUint32 16 18
                            (writeString 12 ''fmt ''
                              (writeString 8 ''WAVE''
                                (setUint32 4 (of_nat (50 - 8 + ab_length b * (numberOfChannels b * 3)))
                                  (writeString 0 ''RIFF''
                                    (Inr (replicate 46 0
                                          @ replicate (4 + ab_length b * (numberOfChannels b * 3)) 0))))))))))))))),
         46, ditherProcessor_of 24 dither, rs) of
        (view, offset, ditherProcessor, rs') \<Rightarrow> (view, rs'))"
  by (simp add: encodeWAV_def Let_def replicate_add [symmetric])

lemma length_wav24_header: "length (wav24_header nc sr len) = 46"
  by (simp add: wav24_header_def Let_def le16_def le32_def char_codes_def)

lemma encodeWAV_24_file:
  "\<exists>T. fst (encodeWAV float32 rs b 24 dither)
          = Inr (wav24_header (numberOfChannels b) (ab_sampleRate b) (ab_length b) @ T)
      \<and> length T = 4 + 3 * (ab_length b * numberOfChannels b)"
proof -
  let ?H = "wav24_header (numberOfChannels b) (ab_sampleRate b) (ab_length b)"
  let ?R = "replicate (4 + ab_length b * (numberOfChannels b * 3)) (0::byte)"
  have R: "length ?R = 4 + 3 * (ab_length b * numberOfChannels b)" by simp
  from write_pcm24_keeps_header [OF R, of ?H "ditherProcessor_of 24 dither" rs]
  obtain T' where "fst (write_pcm24_samples b (Inr (?H @ ?R), 46, ditherProcessor_of 24 dither, rs))
      = Inr (?H @ T')" and "length T' = length ?R"
    unfolding length_wav24_header by blast
  moreover have "fst (encodeWAV float32 rs b 24 dither)
      = fst (write_pcm24_samples b (Inr (?H @ ?R), 46, ditherProcessor_of 24 dither, rs))"
    unfolding encodeWAV_24_unfolded header24_written
    by (simp add: wav24_header_def Let_def split: prod.splits)
  ultimately show ?thesis using R by auto
qed

lemma validateExportedFile_wav24:
  "fv_valid (validateExportedFile (wav24_header nc 48000 len @ T)
               \<lparr>es_sampleRate = 48000, es_bitDepth = 24, es_channels = nc'\<rparr>)
   \<and> fv_errors (validateExportedFile (wav24_header nc 48000 len @ T)
               \<lparr>es_sampleRate = 48000, es_bitDepth = 24, es_channels = nc'\<rparr>) = []
   \<and> (\<exists>h. fv_fileHeader (validateExportedFile (wav24_header nc 48000 len @ T)
               \<lparr>es_sampleRate = 48000, es_bitDepth = 24, es_channels = nc'\<rparr>) = Some h
          \<and> fh_audioFormat h = 1 \<and> fh_sampleRate h = 48000 \<and> fh_bitsPerSample h = 24)"
  by (simp add: validateExportedFile_def read_header_def getUint32_def getUint16_def getUint_def
      wav24_header_def le16_def le32_def char_codes_def Let_def upt_rec)

lemma update_keeps_sampleRate:
  assumes "ab_sampleRate (f (h ! i)) = ab_sampleRate (h ! i)"
  shows "ab_sampleRate (h[i := f (h ! i)] ! i) = ab_sampleRate (h ! i)"
proof (cases "i < length h")
  case True
  then show ?thesis using assms by simp
next
  case False
  then have "length h \<le> i" by simp
  then show ?thesis by (simp add: list_update_beyond)
qed

lemma truePeakLimit_sampleRate:
  "ab_sampleRate (snd (truePeakLimit l b)) = ab_sampleRate b"
  by (simp add: truePeakLimit_def split: prod.splits)

lemma normalize_sampleRate: "ab_sampleRate (normalize n b) = ab_sampleRate b"
  by (simp add: normalize_def Let_def)

lemma convert_sampleRate:
  assumes "sr \<noteq> ab_sampleRate (h ! a)"
    and "convert dbl (new_LosslessSampleRateConverter dbl (ab_sampleRate (h ! a)) sr) h a = (h', wb)"
  shows "ab_sampleRate (h' ! wb) = sr"
  using assms
  by (auto simp: convert_def new_LosslessSampleRateConverter_def createBuffer_def Let_def)

lemma exportToWAV_resolved_form:
  assumes "globals ''truePeakCeiling'' = Some v"
  obtains h2 wb where
    "exportToWAV dbl float32 globals h rs audioBuffer filename options
          = (case encodeWAV float32 rs (h2 ! wb)
                    (case eo_bitDepth options of None \<Rightarrow> 24 | Some b \<Rightarrow> b)
                    (case eo_dither options of None \<Rightarrow> True | Some d \<Rightarrow> d) of
               (view, rs') \<Rightarrow>
                 (case view of
                    Inl e \<Rightarrow> (h2, rs', Inl e)
                  | Inr file \<Rightarrow>
                      (h2, rs',
                       Inr \<lparr>er_success = True, er_filename = filename,
                            er_bitDepth = (case eo_bitDepth options of None \<Rightarrow> 24 | Some b \<Rightarrow> b),
                            er_sampleRate = ab_sampleRate (h2 ! wb),
                            er_fileValidation =
                              validateExportedFile file
                                \<lparr>es_sampleRate = ab_sampleRate (h2 ! wb),
                                 es_bitDepth = (case eo_bitDepth options of None \<Rightarrow> 24 | Some b \<Rightarrow> b),
                                 es_channels = numberOfChannels (h2 ! wb)\<rparr>,
                            er_file = file\<rparr>)))"
    and "\<And>sr. eo_sampleRate options = Some sr \<Longrightarrow> sr \<noteq> 0 \<Longrightarrow> ab_sampleRate (h2 ! wb) = sr"
proof -
  obtain h0 wb where c: "(case eo_sampleRate options of
               None \<Rightarrow> (h, audioBuffer)
             | Some sr \<Rightarrow>
                 if sr \<noteq> 0 \<and> sr \<noteq> ab_sampleRate (h ! audioBuffer)
                 then convert dbl
                        (new_LosslessSampleRateConverter dbl (ab_sampleRate (h ! audioBuffer)) sr)
                        h audioBuffer
                 else (h, audioBuffer)) = (h0, wb)"
    by (cases "(case eo_sampleRate options of
               None \<Rightarrow> (h, audioBuffer)
             | Some sr \<Rightarrow>
                 if sr \<noteq> 0 \<and> sr \<noteq> ab_sampleRate (h ! audioBuffer)
                 then convert dbl
                        (new_LosslessSampleRateConverter dbl (ab_sampleRate (h ! audioBuffer)) sr)
                        h audioBuffer
                 else (h, audioBuffer))") auto
  have r0: "ab_sampleRate (h0 ! wb) = sr" if "eo_sampleRate options = Some sr" "sr \<noteq> 0" for sr
    using c that convert_sampleRate [of sr h audioBuffer dbl h0 wb]
    by (auto split: if_splits)
  define h1 where "h1 = (case eo_targetLUFS options of
               None \<Rightarrow> h0
             | Some t \<Rightarrow>
                 if (case eo_normalize options of None \<Rightarrow> False | Some n \<Rightarrow> n)
                 then h0[wb :=
                        normalize \<lparr>ln_targetLUFS = t, ln_sampleRate = ab_sampleRate (h0 ! wb)\<rparr>
                          (h0 ! wb)]
                 else h0)"
  have r1: "ab_sampleRate (h1 ! wb) = ab_sampleRate (h0 ! wb)"
    unfolding h1_def
    by (auto split: option.splits intro!: update_keeps_sampleRate simp: normalize_sampleRate)
  define h2 where "h2 v = (case v of
                       Null \<Rightarrow> h1
                     | Number c \<Rightarrow>
                         h1[wb :=
                           snd (truePeakLimit
                                  (new_LosslessTruePeakLimiter c (ab_sampleRate (h1 ! wb)))
                                  (h1 ! wb))])" for v
  have r2: "ab_sampleRate (h2 v ! wb) = ab_sampleRate (h1 ! wb)" for v
    unfolding h2_def
    by (auto split: js_number.splits intro!: update_keeps_sampleRate simp: truePeakLimit_sampleRate)
  have b: "exportToWAV dbl float32 globals h rs audioBuffer filename options
          = (case encodeWAV float32 rs (h2 v ! wb)
                    (case eo_bitDepth options of None \<Rightarrow> 24 | Some b \<Rightarrow> b)
                    (case eo_dither options of None \<Rightarrow> True | Some d \<Rightarrow> d) of
               (view, rs') \<Rightarrow>
                 (case view of
                    Inl e \<Rightarrow> (h2 v, rs', Inl e)
                  | Inr file \<Rightarrow>
                      (h2 v, rs',
                       Inr \<lparr>er_success = True, er_filename = filename,
                            er_bitDepth = (case eo_bitDepth options of None \<Rightarrow> 24 | Some b \<Rightarrow> b),
                            er_sampleRate = ab_sampleRate (h2 v ! wb),
                            er_fileValidation =
                              validateExportedFile file
                                \<lparr>es_sampleRate = ab_sampleRate (h2 v ! wb),
                                 es_bitDepth = (case eo_bitDepth options of None \<Rightarrow> 24 | Some b \<Rightarrow> b),
                                 es_channels = numberOfChannels (h2 v ! wb)\<rparr>,
                            er_file = file\<rparr>)))"
    using assms
    by (cases v; cases "eo_targetLUFS options"; cases "eo_normalize options";
        simp add: exportToWAV_def resolve_global_def Let_def c h1_def h2_def
          cong: sum.case_cong prod.case_cong)
  show thesis
    by (rule that [of "h2 v" wb]) (use b r0 r1 r2 in simp_all)
qed

lemma exportToWAV_resolved:
  assumes "globals ''truePeakCeiling'' = Some v"
  shows "\<exists>h' rs' result hd.
     exportToWAV dbl float32 globals h rs audioBuffer filename
       \<lparr>eo_bitDepth = Some 24, eo_sampleRate = Some 48000, eo_targetLUFS = targetLUFS,
        eo_truePeakCeiling = c, eo_dither = dither, eo_normalize = normalize_flag\<rparr>
       = (h', rs', Inr result)
     \<and> er_sampleRate result = 48000 \<and> er_bitDepth result = 24
     \<and> fv_valid (er_fileValidation result) \<and> fv_errors (er_fileValidation result) = []
     \<and> fv_fileHeader (er_fileValidation result) = Some hd
     \<and> fh_audioFormat hd = 1 \<and> fh_sampleRate hd = 48000 \<and> fh_bitsPerSample hd = 24"
proof -
  let ?o = "\<lparr>eo_bitDepth = Some 24, eo_sampleRate = Some 48000, eo_targetLUFS = targetLUFS,
        eo_truePeakCeiling = c, eo_dither = dither, eo_normalize = normalize_flag\<rparr>"
  let ?d = "case dither of None \<Rightarrow> True | Some d \<Rightarrow> d"
  from exportToWAV_resolved_form [where globals = globals and v = v and dbl = dbl
      and ?float32.0 = float32 and h = h and rs = rs and audioBuffer = audioBuffer
      and filename = filename and options = ?o, OF assms]
  obtain h2 wb where
    ex: "exportToWAV dbl float32 globals h rs audioBuffer filename ?o
          = (case encodeWAV float32 rs (h2 ! wb) 24 ?d of
               (view, rs') \<Rightarrow>
                 (case view of
                    Inl e \<Rightarrow> (h2, rs', Inl e)
                  | Inr file \<Rightarrow>
                      (h2, rs',
                       Inr \<lparr>er_success = True, er_filename = filename,
                            er_bitDepth = 24,
                            er_sampleRate = ab_sampleRate (h2 ! wb),
                            er_fileValidation =
                              validateExportedFile file
                                \<lparr>es_sampleRate = ab_sampleRate (h2 ! wb),
                                 es_bitDepth = 24,
                                 es_channels = numberOfChannels (h2 ! wb)\<rparr>,
                            er_file = file\<rparr>)))"
    and rate: "ab_sampleRate (h2 ! wb) = 48000"
    by (auto cong: sum.case_cong prod.case_cong)
  from encodeWAV_24_file [of float32 rs "h2 ! wb" ?d] obtain T where
    enc: "fst (encodeWAV float32 rs (h2 ! wb) 24 ?d)
             = Inr (wav24_header (numberOfChannels (h2 ! wb)) 48000 (ab_length (h2 ! wb)) @ T)"
    unfolding rate by blast
  obtain rs' where enc': "encodeWAV float32 rs (h2 ! wb) 24 ?d
      = (Inr (wav24_header (numberOfChannels (h2 ! wb)) 48000 (ab_length (h2 ! wb)) @ T), rs')"
    using enc by (cases "encodeWAV float32 rs (h2 ! wb) 24 ?d") auto
  from validateExportedFile_wav24 [of "numberOfChannels (h2 ! wb)" "ab_length (h2 ! wb)" T
      "numberOfChannels (h2 ! wb)"]
  show ?thesis unfolding ex enc' by (simp add: rate)
qed

text \<open>
  The same holds of the 16-bit path and, when the single-precision encoding gives four bytes
  for every sample, of the 32-bit path: no write falls outside the view, so in a host that
  resolves the identifier the export completes at each of the three depths.
\<close>

lemma replicate44: "replicate 44 (0::byte) =
  [0,0,0,0,0,0,0,0,0,0, 0,0,0,0,0,0,0,0,0,0, 0,0,0,0,0,0,0,0,0,0, 0,0,0,0,0,0,0,0,0,0, 0,0,0,0]"
  by (simp add: numeral_eq_Suc)

lemma header16_written:
  "setUint32 40 (of_nat D)
     (writeString 36 ''data''
         (setUint16 34 (of_nat 16)
           (setUint16 32 (of_nat BA)
             (setUint32 28 (of_nat BR)
               (setUint32 24 (of_nat SR)
                 (setUint16 22 (of_nat NC)
                   (setUint16 20 1
                     (setUint32 16 16
                       (writeString 12 ''fmt ''
                         (writeString 8 ''WAVE''
                           (setUint32 4 (of_nat SZ)
                             (writeString 0 ''RIFF''
                               (Inr (replicate 44 0 @ R))))))))))))))
   = Inr ((char_codes ''RIFF'' @ le32 (of_nat SZ) @ char_codes ''WAVE''
         @ char_codes ''fmt '' @ le32 16 @ le16 1 @ le16 (of_nat NC)
         @ le32 (of_nat SR) @ le32 (of_nat BR) @ le16 (of_nat BA)
         @ le16 (of_nat 16) @ char_codes ''data'' @ le32 (of_nat D)) @ R)"
  unfolding replicate44
  by (simp add: writeString_setBytes setBytes_Inr setUint32_def setUint16_def
      le16_def le32_def char_codes_def)

lemma header32_written:
  "setUint32 42 (of_nat D)
     (writeString 38 ''data''
       (setUint16 36 0
         (setUint16 34 (of_nat 32)
           (setUint16 32 (of_nat BA)
             (setUint32 28 (of_nat BR)
               (setUint32 24 (of_nat SR)
                 (setUint16 22 (of_nat NC)
                   (setUint16 20 3
                     (setUint32 16 18
                       (writeString 12 ''fmt ''
                         (writeString 8 ''WAVE''
                           (setUint32 4 (of_nat SZ)
                             (writeString 0 ''RIFF''
                               (Inr (replicate 46 0 @ R)))))))))))))))
   = Inr ((char_codes ''RIFF'' @ le32 (of_nat SZ) @ char_codes ''WAVE''
         @ char_codes ''fmt '' @ le32 18 @ le16 3 @ le16 (of_nat NC)
         @ le32 (of_nat SR) @ le32 (of_nat BR) @ le16 (of_nat BA)
         @ le16 (of_nat 32) @ le16 0 @ char_codes ''data'' @ le32 (of_nat D)) @ R)"
  unfolding replicate46
  by (simp add: writeString_setBytes setBytes_Inr setUint32_def setUint16_def
      le16_def le32_def char_codes_def)

lemma pcm16_keeps_header:
  assumes "header_kept H n 2 k s" and "2 * Suc k \<le> n"
  shows "header_kept H n 2 (Suc k)
     ((\<lambda>(view, offset, ditherProcessor, rs).
                    case view of
                      Inl e \<Rightarrow> (view, offset, ditherProcessor, rs)
                    | Inr buf \<Rightarrow>
                    (let sample = clamp_sample (ab_channels b ! ch ! i);
                         (ditherProcessor, rs, sample) = dither_sample ditherProcessor rs sample;
                         view = setInt16 offset
                                  (if sample < 0 then sample * 0x8000 else sample * 0x7FFF) view
                     in (view, offset + 2, ditherProcessor, rs))) s)"
proof -
  obtain view offset dp rs where s: "s = (view, offset, dp, rs)" by (cases s) auto
  from assms(1) obtain T where off: "offset = length H + 2 * k" and v: "view = Inr (H @ T)"
    and T: "length T = n"
    by (auto simp: header_kept_def s)
  obtain dp' rs' x' where d: "dither_sample dp rs (clamp_sample (ab_channels b ! ch ! i)) = (dp', rs', x')"
    by (cases "dither_sample dp rs (clamp_sample (ab_channels b ! ch ! i))") auto
  have "\<exists>T'. setInt16 (length H + 2 * k) x (Inr (H @ T)) = Inr (H @ T') \<and> length T' = n" for x
    unfolding setInt16_def setUint16_def using assms(2) T
    by (subst setBytes_after_prefix) auto
  then show ?thesis
    by (simp add: header_kept_def s d Let_def off v)
qed

lemma write_pcm16_keeps_header:
  assumes "length T = 2 * (ab_length b * numberOfChannels b)"
  shows "\<exists>T'. fst (write_pcm16_samples b (Inr (H @ T), length H, dp, rs)) = Inr (H @ T')
              \<and> length T' = length T"
proof -
  have "header_kept H (length T) 2 (length [0..<ab_length b] * length [0..<numberOfChannels b])
     (write_pcm16_samples b (Inr (H @ T), length H, dp, rs))"
    unfolding write_pcm16_samples_def
  proof (rule nested_fold_count_bounded [where P = "header_kept H (length T) 2"])
    show "header_kept H (length T) 2 0 (Inr (H @ T), length H, dp, rs)"
      by (simp add: header_kept_def)
  next
    fix i ch k s
    assume k: "k < length [0..<ab_length b] * length [0..<numberOfChannels b]"
      and inv: "header_kept H (length T) 2 k s"
    from k assms have "2 * Suc k \<le> length T" by simp
    from pcm16_keeps_header [OF inv this]
    show "header_kept H (length T) 2 (Suc k)
     ((\<lambda>(view, offset, ditherProcessor, rs).
                    case view of
                      Inl e \<Rightarrow> (view, offset, ditherProcessor, rs)
                    | Inr buf \<Rightarrow>
                    (let sample = clamp_sample (ab_channels b ! ch ! i);
                         (ditherProcessor, rs, sample) = dither_sample ditherProcessor rs sample;
                         view = setInt16 offset
                                  (if sample < 0 then sample * 0x8000 else sample * 0x7FFF) view
                     in (view, offset + 2, ditherProcessor, rs))) s)" .
  qed
  then show ?thesis
    by (cases "write_pcm16_samples b (Inr (H @ T), length H, dp, rs)") (auto simp: header_kept_def)
qed

lemma write_float32_keeps_header:
  assumes f4: "\<And>x. length (float32 x) = 4"
    and "length T = 12 + 4 * (ab_length b * numberOfChannels b)"
  shows "\<exists>T'. fst (write_float32_samples float32 b (Inr (H @ T), length H)) = Inr (H @ T')
              \<and> length T' = length T"
proof -
  let ?P = "\<lambda>k (s :: DataView \<times> nat).
      snd s = length H + 4 * k \<and> (\<exists>T'. fst s = Inr (H @ T') \<and> length T' = length T)"
  have "?P (length [0..<ab_length b] * length [0..<numberOfChannels b])
     (write_float32_samples float32 b (Inr (H @ T), length H))"
    unfolding write_float32_samples_def
  proof (rule nested_fold_count_bounded [where P = ?P])
    show "?P 0 (Inr (H @ T), length H)" by simp
  next
    fix i ch k and s :: "DataView \<times> nat"
    assume k: "k < length [0..<ab_length b] * length [0..<numberOfChannels b]"
      and inv: "?P k s"
    obtain view offset where s: "s = (view, offset)" by (cases s)
    from inv obtain T' where off: "offset = length H + 4 * k" and v: "view = Inr (H @ T')"
      and T': "length T' = length T"
      by (auto simp: s)
    from k assms(2) have r: "4 * Suc k \<le> length T" by simp
    have "\<exists>T''. setBytes (length H + 4 * k) (float32 x) (Inr (H @ T')) = Inr (H @ T'')
            \<and> length T'' = length T" for x
      using r T' f4 [of x] by (subst setBytes_after_prefix) auto
    then show "?P (Suc k)
      ((\<lambda>(view, offset).
                    (let sample = clamp_sample (ab_channels b ! ch ! i)
                     in (setBytes offset (float32 sample) view, offset + 4))) s)"
      by (simp add: s off v Let_def)
  qed
  then show ?thesis by simp
qed

lemma encodeWAV_16_unfolded:
  "encodeWAV float32 rs b 16 dither =
     (case write_pcm16_samples b
        (setUint32 40 (of_nat (ab_length b * (numberOfChannels b * 2)))
          (writeString 36 ''data''
              (setUint16 34 (of_nat 16)
                (setUint16 32 (of_nat (numberOfChannels b * 2))
                  (setUint32 28 (of_nat (ab_sampleRate b * (numberOfChannels b * 2)))
                    (setUint32 24 (of_nat (ab_sampleRate b))
                      (setUint16 22 (of_nat (numberOfChannels b))
                        (setUint16 20 1
                          (setUint32 16 16
                            (writeString 12 ''fmt ''
                              (writeString 8 ''WAVE''
                                (setUint32 4 (of_nat (44 - 8 + ab_length b * (numberOfChannels b * 2)))
                                  (writeString 0 ''RIFF''
                                    (Inr (replicate 44 0
                                          @ replicate (ab_length b * (numberOfChannels b * 2)) 0)))))))))))))),
         44, ditherProcessor_of 16 dither, rs) of
        (view, offset, ditherProcessor, rs') \<Rightarrow> (view, rs'))"
  by (simp add: encodeWAV_def Let_def replicate_add [symmetric])

lemma encodeWAV_32_unfolded:
  "encodeWAV float32 rs b 32 dither =
     (fst (write_float32_samples float32 b
        (setUint32 42 (of_nat (ab_length b * (numberOfChannels b * 4)))
          (writeString 38 ''data''
            (setUint16 36 0
              (setUint16 34 (of_nat 32)
                (setUint16 32 (of_nat (numberOfChannels b * 4))
                  (setUint32 28 (of_nat (ab_sampleRate b * (numberOfChannels b * 4)))
                    (setUint32 24 (of_nat (ab_sampleRate b))
                      (setUint16 22 (of_nat (numberOfChannels b))
                        (setUint16 20 3
                          (setUint32 16 18
                            (writeString 12 ''fmt ''
                              (writeString 8 ''WAVE''
                                (setUint32 4 (of_nat (58 - 8 + ab_length b * (numberOfChannels b * 4)))
                                  (writeString 0 ''RIFF''
                                    (Inr (replicate 46 0
                                          @ replicate (12 + ab_length b * (numberOfChannels b * 4)) 0))))))))))))))),
         46)), rs)"
  by (simp add: encodeWAV_def Let_def replicate_add [symmetric])

lemma length_wav16_header: "length (wav16_header nc sr len) = 44"
  by (simp add: wav16_header_def Let_def le16_def le32_def char_codes_def)

lemma length_wav32_header: "length (wav32_header nc sr len) = 46"
  by (simp add: wav32_header_def Let_def le16_def le32_def char_codes_def)

lemma encodeWAV_16_file:
  "\<exists>T. fst (encodeWAV float32 rs b 16 dither)
          = Inr (wav16_header (numberOfChannels b) (ab_sampleRate b) (ab_length b) @ T)"
proof -
  let ?H = "wav16_header (numberOfChannels b) (ab_sampleRate b) (ab_length b)"
  let ?R = "replicate (ab_length b * (numberOfChannels b * 2)) (0::byte)"
  have R: "length ?R = 2 * (ab_length b * numberOfChannels b)" by simp
  from write_pcm16_keeps_header [OF R, of ?H "ditherProcessor_of 16 dither" rs]
  obtain T' where "fst (write_pcm16_samples b (Inr (?H @ ?R), 44, ditherProcessor_of 16 dither, rs))
      = Inr (?H @ T')"
    unfolding length_wav16_header by blast
  moreover have "fst (encodeWAV float32 rs b 16 dither)
      = fst (write_pcm16_samples b (Inr (?H @ ?R), 44, ditherProcessor_of 16 dither, rs))"
    unfolding encodeWAV_16_unfolded header16_written
    by (simp add: wav16_header_def Let_def split: prod.splits)
  ultimately show ?thesis by auto
qed

lemma encodeWAV_32_file:
  assumes "\<And>x. length (float32 x) = 4"
  shows "\<exists>T. fst (encodeWAV float32 rs b 32 dither)
          = Inr (wav32_header (numberOfChannels b) (ab_sampleRate b) (ab_length b) @ T)"
proof -
  let ?H = "wav32_header (numberOfChannels b) (ab_sampleRate b) (ab_length b)"
  let ?R = "replicate (12 + ab_length b * (numberOfChannels b * 4)) (0::byte)"
  have R: "length ?R = 12 + 4 * (ab_length b * numberOfChannels b)" by simp
  from write_float32_keeps_header [of float32 ?R b ?H, OF assms R]
  obtain T' where "fst (write_float32_samples float32 b (Inr (?H @ ?R), 46)) = Inr (?H @ T')"
    unfolding length_wav32_header by blast
  moreover have "fst (encodeWAV float32 rs b 32 dither)
      = fst (write_float32_samples float32 b (Inr (?H @ ?R), 46))"
    unfolding encodeWAV_32_unfolded header32_written
    by (simp add: wav32_header_def Let_def)
  ultimately show ?thesis by auto
qed

lemma encodeWAV_completes:
  assumes "bitDepth \<in> {16, 24, 32}"
    and "bitDepth = 32 \<Longrightarrow> (\<And>x. length (float32 x) = 4)"
  shows "\<exists>bytes. fst (encodeWAV float32 rs b bitDepth dither) = Inr bytes"
proof -
  consider "bitDepth = 16" | "bitDepth = 24" | "bitDepth = 32" using assms(1) by auto
  then show ?thesis
  proof cases
    case 1
    with encodeWAV_16_file [of float32 rs b dither] show ?thesis by auto
  next
    case 2
    with encodeWAV_24_file [of float32 rs b dither] show ?thesis by auto
  next
    case 3
    with encodeWAV_32_file [of float32 rs b dither] assms(2) show ?thesis by auto
  qed
qed

lemma exportToWAV_completes:
  assumes "globals ''truePeakCeiling'' = Some v"
    and "(case eo_bitDepth options of None \<Rightarrow> 24 | Some b \<Rightarrow> b) \<in> {16, 24, 32}"
    and "eo_bitDepth options = Some 32 \<Longrightarrow> (\<And>x. length (float32 x) = 4)"
  shows "\<exists>h' rs' result. exportToWAV dbl float32 globals h rs audioBuffer filename options
           = (h', rs', Inr result)"
proof -
  let ?bd = "case eo_bitDepth options of None \<Rightarrow> 24 | Some b \<Rightarrow> b"
  let ?d = "case eo_dither options of None \<Rightarrow> True | Some d \<Rightarrow> d"
  from exportToWAV_resolved_form [where globals = globals and v = v and dbl = dbl
      and ?float32.0 = float32 and h = h and rs = rs and audioBuffer = audioBuffer
      and filename = filename and options = options, OF assms(1)]
  obtain h2 wb where
    ex: "exportToWAV dbl float32 globals h rs audioBuffer filename options
          = (case encodeWAV float32 rs (h2 ! wb) ?bd ?d of
               (view, rs') \<Rightarrow>
                 (case view of
                    Inl e \<Rightarrow> (h2, rs', Inl e)
                  | Inr file \<Rightarrow>
                      (h2, rs',
                       Inr \<lparr>er_success = True, er_filename = filename,
                            er_bitDepth = ?bd,
                            er_sampleRate = ab_sampleRate (h2 ! wb),
                            er_fileValidation =
                              validateExportedFile file
                                \<lparr>es_sampleRate = ab_sampleRate (h2 ! wb),
                                 es_bitDepth = ?bd,
                                 es_channels = numberOfChannels (h2 ! wb)\<rparr>,
                            er_file = file\<rparr>)))"
    by blast
  have "?bd = 32 \<Longrightarrow> length (float32 x) = 4" for x
    using assms(3) by (cases "eo_bitDepth options") auto
  from encodeWAV_completes [of ?bd float32 rs "h2 ! wb" ?d, OF assms(2) this]
  obtain bytes rs' where "encodeWAV float32 rs (h2 ! wb) ?bd ?d = (Inr bytes, rs')"
    by (cases "encodeWAV float32 rs (h2 ! wb) ?bd ?d") auto
  then show ?thesis unfolding ex by simp
qed

subsection \<open>Export: dithering\<close>







end
